theory Spec2Isabelle
  imports Complex_Main "HOL-Library.Multiset" "HOL-Library.List_Lexorder" "HOL-Library.Char_ord"
begin


section \<open>Text: characters, whitespace, digits\<close>

text \<open>
  Python strings are modelled as \<^typ>\<open>string\<close>, one \<^typ>\<open>char\<close> per code point, which
  restricts the model to texts whose code points are below 256. In that range the characters
  for which \<^verbatim>\<open>str.isspace\<close> holds (the ones \<^verbatim>\<open>str.strip()\<close> removes and the regular
  expression \<^verbatim>\<open>\s\<close> matches) are 9..13, 28..32, 133 and 160, and the characters matched by
  \<^verbatim>\<open>\d\<close> are the ten ASCII digits.
\<close>

definition is_space :: "char \<Rightarrow> bool" where
  "is_space c = ((of_char c :: nat) \<in> {9, 10, 11, 12, 13, 28, 29, 30, 31, 32, 133, 160})"

definition is_digit :: "char \<Rightarrow> bool" where
  "is_digit c = (c \<in> set ''0123456789'')"

definition digit_val :: "char \<Rightarrow> nat" where
  "digit_val c = of_char c - 48"

definition strip :: "string \<Rightarrow> string" where
  "strip s = rev (dropWhile is_space (rev (dropWhile is_space s)))"

definition lower :: "char \<Rightarrow> char" where
  "lower c = (if c \<in> set ''ABCDEFGHIJKLMNOPQRSTUVWXYZ'' then char_of (of_char c + (32::nat)) else c)"

section \<open>The library call \<^verbatim>\<open>datetime.strptime\<close>\<close>

text \<open>
  \<^verbatim>\<open>datetime.strptime(s, fmt)\<close> (CPython 3.11, module \<^verbatim>\<open>_strptime\<close>) turns the format
  into a regular expression, directive by directive, matches it at the start of \<^verbatim>\<open>s\<close>
  with the usual backtracking priorities, raises \<^verbatim>\<open>ValueError\<close> when there is no match
  or when the match does not reach the end of \<^verbatim>\<open>s\<close>, and then builds the datetime, which
  raises \<^verbatim>\<open>ValueError\<close> again for year 0, a day the month does not have, or second 60
  and 61. The directives this program uses:
  \<^verbatim>\<open>
  %Y  \d\d\d\d
  %m  1[0-2]|0[1-9]|[1-9]
  %d  3[0-1]|[1-2]\d|0[1-9]|[1-9]| [1-9]
  %H  2[0-3]|[0-1]\d|\d
  %M  [0-5]\d|\d
  %S  6[0-1]|[0-5]\d|\d
  %b  jan|feb|mar|apr|may|jun|jul|aug|sep|oct|nov|dec            (ignoring case)
  %B  september|february|november|december|january|october|august|march|april|june|july|may
  a run of whitespace in the format   \s+
  \<close>
  Month names are those of the C locale, which the program never changes.
\<close>

datatype diretiva = DY | Dm | Dd | DH | DM | DS | Db | DB | Esp | Lit char

text \<open>
  Translation of a format string. \<^verbatim>\<open>None\<close> stands for the \<^verbatim>\<open>ValueError\<close> of a stray
  \<^verbatim>\<open>%\<close> or of a directive outside the table above. The flag says whether the previous
  character was whitespace, so that a run of whitespace gives one \<^verbatim>\<open>\s+\<close>.
\<close>

definition diretiva_de :: "char \<Rightarrow> diretiva option" where
  "diretiva_de c =
     (if c = CHR ''Y'' then Some DY else if c = CHR ''m'' then Some Dm
      else if c = CHR ''d'' then Some Dd else if c = CHR ''H'' then Some DH
      else if c = CHR ''M'' then Some DM else if c = CHR ''S'' then Some DS
      else if c = CHR ''b'' then Some Db else if c = CHR ''B'' then Some DB
      else None)"

fun diretivas_aux :: "bool \<Rightarrow> string \<Rightarrow> diretiva list option" where
  "diretivas_aux prev [] = Some []"
| "diretivas_aux prev [c] =
     (if is_space c then Some (if prev then [] else [Esp])
      else if c = CHR ''%'' then None
      else Some [Lit c])"
| "diretivas_aux prev (c # d # r) =
     (if is_space c then
        (if prev then diretivas_aux True (d # r)
         else map_option ((#) Esp) (diretivas_aux True (d # r)))
      else if c = CHR ''%'' then
        (case diretiva_de d of
           None \<Rightarrow> None
         | Some x \<Rightarrow> map_option ((#) x) (diretivas_aux False r))
      else map_option ((#) (Lit c)) (diretivas_aux False (d # r)))"

definition diretivas :: "string \<Rightarrow> diretiva list option" where
  "diretivas fmt = diretivas_aux False fmt"

text \<open>The fields a match collects, with the defaults of \<^verbatim>\<open>_strptime\<close>.\<close>

record campos =
  ano :: nat
  mes :: nat
  dia :: nat
  hora :: nat
  minuto :: nat
  segundo :: nat

definition campos_iniciais :: campos where
  "campos_iniciais = \<lparr>ano = 1900, mes = 1, dia = 1, hora = 0, minuto = 0, segundo = 0\<rparr>"

text \<open>
  Each alternative of a directive's expression, in the order the expression lists them: the
  value read and the text left. \<open>dois\<close> is an alternative of two characters, \<open>um\<close> of one.
\<close>

definition dois :: "(char \<Rightarrow> char \<Rightarrow> bool) \<Rightarrow> string \<Rightarrow> (nat \<times> string) list" where
  "dois p s =
     (case s of
        a # b # r \<Rightarrow> (if p a b then [(10 * digit_val a + digit_val b, r)] else [])
      | _ \<Rightarrow> [])"

definition um :: "(char \<Rightarrow> bool) \<Rightarrow> string \<Rightarrow> (nat \<times> string) list" where
  "um p s = (case s of a # r \<Rightarrow> (if p a then [(digit_val a, r)] else []) | [] \<Rightarrow> [])"

definition quatro :: "string \<Rightarrow> (nat \<times> string) list" where
  "quatro s =
     (case s of
        a # b # c # d # r \<Rightarrow>
          (if is_digit a \<and> is_digit b \<and> is_digit c \<and> is_digit d
           then [(1000 * digit_val a + 100 * digit_val b + 10 * digit_val c + digit_val d, r)]
           else [])
      | _ \<Rightarrow> [])"

definition prefixo_ic :: "string \<Rightarrow> string \<Rightarrow> bool" where
  "prefixo_ic nome s = (length nome \<le> length s \<and> map lower (take (length nome) s) = nome)"

definition nomes :: "(string \<times> nat) list \<Rightarrow> string \<Rightarrow> (nat \<times> string) list" where
  "nomes tab s =
     concat (map (\<lambda>(nome, n). if prefixo_ic nome s then [(n, drop (length nome) s)] else []) tab)"

definition meses_abreviados :: "(string \<times> nat) list" where
  "meses_abreviados =
     [(''jan'', 1), (''feb'', 2), (''mar'', 3), (''apr'', 4), (''may'', 5), (''jun'', 6),
      (''jul'', 7), (''aug'', 8), (''sep'', 9), (''oct'', 10), (''nov'', 11), (''dec'', 12)]"

definition meses_completos :: "(string \<times> nat) list" where
  "meses_completos =
     [(''september'', 9), (''february'', 2), (''november'', 11), (''december'', 12),
      (''january'', 1), (''october'', 10), (''august'', 8), (''march'', 3), (''april'', 4),
      (''june'', 6), (''july'', 7), (''may'', 5)]"

definition espacos :: "string \<Rightarrow> string list" where
  "espacos s =
     (let n = length (takeWhile is_space s) in map (\<lambda>k. drop (n - k) s) [0..<n])"

fun alternativas :: "diretiva \<Rightarrow> campos \<Rightarrow> string \<Rightarrow> (campos \<times> string) list" where
  "alternativas DY f s = map (\<lambda>(v, r). (f\<lparr>ano := v\<rparr>, r)) (quatro s)"
| "alternativas Dm f s =
     map (\<lambda>(v, r). (f\<lparr>mes := v\<rparr>, r))
       (dois (\<lambda>a b. a = CHR ''1'' \<and> b \<in> set ''012'') s
        @ dois (\<lambda>a b. a = CHR ''0'' \<and> b \<in> set ''123456789'') s
        @ um (\<lambda>a. a \<in> set ''123456789'') s)"
| "alternativas Dd f s =
     map (\<lambda>(v, r). (f\<lparr>dia := v\<rparr>, r))
       (dois (\<lambda>a b. a = CHR ''3'' \<and> b \<in> set ''01'') s
        @ dois (\<lambda>a b. a \<in> set ''12'' \<and> is_digit b) s
        @ dois (\<lambda>a b. a = CHR ''0'' \<and> b \<in> set ''123456789'') s
        @ um (\<lambda>a. a \<in> set ''123456789'') s
        @ (case s of
             a # r \<Rightarrow> (if a = CHR '' '' then um (\<lambda>b. b \<in> set ''123456789'') r else [])
           | [] \<Rightarrow> []))"
| "alternativas DH f s =
     map (\<lambda>(v, r). (f\<lparr>hora := v\<rparr>, r))
       (dois (\<lambda>a b. a = CHR ''2'' \<and> b \<in> set ''0123'') s
        @ dois (\<lambda>a b. a \<in> set ''01'' \<and> is_digit b) s
        @ um is_digit s)"
| "alternativas DM f s =
     map (\<lambda>(v, r). (f\<lparr>minuto := v\<rparr>, r))
       (dois (\<lambda>a b. a \<in> set ''012345'' \<and> is_digit b) s @ um is_digit s)"
| "alternativas DS f s =
     map (\<lambda>(v, r). (f\<lparr>segundo := v\<rparr>, r))
       (dois (\<lambda>a b. a = CHR ''6'' \<and> b \<in> set ''01'') s
        @ dois (\<lambda>a b. a \<in> set ''012345'' \<and> is_digit b) s
        @ um is_digit s)"
| "alternativas Db f s = map (\<lambda>(v, r). (f\<lparr>mes := v\<rparr>, r)) (nomes meses_abreviados s)"
| "alternativas DB f s = map (\<lambda>(v, r). (f\<lparr>mes := v\<rparr>, r)) (nomes meses_completos s)"
| "alternativas Esp f s = map (\<lambda>r. (f, r)) (espacos s)"
| "alternativas (Lit c) f s = (case s of a # r \<Rightarrow> (if a = c then [(f, r)] else []) | [] \<Rightarrow> [])"

text \<open>
  All matches of a directive list, first priority first (depth-first through the
  alternatives, which is the order in which a backtracking matcher finds them).
\<close>

fun casar :: "diretiva list \<Rightarrow> campos \<Rightarrow> string \<Rightarrow> (campos \<times> string) list" where
  "casar [] f s = [(f, s)]"
| "casar (d # ds) f s = concat (map (\<lambda>(f', r). casar ds f' r) (alternativas d f s))"

definition bissexto :: "nat \<Rightarrow> bool" where
  "bissexto y = (y mod 4 = 0 \<and> (y mod 100 \<noteq> 0 \<or> y mod 400 = 0))"

definition dias_no_mes :: "nat \<Rightarrow> nat \<Rightarrow> nat" where
  "dias_no_mes y m =
     (if m = 2 then (if bissexto y then 29 else 28)
      else if m \<in> {4, 6, 9, 11} then 30 else 31)"

definition campos_validos :: "campos \<Rightarrow> bool" where
  "campos_validos f =
     (1 \<le> ano f \<and> 1 \<le> mes f \<and> mes f \<le> 12 \<and> 1 \<le> dia f \<and> dia f \<le> dias_no_mes (ano f) (mes f)
      \<and> hora f \<le> 23 \<and> minuto f \<le> 59 \<and> segundo f \<le> 59)"

text \<open>\<^verbatim>\<open>None\<close> is the \<^verbatim>\<open>ValueError\<close> of \<^verbatim>\<open>datetime.strptime\<close>.\<close>

definition strptime :: "string \<Rightarrow> string \<Rightarrow> campos option" where
  "strptime s fmt =
     (case diretivas fmt of
        None \<Rightarrow> None
      | Some ds \<Rightarrow>
          (case casar ds campos_iniciais s of
             [] \<Rightarrow> None
           | (f, r) # _ \<Rightarrow> (if r = [] \<and> campos_validos f then Some f else None)))"

text \<open>
  Naive datetimes compare field by field, year first. \<open>depois a b\<close> is Python's \<^verbatim>\<open>a > b\<close>.
\<close>

fun lex_maior :: "nat list \<Rightarrow> nat list \<Rightarrow> bool" where
  "lex_maior (x # xs) (y # ys) = (y < x \<or> (x = y \<and> lex_maior xs ys))"
| "lex_maior _ _ = False"

definition depois :: "campos \<Rightarrow> campos \<Rightarrow> bool" where
  "depois a b =
     lex_maior [ano a, mes a, dia a, hora a, minuto a, segundo a]
               [ano b, mes b, dia b, hora b, minuto b, segundo b]"

section \<open>Conflict resolution\<close>

text \<open>
  \<^verbatim>\<open>comparar_datas_email\<close>: both strings go through \<^verbatim>\<open>strptime\<close> with the format
  \<^verbatim>\<open>%Y-%m-%d %H:%M:%S\<close>; a \<^verbatim>\<open>ValueError\<close> from either is caught and answers
  \<^verbatim>\<open>True\<close>. (The \<^verbatim>\<open>TypeError\<close> of the handler needs an argument that is not a string,
  which the type excludes.)
\<close>

definition formato_data :: string where
  "formato_data = ''%Y-%m-%d %H:%M:%S''"

definition comparar_datas_email :: "string \<Rightarrow> string \<Rightarrow> bool" where
  "comparar_datas_email data_nova_str data_existente_str =
     (case strptime data_nova_str formato_data of
        None \<Rightarrow> True
      | Some data_nova \<Rightarrow>
          (case strptime data_existente_str formato_data of
             None \<Rightarrow> True
           | Some data_existente \<Rightarrow> depois data_nova data_existente))"

section \<open>Records, processed documents and the document store\<close>

text \<open>
  The extraction result \<^verbatim>\<open>dados_exportacao\<close> is a dictionary decoded from JSON. Its values
  are modelled as the scalar JSON values (null, booleans, integers, strings); floats, arrays
  and objects as field values are outside the model. A dictionary is an association list
  read with \<^const>\<open>map_of\<close>.
\<close>

datatype jvalue = JNull | JBool bool | JInt int | JStr string

type_synonym jdict = "(string \<times> jvalue) list"

datatype excecao = AttributeError | ErroDeEscrita

text \<open>\<^verbatim>\<open>d.get(k, padrao)\<close> and the truth value Python gives a JSON scalar.\<close>

definition obter :: "jdict \<Rightarrow> string \<Rightarrow> jvalue \<Rightarrow> jvalue" where
  "obter d k padrao = (case map_of d k of None \<Rightarrow> padrao | Some v \<Rightarrow> v)"

fun verdadeiro :: "jvalue \<Rightarrow> bool" where
  "verdadeiro JNull = False"
| "verdadeiro (JBool b) = b"
| "verdadeiro (JInt n) = (n \<noteq> 0)"
| "verdadeiro (JStr s) = (s \<noteq> [])"

text \<open>
  \<^verbatim>\<open>dados_exportacao.get("Ordem", "").strip()\<close>: a value that is not a string has no
  \<^verbatim>\<open>strip\<close> and raises \<^verbatim>\<open>AttributeError\<close>.
\<close>

definition ordem_de :: "jdict \<Rightarrow> excecao + string" where
  "ordem_de d = (case obter d ''Ordem'' (JStr []) of JStr s \<Rightarrow> Inr (strip s) | _ \<Rightarrow> Inl AttributeError)"

text \<open>
  \<^verbatim>\<open>email_processado\<close>, as \<^verbatim>\<open>processar_lote_emails\<close> builds it: the \<^verbatim>\<open>metadata\<close>
  fields and the extraction result.
\<close>

record email =
  numero_email :: int
  assunto :: string
  data_recebimento :: string
  endereco_email_remetente :: string
  processamento_timestamp :: string
  dados_exportacao :: jdict

text \<open>
  The store dictionary: the \<^verbatim>\<open>metadata\<close> fields and the \<^verbatim>\<open>emails\<close> list.
  \<^verbatim>\<open>ordens_unicas\<close> is written as \<^verbatim>\<open>list(ordens_existentes)\<close>, a list in the
  unspecified order of a Python set, and only ever read back through \<^verbatim>\<open>set(...)\<close>; it is
  modelled as the set.
\<close>

record dados =
  meta_processamento_timestamp :: string
  total_emails_processados :: int
  emails_com_dados :: int
  ultima_atualizacao :: string
  ordens_unicas :: "string set"
  emails :: "email list"

text \<open>
  The store file: absent, holding the complete serialisation of a store dictionary, or
  holding a truncated serialisation (which \<^verbatim>\<open>json.load\<close> rejects).
\<close>

datatype arquivo_json = Ausente | Completo dados | Parcial

text \<open>
  The process state the functions share. Store dictionaries are mutable objects and
  \<^verbatim>\<open>_json_cache\<close> is a reference to one of them, so the state has a heap of store
  dictionaries (\<open>objetos\<close>, with \<open>proximo\<close> the next unused address); \<^verbatim>\<open>_json_cache\<close>
  starts as \<^verbatim>\<open>None\<close> and \<^verbatim>\<open>_json_cache_time\<close> as 0.
\<close>

record estado =
  objetos :: "nat \<Rightarrow> dados"
  proximo :: nat
  json_cache :: "nat option"
  json_cache_time :: real
  arquivo :: arquivo_json

text \<open>
  What one call reads from its environment: the clock (\<^verbatim>\<open>time.time()\<close>), the text of
  \<^verbatim>\<open>datetime.now().isoformat()\<close> (one value for the calls made during one operation),
  and how the write of the store file goes: it succeeds, or \<^verbatim>\<open>open(nome_arquivo, 'w')\<close>
  raises and leaves the file as it was, or the file is opened, which truncates it, and the
  write raises before the serialisation is complete.
\<close>

datatype resultado_escrita = EscritaOk | FalhaAoAbrir | FalhaAoGravar

record ambiente =
  relogio :: real
  agora :: string
  escrita :: resultado_escrita

definition empty_data :: "ambiente \<Rightarrow> dados" where
  "empty_data amb =
     \<lparr>meta_processamento_timestamp = agora amb, total_emails_processados = 0,
      emails_com_dados = 0, ultima_atualizacao = agora amb, ordens_unicas = {}, emails = []\<rparr>"

definition novo_objeto :: "dados \<Rightarrow> estado \<Rightarrow> nat \<times> estado" where
  "novo_objeto d s =
     (proximo s, s\<lparr>objetos := (objetos s)(proximo s := d), proximo := Suc (proximo s)\<rparr>)"

text \<open>
  \<^verbatim>\<open>carregar_json_existente_rapido\<close> returns a reference. A store dictionary is never
  empty, so the test \<^verbatim>\<open>_json_cache and ...\<close> is the test that the cache is set and younger
  than 30 seconds. Otherwise an existing file is decoded into a new object, which becomes
  the cache with the current time; when the file is absent, or \<^verbatim>\<open>json.load\<close> raises, a
  new empty store becomes the cache and the cache time stays.
\<close>

definition carregar_json_existente_rapido :: "ambiente \<Rightarrow> estado \<Rightarrow> nat \<times> estado" where
  "carregar_json_existente_rapido amb s =
     (case (if relogio amb - json_cache_time s < 30 then json_cache s else None) of
        Some a \<Rightarrow> (a, s)
      | None \<Rightarrow>
          (case arquivo s of
             Completo d \<Rightarrow>
               (let (a, s') = novo_objeto d s
                in (a, s'\<lparr>json_cache := Some a, json_cache_time := relogio amb\<rparr>))
           | _ \<Rightarrow>
               (let (a, s') = novo_objeto (empty_data amb) s
                in (a, s'\<lparr>json_cache := Some a\<rparr>))))"

definition obter_ordens_iniciaisexistentes_rapido :: "ambiente \<Rightarrow> estado \<Rightarrow> string set \<times> estado" where
  "obter_ordens_iniciaisexistentes_rapido amb s =
     (let (a, s') = carregar_json_existente_rapido amb s in (ordens_unicas (objetos s' a), s'))"

text \<open>
  \<^verbatim>\<open>encontrar_email_por_ordem\<close>: the first stored document whose trimmed order equals
  \<open>ordem\<close>, with its index; \<^verbatim>\<open>None\<close> stands for the pair \<^verbatim>\<open>(-1, None)\<close>. The scan raises
  on a stored document whose order is not a string.
\<close>

fun encontrar_desde :: "nat \<Rightarrow> email list \<Rightarrow> string \<Rightarrow> excecao + (nat \<times> email) option" where
  "encontrar_desde i [] ordem = Inr None"
| "encontrar_desde i (e # es) ordem =
     (case ordem_de (dados_exportacao e) of
        Inl x \<Rightarrow> Inl x
      | Inr k \<Rightarrow> (if k = ordem then Inr (Some (i, e)) else encontrar_desde (Suc i) es ordem))"

definition encontrar_email_por_ordem :: "dados \<Rightarrow> string \<Rightarrow> excecao + (nat \<times> email) option" where
  "encontrar_email_por_ordem dados_existentes ordem = encontrar_desde 0 (emails dados_existentes) ordem"

text \<open>The documents that \<^verbatim>\<open>emails_com_dados\<close> counts.\<close>

definition com_dados :: "email \<Rightarrow> bool" where
  "com_dados e =
     (map_of (dados_exportacao e) ''status'' \<noteq> Some (JStr ''SEM_DADOS_EXPORTACAO'')
      \<and> \<not> verdadeiro (obter (dados_exportacao e) ''erro'' JNull))"

text \<open>
  The write at the end of both paths of the save: \<^verbatim>\<open>open(nome_arquivo, 'w')\<close> followed by
  \<^verbatim>\<open>json.dump\<close> of the object at \<open>a\<close>, then \<^verbatim>\<open>_json_cache = dados_existentes\<close> and
  \<^verbatim>\<open>return True\<close>; an exception reaches the handler, which returns \<^verbatim>\<open>False\<close>.
\<close>

definition gravar :: "ambiente \<Rightarrow> nat \<Rightarrow> string set \<Rightarrow> estado \<Rightarrow> (bool \<times> string set) \<times> estado" where
  "gravar amb a ordens s =
     (case escrita amb of
        EscritaOk \<Rightarrow> ((True, ordens), s\<lparr>arquivo := Completo (objetos s a), json_cache := Some a\<rparr>)
      | FalhaAoAbrir \<Rightarrow> ((False, ordens), s)
      | FalhaAoGravar \<Rightarrow> ((False, ordens), s\<lparr>arquivo := Parcial\<rparr>))"

text \<open>
  \<^verbatim>\<open>salvar_json_incremental_rapido\<close>. The object the load returns is the cache object and
  is changed in place; \<^verbatim>\<open>ordens_existentes\<close> is a set changed in place and returned, so the
  result carries its new value on every path, the failing ones included.
\<close>

definition salvar_json_incremental_rapido ::
  "ambiente \<Rightarrow> email \<Rightarrow> string set \<Rightarrow> estado \<Rightarrow> (bool \<times> string set) \<times> estado" where
  "salvar_json_incremental_rapido amb email_processado ordens_existentes s =
     (case ordem_de (dados_exportacao email_processado) of
        Inl _ \<Rightarrow> ((False, ordens_existentes), s)
      | Inr ordem \<Rightarrow>
          (let (a, s1) = carregar_json_existente_rapido amb s;
               dados_existentes = objetos s1 a
           in if ordem \<noteq> [] \<and> ordem \<in> ordens_existentes then
                (case encontrar_email_por_ordem dados_existentes ordem of
                   Inl _ \<Rightarrow> ((False, ordens_existentes), s1)
                 | Inr None \<Rightarrow> ((False, ordens_existentes), s1)
                 | Inr (Some (indice_existente, email_existente)) \<Rightarrow>
                     (if comparar_datas_email (data_recebimento email_processado)
                           (data_recebimento email_existente)
                      then gravar amb a ordens_existentes
                             (s1\<lparr>objetos := (objetos s1)(a := dados_existentes
                                   \<lparr>emails := (emails dados_existentes)[indice_existente := email_processado],
                                    ultima_atualizacao := agora amb\<rparr>)\<rparr>)
                      else ((False, ordens_existentes), s1)))
              else
                (let lista = emails dados_existentes @ [email_processado];
                     ordens = (if ordem \<noteq> [] then insert ordem ordens_existentes else ordens_existentes)
                 in gravar amb a ordens
                      (s1\<lparr>objetos := (objetos s1)(a := dados_existentes
                            \<lparr>emails := lista,
                             ordens_unicas := (if ordem \<noteq> [] then ordens else ordens_unicas dados_existentes),
                             total_emails_processados := int (length lista),
                             emails_com_dados := int (length (filter com_dados lista)),
                             ultima_atualizacao := agora amb\<rparr>)\<rparr>))))"

text \<open>
  A run of saves the way the callers chain them
  (\<^verbatim>\<open>sucesso, ordens_unicas = salvar_json_incremental_rapido(...)\<close>), and the state of a
  process that has loaded nothing and has no store file.
\<close>

fun salvar_em_sequencia :: "(ambiente \<times> email) list \<Rightarrow> string set \<Rightarrow> estado \<Rightarrow> string set \<times> estado" where
  "salvar_em_sequencia [] ordens s = (ordens, s)"
| "salvar_em_sequencia ((amb, e) # r) ordens s =
     (let ((sucesso, ordens'), s') = salvar_json_incremental_rapido amb e ordens s
      in salvar_em_sequencia r ordens' s')"

definition estado_inicial :: estado where
  "estado_inicial =
     \<lparr>objetos = (\<lambda>_. \<lparr>meta_processamento_timestamp = [], total_emails_processados = 0,
                      emails_com_dados = 0, ultima_atualizacao = [], ordens_unicas = {},
                      emails = []\<rparr>),
      proximo = 0, json_cache = None, json_cache_time = 0, arquivo = Ausente\<rparr>"

text \<open>The store dictionary the cache refers to, and the one the file holds.\<close>

definition em_cache :: "estado \<Rightarrow> dados option" where
  "em_cache s = map_option (objetos s) (json_cache s)"

definition em_arquivo :: "estado \<Rightarrow> dados option" where
  "em_arquivo s = (case arquivo s of Completo d \<Rightarrow> Some d | _ \<Rightarrow> None)"

text \<open>The documents of a store whose trimmed order is \<open>k\<close>.\<close>

definition com_ordem :: "string \<Rightarrow> dados \<Rightarrow> email list" where
  "com_ordem k d = filter (\<lambda>e. ordem_de (dados_exportacao e) = Inr k) (emails d)"

text \<open>The store dictionary that a load made now would return.\<close>

definition carregado :: "ambiente \<Rightarrow> estado \<Rightarrow> dados" where
  "carregado amb s =
     (let (a, s') = carregar_json_existente_rapido amb s in objetos s' a)"

text \<open>
  The invariant of a store under a key set: every stored document has a readable order,
  every non-empty stored order is in the key set, and no non-empty order is stored twice.
\<close>

definition chaves_ok :: "string set \<Rightarrow> dados \<Rightarrow> bool" where
  "chaves_ok os d =
     ((\<forall>e\<in>set (emails d). \<exists>k. ordem_de (dados_exportacao e) = Inr k \<and> (k \<noteq> [] \<longrightarrow> k \<in> os))
      \<and> (\<forall>k. k \<noteq> [] \<longrightarrow> length (com_ordem k d) \<le> 1))"

definition estado_ok :: "string set \<Rightarrow> estado \<Rightarrow> bool" where
  "estado_ok os s =
     ((\<forall>d. em_cache s = Some d \<longrightarrow> chaves_ok os d) \<and> (\<forall>d. em_arquivo s = Some d \<longrightarrow> chaves_ok os d))"

text \<open>
  The valid record in the words of the specification: a non-empty order key and no error
  or no-data marker. (\<open>com_dados\<close> above is the test the code counts with.)
\<close>

definition registro_valido :: "email \<Rightarrow> bool" where
  "registro_valido e =
     ((case ordem_de (dados_exportacao e) of Inr k \<Rightarrow> k \<noteq> [] | Inl _ \<Rightarrow> False) \<and> com_dados e)"

definition total_ok :: "dados \<Rightarrow> bool" where
  "total_ok d = (total_emails_processados d = int (length (emails d)))"

section \<open>Type coercions of the relational synchronisation\<close>

text \<open>
  \<^verbatim>\<open>str(v)\<close> for a JSON scalar that passed the test \<^verbatim>\<open>not v\<close> (so it is neither
  \<^verbatim>\<open>None\<close>, \<^verbatim>\<open>False\<close>, 0 nor the empty string).
\<close>

function str_nat :: "nat \<Rightarrow> string" where
  "str_nat n =
     (if n < 10 then [char_of (48 + n)] else str_nat (n div 10) @ [char_of (48 + n mod 10)])"
  by pat_completeness auto
termination
  by (relation "measure id") auto

definition str_int :: "int \<Rightarrow> string" where
  "str_int i = (if i < 0 then CHR ''-'' # str_nat (nat (- i)) else str_nat (nat i))"

fun str :: "jvalue \<Rightarrow> string" where
  "str (JStr s) = s"
| "str (JInt i) = str_int i"
| "str (JBool b) = (if b then ''True'' else ''False'')"
| "str JNull = ''None''"

text \<open>
  The eight layouts of \<^verbatim>\<open>converter_para_data\<close>, in the order of the source, and the date
  part of a parsed timestamp (\<^verbatim>\<open>.date()\<close>) as year, month, day.
\<close>

type_synonym date = "nat \<times> nat \<times> nat"

definition formatos_data :: "string list" where
  "formatos_data =
     [''%Y-%m-%d'', ''%d/%m/%Y'', ''%d-%m-%Y'', ''%m/%d/%Y'', ''%Y/%m/%d'', ''%d.%m.%Y'',
      ''%d %b %Y'', ''%d %B %Y'']"

definition para_date :: "campos \<Rightarrow> date" where
  "para_date f = (ano f, mes f, dia f)"

text \<open>The \<^verbatim>\<open>for formato in formatos_data\<close> loop: the first layout that parses answers.\<close>

fun tentar_formatos :: "string list \<Rightarrow> string \<Rightarrow> date option" where
  "tentar_formatos [] data_str = None"
| "tentar_formatos (formato # r) data_str =
     (case strptime data_str formato of
        Some f \<Rightarrow> Some (para_date f)
      | None \<Rightarrow> tentar_formatos r data_str)"

text \<open>
  \<^verbatim>\<open>converter_para_data\<close>. The permissive parser of the last resort,
  \<^verbatim>\<open>dateutil.parser.parse(data_str, dayfirst=True).date()\<close>, is a library outside the
  repository and is a parameter: \<^verbatim>\<open>None\<close> is any exception it raises (the bare
  \<^verbatim>\<open>except\<close> answers \<^verbatim>\<open>None\<close>). \<^verbatim>\<open>pd.isna\<close> is false on every string, integer and
  boolean.
\<close>

definition converter_para_data :: "(string \<Rightarrow> date option) \<Rightarrow> jvalue \<Rightarrow> date option" where
  "converter_para_data dateutil_parse data_str =
     (if \<not> verdadeiro data_str then None
      else (case tentar_formatos formatos_data (strip (str data_str)) of
              Some d \<Rightarrow> Some d
            | None \<Rightarrow> dateutil_parse (strip (str data_str))))"

text \<open>
  \<^verbatim>\<open>float(valor_limpo)\<close> on a text of digits and dots: \<^verbatim>\<open>ValueError\<close> (\<^verbatim>\<open>None\<close>) unless
  there is at most one dot and at least one digit. The result is the decimal value of the
  text as a rational; \<^verbatim>\<open>float\<close> rounds it to the nearest double, which changes nothing
  for whole numbers below \<open>2 ^ 53\<close>. The rounding is not modelled.
\<close>

definition valor_decimal :: "string \<Rightarrow> nat" where
  "valor_decimal s = foldl (\<lambda>a c. 10 * a + digit_val c) 0 s"

definition py_float :: "string \<Rightarrow> rat option" where
  "py_float s =
     (let inteira = takeWhile (\<lambda>c. c \<noteq> CHR ''.'') s;
          fracao = drop 1 (dropWhile (\<lambda>c. c \<noteq> CHR ''.'') s)
      in if CHR ''.'' \<in> set fracao \<or> (inteira = [] \<and> fracao = []) then None
         else Some (of_nat (valor_decimal (inteira @ fracao)) / 10 ^ length fracao))"

text \<open>
  \<^verbatim>\<open>converter_para_decimal\<close>: \<^verbatim>\<open>re.sub(r'[^\d,]', '', str(valor_str))\<close> keeps the digits
  and the commas, \<^verbatim>\<open>replace(',', '.')\<close> turns each comma into a dot, an empty text
  answers \<^verbatim>\<open>None\<close>, and the \<^verbatim>\<open>ValueError\<close> of \<^verbatim>\<open>float\<close> is caught and answers
  \<^verbatim>\<open>None\<close>.
\<close>

definition converter_para_decimal :: "jvalue \<Rightarrow> rat option" where
  "converter_para_decimal valor_str =
     (if \<not> verdadeiro valor_str then None
      else (let valor_limpo = filter (\<lambda>c. is_digit c \<or> c = CHR '','') (str valor_str);
                valor_limpo = map (\<lambda>c. if c = CHR '','' then CHR ''.'' else c) valor_limpo
            in if valor_limpo = [] then None else py_float valor_limpo))"

section \<open>Relational synchronisation\<close>

text \<open>
  A row of the table \<^verbatim>\<open>dbCONTAINER\<close> (class \<^verbatim>\<open>ExportacaoDB\<close>). The text columns receive
  whatever \<^verbatim>\<open>dados_exportacao.get(..., "")\<close> answers. The two audit columns filled by the
  database (\<^verbatim>\<open>data_processamento\<close>, \<^verbatim>\<open>data_atualizacao\<close>) are left out. The column
  \<^verbatim>\<open>id\<close> is called \<open>id_db\<close> here.
\<close>

record exportacao_db =
  id_db :: string
  data_embarque :: "date option"
  planta_carregamento :: jvalue
  tipo_embarque :: jvalue
  temperatura :: jvalue
  ordem :: string
  porto_saida :: jvalue
  porto_chegada :: jvalue
  companhia :: jvalue
  navio :: jvalue
  dline :: jvalue
  reserva_booking :: jvalue
  id_autorizacao :: jvalue
  resumo_embarque :: jvalue
  transportador_ter :: jvalue
  eta :: "date option"
  valor_pedido :: "rat option"

text \<open>
  The two library functions the synchronisation calls and the repository does not define:
  the permissive date parser and \<^verbatim>\<open>hashlib.md5(...).hexdigest()\<close>.
\<close>

record bibliotecas =
  lib_dateutil_parse :: "string \<Rightarrow> date option"
  lib_md5_hexdigest :: "string \<Rightarrow> string"

text \<open>
  The key \<^verbatim>\<open>"ID_(autoriza\<close>\<open>\<dots>\<close>\<^verbatim>\<open>o)"\<close> of the extraction result, whose two accented letters
  are the code points 231 and 227.
\<close>

definition chave_id_autorizacao :: string where
  "chave_id_autorizacao = ''ID_(autoriza'' @ [CHR 0xE7, CHR 0xE3] @ ''o)''"

text \<open>The branch that updates the existing row, column by column.\<close>

definition atualizar_registro :: "bibliotecas \<Rightarrow> jdict \<Rightarrow> exportacao_db \<Rightarrow> exportacao_db" where
  "atualizar_registro libs d registro_existente =
     registro_existente
       \<lparr>data_embarque := converter_para_data (lib_dateutil_parse libs) (obter d ''data_embarque'' (JStr [])),
        planta_carregamento := obter d ''planta_carregamento'' (JStr []),
        tipo_embarque := obter d ''Tipo_de_embarque'' (JStr []),
        temperatura := obter d ''Temperatura'' (JStr []),
        porto_saida := obter d ''Porto_de_saida'' (JStr []),
        porto_chegada := obter d ''Porto_de_chegada'' (JStr []),
        companhia := obter d ''Companhia'' (JStr []),
        navio := obter d ''Navio'' (JStr []),
        dline := obter d ''DLine'' (JStr []),
        reserva_booking := obter d ''Reserva_(Booking)'' (JStr []),
        id_autorizacao := obter d chave_id_autorizacao (JStr []),
        resumo_embarque := obter d ''Resumo_embarque'' (JStr []),
        transportador_ter := obter d ''Transportador_Ter'' (JStr []),
        eta := converter_para_data (lib_dateutil_parse libs) (obter d ''ETA'' (JStr [])),
        valor_pedido := converter_para_decimal (obter d ''Valor_Pedido_(R$)'' (JStr []))\<rparr>"

text \<open>The branch that builds a new row; its \<^verbatim>\<open>id\<close> is the first 50 characters of the digest.\<close>

definition novo_registro :: "bibliotecas \<Rightarrow> jdict \<Rightarrow> string \<Rightarrow> exportacao_db" where
  "novo_registro libs d k =
     \<lparr>id_db = take 50 (lib_md5_hexdigest libs k),
      data_embarque = converter_para_data (lib_dateutil_parse libs) (obter d ''data_embarque'' (JStr [])),
      planta_carregamento = obter d ''planta_carregamento'' (JStr []),
      tipo_embarque = obter d ''Tipo_de_embarque'' (JStr []),
      temperatura = obter d ''Temperatura'' (JStr []),
      ordem = k,
      porto_saida = obter d ''Porto_de_saida'' (JStr []),
      porto_chegada = obter d ''Porto_de_chegada'' (JStr []),
      companhia = obter d ''Companhia'' (JStr []),
      navio = obter d ''Navio'' (JStr []),
      dline = obter d ''DLine'' (JStr []),
      reserva_booking = obter d ''Reserva_(Booking)'' (JStr []),
      id_autorizacao = obter d chave_id_autorizacao (JStr []),
      resumo_embarque = obter d ''Resumo_embarque'' (JStr []),
      transportador_ter = obter d ''Transportador_Ter'' (JStr []),
      eta = converter_para_data (lib_dateutil_parse libs) (obter d ''ETA'' (JStr [])),
      valor_pedido = converter_para_decimal (obter d ''Valor_Pedido_(R$)'' (JStr []))\<rparr>"

text \<open>
  \<^verbatim>\<open>session.query(ExportacaoDB).filter_by(ordem=ordem).first()\<close> followed by the update of
  the row found or by \<^verbatim>\<open>session.add\<close> of a new one. The session is the list of its rows.
\<close>

fun atualizar_ou_inserir :: "bibliotecas \<Rightarrow> jdict \<Rightarrow> string \<Rightarrow> exportacao_db list \<Rightarrow> exportacao_db list" where
  "atualizar_ou_inserir libs d k [] = [novo_registro libs d k]"
| "atualizar_ou_inserir libs d k (r # rs) =
     (if ordem r = k then atualizar_registro libs d r # rs
      else r # atualizar_ou_inserir libs d k rs)"

text \<open>
  The loop over the stored documents. A document with the no-data status or an error is
  skipped, and so is one with an empty order; an order that is not a string raises outside
  the inner \<^verbatim>\<open>try\<close> and ends the loop. (The four counters are only printed.)
\<close>

fun sincronizar_emails :: "bibliotecas \<Rightarrow> email list \<Rightarrow> exportacao_db list \<Rightarrow> excecao + exportacao_db list" where
  "sincronizar_emails libs [] sessao = Inr sessao"
| "sincronizar_emails libs (e # es) sessao =
     (if \<not> com_dados e then sincronizar_emails libs es sessao
      else (case ordem_de (dados_exportacao e) of
              Inl x \<Rightarrow> Inl x
            | Inr k \<Rightarrow>
                (if k = [] then sincronizar_emails libs es sessao
                 else sincronizar_emails libs es (atualizar_ou_inserir libs (dados_exportacao e) k sessao))))"

text \<open>
  The constraints of the table: \<^verbatim>\<open>id\<close> is the primary key and \<^verbatim>\<open>ordem\<close> is unique. A
  violation surfaces as an exception at a flush or at the commit, and every such path ends
  in \<^verbatim>\<open>session.rollback()\<close> and \<^verbatim>\<open>return False\<close>.
\<close>

definition integra :: "exportacao_db list \<Rightarrow> bool" where
  "integra t = (distinct (map id_db t) \<and> distinct (map ordem t))"

text \<open>
  \<^verbatim>\<open>sincronizar_json_para_banco\<close>: the table after the call (the committed rows, or the
  rows as they were after a rollback), the answer, and the process state, which the load
  of the store may change.
\<close>

definition sincronizar_json_para_banco ::
  "bibliotecas \<Rightarrow> ambiente \<Rightarrow> exportacao_db list \<Rightarrow> estado \<Rightarrow> (bool \<times> exportacao_db list) \<times> estado" where
  "sincronizar_json_para_banco libs amb tabela s =
     (let (a, s') = carregar_json_existente_rapido amb s;
          dados_json = objetos s' a
      in (case sincronizar_emails libs (emails dados_json) tabela of
            Inl _ \<Rightarrow> ((False, tabela), s')
          | Inr sessao \<Rightarrow> (if integra sessao then ((True, sessao), s') else ((False, tabela), s'))))"

section \<open>Batch processing\<close>

text \<open>
  One raw document of a batch, with what the loop body reads from outside the repository
  while it handles it: the subject, the receipt time already formatted by
  \<^verbatim>\<open>strftime("%Y-%m-%d %H:%M:%S")\<close> (or \<^verbatim>\<open>str\<close>), the sender, the answer of the
  extraction (\<^verbatim>\<open>processar_email_json_rapido\<close>, a call to the language model, or the
  status \<^verbatim>\<open>PROCESSAMENTO_AI_INDISPONIVEL\<close>), the processing timestamp, and the
  environments of the save and of the synchronisation.
\<close>

record entrada =
  en_assunto :: string
  en_data_str :: string
  en_remetente :: string
  en_dados_exportacao :: jdict
  en_timestamp :: string
  en_amb_salvar :: ambiente
  en_amb_sincronizar :: ambiente

text \<open>
  The variables of the loop of \<^verbatim>\<open>processar_lote_emails\<close>: the three counters, the set
  \<^verbatim>\<open>ordens_unicas\<close>, the rows of \<^verbatim>\<open>session_db\<close> (\<^verbatim>\<open>None\<close> when there is no session) and
  the process state.
\<close>

record laco =
  emails_processados :: int
  emails_duplicados :: int
  emails_atualizados :: int
  conjunto_ordens :: "string set"
  session_db :: "exportacao_db list option"
  processo :: estado

text \<open>
  The document the loop body builds (lines 596 to 605). \<open>dados_existentes\<close> is the
  reference the caller passed: the number reads \<^verbatim>\<open>total_emails_processados\<close> from that
  object as it is at this moment.
\<close>

definition montar_email :: "nat \<Rightarrow> laco \<Rightarrow> entrada \<Rightarrow> email" where
  "montar_email dados_existentes l x =
     \<lparr>numero_email =
        total_emails_processados (objetos (processo l) dados_existentes) + emails_processados l + 1,
      assunto = en_assunto x,
      data_recebimento = en_data_str x,
      endereco_email_remetente = en_remetente x,
      processamento_timestamp = en_timestamp x,
      dados_exportacao = en_dados_exportacao x\<rparr>"

text \<open>
  The update test of lines 607 to 614, which only feeds the counter
  \<^verbatim>\<open>emails_atualizados\<close>; it looks the order up in the object \<open>dados_existentes\<close>. Both the
  trimming of the order and the scan can raise, and here nothing catches the exception.
\<close>

definition conta_atualizacao :: "nat \<Rightarrow> laco \<Rightarrow> entrada \<Rightarrow> excecao + bool" where
  "conta_atualizacao dados_existentes l x =
     (case ordem_de (en_dados_exportacao x) of
        Inl err \<Rightarrow> Inl err
      | Inr k \<Rightarrow>
          (if k \<noteq> [] \<and> k \<in> conjunto_ordens l then
             (case encontrar_email_por_ordem (objetos (processo l) dados_existentes) k of
                Inl err \<Rightarrow> Inl err
              | Inr None \<Rightarrow> Inr False
              | Inr (Some (indice_existente, email_existente)) \<Rightarrow>
                  Inr (comparar_datas_email (en_data_str x) (data_recebimento email_existente)))
           else Inr False))"

text \<open>One turn of the loop.\<close>

definition passo_lote :: "bibliotecas \<Rightarrow> nat \<Rightarrow> entrada \<Rightarrow> laco \<Rightarrow> excecao + laco" where
  "passo_lote libs dados_existentes x l =
     (case conta_atualizacao dados_existentes l x of
        Inl err \<Rightarrow> Inl err
      | Inr atualiza \<Rightarrow>
          (let ((sucesso, ordens), s1) =
                 salvar_json_incremental_rapido (en_amb_salvar x) (montar_email dados_existentes l x)
                   (conjunto_ordens l) (processo l);
               l1 = l\<lparr>emails_atualizados := emails_atualizados l + (if atualiza then 1 else 0),
                       conjunto_ordens := ordens, processo := s1\<rparr>
           in if sucesso then
                (case session_db l1 of
                   None \<Rightarrow> Inr (l1\<lparr>emails_processados := emails_processados l1 + 1\<rparr>)
                 | Some tabela \<Rightarrow>
                     (let ((ok, tabela'), s2) =
                            sincronizar_json_para_banco libs (en_amb_sincronizar x) tabela s1
                      in Inr (l1\<lparr>emails_processados := emails_processados l1 + 1,
                                   session_db := Some tabela', processo := s2\<rparr>)))
              else Inr (l1\<lparr>emails_duplicados := emails_duplicados l1 + 1\<rparr>)))"

text \<open>
  The loop: an exception leaves the function with the variables as the previous turns left
  them.
\<close>

fun laco_lote :: "bibliotecas \<Rightarrow> nat \<Rightarrow> entrada list \<Rightarrow> laco \<Rightarrow> excecao option \<times> laco" where
  "laco_lote libs dados_existentes [] l = (None, l)"
| "laco_lote libs dados_existentes (x # xs) l =
     (case passo_lote libs dados_existentes x l of
        Inl err \<Rightarrow> (Some err, l)
      | Inr l' \<Rightarrow> laco_lote libs dados_existentes xs l')"

definition processar_lote_emails ::
  "bibliotecas \<Rightarrow> entrada list \<Rightarrow> nat \<Rightarrow> string set \<Rightarrow> exportacao_db list option \<Rightarrow> estado
     \<Rightarrow> excecao option \<times> laco" where
  "processar_lote_emails libs emails_lote dados_existentes ordens_iniciais sessao s =
     laco_lote libs dados_existentes emails_lote
       \<lparr>emails_processados = 0, emails_duplicados = 0, emails_atualizados = 0,
        conjunto_ordens = ordens_iniciais, session_db = sessao, processo = s\<rparr>"

text \<open>The sequence numbers the turns of the loop give to the documents they build.\<close>

fun numeros_atribuidos :: "bibliotecas \<Rightarrow> nat \<Rightarrow> entrada list \<Rightarrow> laco \<Rightarrow> int list" where
  "numeros_atribuidos libs dados_existentes [] l = []"
| "numeros_atribuidos libs dados_existentes (x # xs) l =
     numero_email (montar_email dados_existentes l x) #
       (case passo_lote libs dados_existentes x l of
          Inl err \<Rightarrow> []
        | Inr l' \<Rightarrow> numeros_atribuidos libs dados_existentes xs l')"

text \<open>
  The batches of one run, as \<^verbatim>\<open>pipeline_principal_otimizada\<close> drives them (lines 739 to
  763): the store and the key set are loaded once, every batch receives the same key set
  object, and after each batch \<^verbatim>\<open>dados_existentes\<close> is loaded again. Each batch comes with
  the environment of the load that follows it.
\<close>

fun executar_lotes ::
  "bibliotecas \<Rightarrow> (entrada list \<times> ambiente) list \<Rightarrow> nat \<Rightarrow> string set \<Rightarrow> exportacao_db list option
     \<Rightarrow> estado \<Rightarrow> excecao option \<times> string set \<times> exportacao_db list option \<times> estado" where
  "executar_lotes libs [] dados_existentes ordens sessao s = (None, ordens, sessao, s)"
| "executar_lotes libs ((lote, amb) # r) dados_existentes ordens sessao s =
     (case processar_lote_emails libs lote dados_existentes ordens sessao s of
        (Some err, l) \<Rightarrow> (Some err, conjunto_ordens l, session_db l, processo l)
      | (None, l) \<Rightarrow>
          (let (a, s') = carregar_json_existente_rapido amb (processo l)
           in executar_lotes libs r a (conjunto_ordens l) (session_db l) s'))"

definition processar_em_lotes ::
  "bibliotecas \<Rightarrow> ambiente \<Rightarrow> ambiente \<Rightarrow> (entrada list \<times> ambiente) list \<Rightarrow> exportacao_db list option
     \<Rightarrow> estado \<Rightarrow> excecao option \<times> string set \<times> exportacao_db list option \<times> estado" where
  "processar_em_lotes libs amb0 amb1 lotes sessao s =
     (let (dados_existentes, s1) = carregar_json_existente_rapido amb0 s;
          (ordens, s2) = obter_ordens_iniciaisexistentes_rapido amb1 s1
      in executar_lotes libs lotes dados_existentes ordens sessao s2)"

section \<open>Spreadsheet reconciliation\<close>

text \<open>
  A row of either frame of \<^verbatim>\<open>atualizar_planilha_avancado\<close>: the value of the column
  \<^verbatim>\<open>CONTRATO\<close> as text (both frames are read after \<^verbatim>\<open>astype(str)\<close> of that column, and
  the frame of the database after \<^verbatim>\<open>rename(columns=mapeamento)\<close>), and the other cells of
  the row, which the reconciliation never looks into.
\<close>

type_synonym 'c linha = "string \<times> 'c"

text \<open>\<^verbatim>\<open>drop_duplicates(subset=[coluna_ordem])\<close>: the first row of each key stays.\<close>

fun drop_duplicates_desde :: "string list \<Rightarrow> 'c linha list \<Rightarrow> 'c linha list" where
  "drop_duplicates_desde vistos [] = []"
| "drop_duplicates_desde vistos (r # rs) =
     (if fst r \<in> set vistos then drop_duplicates_desde vistos rs
      else r # drop_duplicates_desde (fst r # vistos) rs)"

definition drop_duplicates :: "'c linha list \<Rightarrow> 'c linha list" where
  "drop_duplicates df = drop_duplicates_desde [] df"

text \<open>\<^verbatim>\<open>df[df[coluna_ordem].isin(chaves)]\<close>.\<close>

definition isin :: "'c linha list \<Rightarrow> string list \<Rightarrow> 'c linha list" where
  "isin df chaves = filter (\<lambda>r. fst r \<in> set chaves) df"

text \<open>
  \<^verbatim>\<open>atualizar_planilha_avancado\<close>, from the two frames to the rows of the sheet after the
  call. An empty database frame returns before anything is written, so the sheet stays as
  it was. Otherwise the outer merge of the two key columns with its indicator splits the
  keys into those only in the sheet, those only in the database and those in both; the
  sheet keeps its rows of the first kind, the database rows of the other two kinds are
  appended, and the frame is sorted by key. \<^verbatim>\<open>sort_values\<close> compares the keys as Python
  strings, code point by code point; the order it gives to rows of equal key is not fixed
  by pandas, and \<^const>\<open>sort_key\<close> keeps them in their order.
\<close>

definition atualizar_planilha_avancado :: "'c linha list \<Rightarrow> 'c linha list \<Rightarrow> 'c linha list" where
  "atualizar_planilha_avancado dados_banco df_excel =
     (if dados_banco = [] then df_excel
      else
        (let dados_banco_preparados = drop_duplicates dados_banco;
             chaves_excel = map fst df_excel;
             chaves_banco = map fst dados_banco_preparados;
             apenas_excel = filter (\<lambda>k. k \<notin> set chaves_banco) chaves_excel;
             apenas_banco = filter (\<lambda>k. k \<notin> set chaves_excel) chaves_banco;
             em_ambos = filter (\<lambda>k. k \<in> set chaves_banco) chaves_excel;
             df_final = isin df_excel apenas_excel;
             df_final = (if em_ambos \<noteq> [] then df_final @ isin dados_banco_preparados em_ambos
                         else df_final);
             df_final = (if apenas_banco \<noteq> [] then df_final @ isin dados_banco_preparados apenas_banco
                         else df_final)
         in sort_key fst df_final))"

section \<open>The order of timestamps\<close>

lemma lex_maior_irrefl: "\<not> lex_maior xs xs"
  by (induction xs) auto

lemma lex_maior_asym: "lex_maior xs ys \<Longrightarrow> \<not> lex_maior ys xs"
  by (induction xs ys rule: lex_maior.induct) auto

lemma lex_maior_trans: "lex_maior xs ys \<Longrightarrow> lex_maior ys zs \<Longrightarrow> lex_maior xs zs"
proof (induction xs ys arbitrary: zs rule: lex_maior.induct)
  case (1 x xs y ys)
  then show ?case by (cases zs) auto
qed auto

lemma lex_maior_total: "length xs = length ys \<Longrightarrow> lex_maior xs ys \<or> lex_maior ys xs \<or> xs = ys"
  by (induction xs ys rule: list_induct2) auto

lemma depois_irrefl: "\<not> depois a a"
  by (simp add: depois_def lex_maior_irrefl)

lemma depois_asym: "depois a b \<Longrightarrow> \<not> depois b a"
  unfolding depois_def by (rule lex_maior_asym)

lemma depois_trans: "depois a b \<Longrightarrow> depois b c \<Longrightarrow> depois a c"
  unfolding depois_def by (rule lex_maior_trans)

lemma depois_total: "depois a b \<or> depois b a \<or> a = (b::campos)"
proof -
  let ?l = "\<lambda>c. [ano c, mes c, dia c, hora c, minuto c, segundo c]"
  have "lex_maior (?l a) (?l b) \<or> lex_maior (?l b) (?l a) \<or> ?l a = ?l b"
    by (rule lex_maior_total) simp
  then show ?thesis
    by (auto simp: depois_def)
qed

text \<open>
  C2. \<^verbatim>\<open>comparar_datas_email\<close> answers \<^verbatim>\<open>True\<close> when either timestamp fails to parse in
  the layout \<^verbatim>\<open>%Y-%m-%d %H:%M:%S\<close>; when both parse, it answers \<^verbatim>\<open>True\<close> exactly when
  the candidate is strictly later than the existing one, so equal timestamps answer
  \<^verbatim>\<open>False\<close>. This holds for all input strings. (\<open>depois\<close> is a strict total order on the
  parsed timestamps: \<open>depois_irrefl\<close>, \<open>depois_trans\<close>, \<open>depois_total\<close>.)
\<close>

theorem comparar_datas_email_estrito:
  "(strptime n formato_data = None \<or> strptime e formato_data = None \<longrightarrow> comparar_datas_email n e)
   \<and> (strptime n formato_data = Some a \<and> strptime e formato_data = Some b \<longrightarrow>
        comparar_datas_email n e = depois a b)
   \<and> (strptime n formato_data = Some a \<and> strptime e formato_data = Some a \<longrightarrow>
        \<not> comparar_datas_email n e)"
  by (auto simp: comparar_datas_email_def depois_irrefl split: option.splits)

theorem comparar_datas_email_estrito_witness:
  "strptime ''2024-01-02 09:00:00'' formato_data
     = Some \<lparr>ano = 2024, mes = 1, dia = 2, hora = 9, minuto = 0, segundo = 0\<rparr>
   \<and> strptime ''2024-01-01 10:00:00'' formato_data
     = Some \<lparr>ano = 2024, mes = 1, dia = 1, hora = 10, minuto = 0, segundo = 0\<rparr>
   \<and> strptime ''ontem'' formato_data = None
   \<and> comparar_datas_email ''2024-01-02 09:00:00'' ''2024-01-01 10:00:00''
   \<and> \<not> comparar_datas_email ''2024-01-01 10:00:00'' ''2024-01-02 09:00:00''
   \<and> \<not> comparar_datas_email ''2024-01-01 10:00:00'' ''2024-01-01 10:00:00''
   \<and> comparar_datas_email ''ontem'' ''2024-01-01 10:00:00''
   \<and> comparar_datas_email ''2024-01-01 10:00:00'' ''ontem''"
proof -
  let ?a = "\<lparr>ano = 2024, mes = 1, dia = 2, hora = 9, minuto = 0, segundo = 0\<rparr>"
  let ?b = "\<lparr>ano = 2024, mes = 1, dia = 1, hora = 10, minuto = 0, segundo = 0\<rparr>"
  have pa: "strptime ''2024-01-02 09:00:00'' formato_data = Some ?a" by code_simp
  have pb: "strptime ''2024-01-01 10:00:00'' formato_data = Some ?b" by code_simp
  have pc: "strptime ''ontem'' formato_data = None" by code_simp
  have ab: "depois ?a ?b" and ba: "\<not> depois ?b ?a" by (simp_all add: depois_def)
  have 1: "comparar_datas_email ''2024-01-02 09:00:00'' ''2024-01-01 10:00:00''"
    using comparar_datas_email_estrito [of "''2024-01-02 09:00:00''" "''2024-01-01 10:00:00''" ?a ?b]
      pa pb ab by simp
  have 2: "\<not> comparar_datas_email ''2024-01-01 10:00:00'' ''2024-01-02 09:00:00''"
    using comparar_datas_email_estrito [of "''2024-01-01 10:00:00''" "''2024-01-02 09:00:00''" ?b ?a]
      pa pb ba by simp
  have 3: "\<not> comparar_datas_email ''2024-01-01 10:00:00'' ''2024-01-01 10:00:00''"
    using comparar_datas_email_estrito [of "''2024-01-01 10:00:00''" "''2024-01-01 10:00:00''" ?b ?b]
      pb by blast
  have 4: "comparar_datas_email ''ontem'' ''2024-01-01 10:00:00''"
    using comparar_datas_email_estrito [of "''ontem''" "''2024-01-01 10:00:00''" ?b ?b] pc by blast
  have 5: "comparar_datas_email ''2024-01-01 10:00:00'' ''ontem''"
    using comparar_datas_email_estrito [of "''2024-01-01 10:00:00''" "''ontem''" ?b ?b] pc by blast
  from pa pb pc 1 2 3 4 5 show ?thesis by blast
qed


section \<open>The incremental save\<close>

lemma carregar_props:
  "carregar_json_existente_rapido amb s = (a, s1) \<Longrightarrow> json_cache s1 = Some a \<and> arquivo s1 = arquivo s"
  by (auto simp: carregar_json_existente_rapido_def novo_objeto_def Let_def
      split: option.splits arquivo_json.splits if_splits)

lemma carregar_carregado:
  "carregar_json_existente_rapido amb s = (a, s1) \<Longrightarrow> objetos s1 a = carregado amb s"
  by (simp add: carregado_def)

lemma ordem_vazia_iff:
  "ordem_de d = Inr [] \<longleftrightarrow>
     (map_of d ''Ordem'' = None \<or> (\<exists>t. map_of d ''Ordem'' = Some (JStr t) \<and> (\<forall>c\<in>set t. is_space c)))"
proof -
  have "strip t = [] \<longleftrightarrow> (\<forall>c\<in>set t. is_space c)" for t
  proof
    assume "strip t = []"
    then have a: "\<forall>c\<in>set (dropWhile is_space t). is_space c"
      by (simp add: strip_def dropWhile_eq_Nil_conv)
    have "dropWhile is_space t = []"
    proof (rule ccontr)
      assume n: "dropWhile is_space t \<noteq> []"
      then have "\<not> is_space (hd (dropWhile is_space t))" by (rule hd_dropWhile)
      moreover from n have "hd (dropWhile is_space t) \<in> set (dropWhile is_space t)" by simp
      ultimately show False using a by blast
    qed
    then show "\<forall>c\<in>set t. is_space c" by (simp add: dropWhile_eq_Nil_conv)
  next
    assume "\<forall>c\<in>set t. is_space c"
    then have d: "dropWhile is_space t = []" by (simp add: dropWhile_eq_Nil_conv)
    show "strip t = []" unfolding strip_def d by simp
  qed
  then show ?thesis
    by (auto simp: ordem_de_def obter_def split: option.splits jvalue.splits)
qed

lemma salvar_acrescenta:
  assumes "ordem_de (dados_exportacao e) = Inr k" "\<not> (k \<noteq> [] \<and> k \<in> os)"
    and "carregar_json_existente_rapido amb s = (a, s1)"
  shows "salvar_json_incremental_rapido amb e os s =
     gravar amb a (if k \<noteq> [] then insert k os else os)
       (s1\<lparr>objetos := (objetos s1)(a := (objetos s1 a)
             \<lparr>emails := emails (objetos s1 a) @ [e],
              ordens_unicas := (if k \<noteq> [] then insert k os else ordens_unicas (objetos s1 a)),
              total_emails_processados := int (length (emails (objetos s1 a) @ [e])),
              emails_com_dados := int (length (filter com_dados (emails (objetos s1 a) @ [e]))),
              ultima_atualizacao := agora amb\<rparr>)\<rparr>)"
  using assms by (auto simp: salvar_json_incremental_rapido_def Let_def)

lemma gravar_cache:
  "json_cache s = Some a \<Longrightarrow> gravar amb a os s = (r, s') \<Longrightarrow>
     json_cache s' = Some a \<and> objetos s' = objetos s \<and> snd r = os
     \<and> (escrita amb = EscritaOk \<longrightarrow> fst r \<and> arquivo s' = Completo (objetos s a))
     \<and> (escrita amb \<noteq> EscritaOk \<longrightarrow> \<not> fst r)
     \<and> (escrita amb = FalhaAoAbrir \<longrightarrow> arquivo s' = arquivo s)
     \<and> (escrita amb = FalhaAoGravar \<longrightarrow> arquivo s' = Parcial)"
  by (auto simp: gravar_def split: resultado_escrita.splits)

text \<open>
  C7. A document whose order is absent, or is a string that trims to the empty string
  (\<open>ordem_vazia_iff\<close>), is always appended to the store the save loads; it is never
  compared, rejected or used as a replacement; the key set the save returns and the
  \<^verbatim>\<open>ordens_unicas\<close> of the store are unchanged; when the write succeeds the save answers
  \<^verbatim>\<open>True\<close> and the file holds the store with the document appended. Saving two such
  documents into a new store, with both writes succeeding, leaves 2 documents and an empty
  key set.
\<close>

theorem salvar_ordem_vazia:
  "(ordem_de (dados_exportacao e) = Inr [] \<longrightarrow>
      (case salvar_json_incremental_rapido amb e ordens s of
         ((sucesso, ordens'), s') \<Rightarrow>
           ordens' = ordens
           \<and> map_option emails (em_cache s') = Some (emails (carregado amb s) @ [e])
           \<and> map_option ordens_unicas (em_cache s') = Some (ordens_unicas (carregado amb s))
           \<and> (escrita amb = EscritaOk \<longrightarrow> sucesso \<and> em_arquivo s' = em_cache s')))
   \<and> (ordem_de (dados_exportacao e1) = Inr [] \<and> ordem_de (dados_exportacao e2) = Inr []
        \<and> escrita amb1 = EscritaOk \<and> escrita amb2 = EscritaOk \<longrightarrow>
      (case salvar_em_sequencia [(amb1, e1), (amb2, e2)] {} estado_inicial of
         (ordens', s') \<Rightarrow>
           ordens' = {}
           \<and> map_option emails (em_arquivo s') = Some [e1, e2]
           \<and> map_option emails (em_cache s') = Some [e1, e2]
           \<and> map_option ordens_unicas (em_arquivo s') = Some {}))"
proof -
  have step: "ordens' = ordens
           \<and> map_option emails (em_cache s') = Some (emails (carregado amb s) @ [e])
           \<and> map_option ordens_unicas (em_cache s') = Some (ordens_unicas (carregado amb s))
           \<and> (escrita amb = EscritaOk \<longrightarrow> sucesso \<and> em_arquivo s' = em_cache s')"
    if v: "ordem_de (dados_exportacao e) = Inr []"
      and r: "salvar_json_incremental_rapido amb e ordens s = ((sucesso, ordens'), s')"
    for e amb ordens s sucesso ordens' s'
  proof -
    obtain a s1 where c: "carregar_json_existente_rapido amb s = (a, s1)"
      by (cases "carregar_json_existente_rapido amb s")
    from carregar_props [OF c] have jc: "json_cache s1 = Some a" by simp
    from carregar_carregado [OF c] have o: "objetos s1 a = carregado amb s" .
    from salvar_acrescenta [OF v _ c, of ordens] r jc
    show ?thesis
      by (auto simp: o gravar_def em_cache_def em_arquivo_def split: resultado_escrita.splits)
  qed
  have A: "ordem_de (dados_exportacao e) = Inr [] \<longrightarrow>
      (case salvar_json_incremental_rapido amb e ordens s of
         ((sucesso, ordens'), s') \<Rightarrow>
           ordens' = ordens
           \<and> map_option emails (em_cache s') = Some (emails (carregado amb s) @ [e])
           \<and> map_option ordens_unicas (em_cache s') = Some (ordens_unicas (carregado amb s))
           \<and> (escrita amb = EscritaOk \<longrightarrow> sucesso \<and> em_arquivo s' = em_cache s'))"
  proof
    assume v: "ordem_de (dados_exportacao e) = Inr []"
    obtain sucesso ordens' s' where
      r: "salvar_json_incremental_rapido amb e ordens s = ((sucesso, ordens'), s')"
      by (metis prod.exhaust)
    from step [OF v r] show "case salvar_json_incremental_rapido amb e ordens s of
         ((sucesso, ordens'), s') \<Rightarrow>
           ordens' = ordens
           \<and> map_option emails (em_cache s') = Some (emails (carregado amb s) @ [e])
           \<and> map_option ordens_unicas (em_cache s') = Some (ordens_unicas (carregado amb s))
           \<and> (escrita amb = EscritaOk \<longrightarrow> sucesso \<and> em_arquivo s' = em_cache s')"
      by (simp add: r)
  qed
  have B: "ordens' = {}
           \<and> map_option emails (em_arquivo s') = Some [e1, e2]
           \<and> map_option emails (em_cache s') = Some [e1, e2]
           \<and> map_option ordens_unicas (em_arquivo s') = Some {}"
    if v1: "ordem_de (dados_exportacao e1) = Inr []" and v2: "ordem_de (dados_exportacao e2) = Inr []"
      and w1: "escrita amb1 = EscritaOk" and w2: "escrita amb2 = EscritaOk"
      and r: "salvar_em_sequencia [(amb1, e1), (amb2, e2)] {} estado_inicial = (ordens', s')"
    for ordens' s'
  proof -
    obtain ok1 o1 s1 where r1: "salvar_json_incremental_rapido amb1 e1 {} estado_inicial = ((ok1, o1), s1)"
      by (metis prod.exhaust)
    obtain ok2 o2 s2 where r2: "salvar_json_incremental_rapido amb2 e2 o1 s1 = ((ok2, o2), s2)"
      by (metis prod.exhaust)
    have c0: "emails (carregado amb1 estado_inicial) = []"
      "ordens_unicas (carregado amb1 estado_inicial) = {}"
      by (simp_all add: carregado_def carregar_json_existente_rapido_def estado_inicial_def
          novo_objeto_def empty_data_def)
    from step [OF v1 r1] w1 c0
    have p1: "o1 = {}" "map_option emails (em_cache s1) = Some [e1]"
      "map_option ordens_unicas (em_cache s1) = Some {}" "em_arquivo s1 = em_cache s1"
      by simp_all
    then obtain d where d: "em_cache s1 = Some d" "arquivo s1 = Completo d" "emails d = [e1]"
      "ordens_unicas d = {}"
      by (auto simp: em_arquivo_def split: arquivo_json.splits)
    have c1: "carregado amb2 s1 = d"
      using d(1,2)
      by (auto simp: carregado_def carregar_json_existente_rapido_def em_cache_def novo_objeto_def)
    from step [OF v2 r2] w2 c1 d
    have p2: "o2 = o1" "map_option emails (em_cache s2) = Some [e1, e2]"
      "map_option ordens_unicas (em_cache s2) = Some {}" "em_arquivo s2 = em_cache s2"
      by simp_all
    from r r1 r2 have "ordens' = o2" "s' = s2" by simp_all
    with p1 p2 show ?thesis by simp
  qed
  have B': "ordem_de (dados_exportacao e1) = Inr [] \<and> ordem_de (dados_exportacao e2) = Inr []
        \<and> escrita amb1 = EscritaOk \<and> escrita amb2 = EscritaOk \<longrightarrow>
      (case salvar_em_sequencia [(amb1, e1), (amb2, e2)] {} estado_inicial of
         (ordens', s') \<Rightarrow>
           ordens' = {}
           \<and> map_option emails (em_arquivo s') = Some [e1, e2]
           \<and> map_option emails (em_cache s') = Some [e1, e2]
           \<and> map_option ordens_unicas (em_arquivo s') = Some {})"
    using B by (cases "salvar_em_sequencia [(amb1, e1), (amb2, e2)] {} estado_inicial") blast
  from A B' show ?thesis by (rule conjI)
qed

theorem salvar_ordem_vazia_witness:
  "ordem_de [(''status'', JStr ''TEXTO_MUITO_CURTO'')] = Inr []
   \<and> ordem_de [(''Ordem'', JStr ''  ''), (''Navio'', JStr ''MSC'')] = Inr []
   \<and> (case salvar_em_sequencia
        [(\<lparr>relogio = 1000, agora = ''t1'', escrita = EscritaOk\<rparr>,
          \<lparr>numero_email = 1, assunto = ''a'', data_recebimento = ''2024-01-01 10:00:00'',
           endereco_email_remetente = ''x'', processamento_timestamp = ''p'',
           dados_exportacao = [(''status'', JStr ''TEXTO_MUITO_CURTO'')]\<rparr>),
         (\<lparr>relogio = 1010, agora = ''t2'', escrita = EscritaOk\<rparr>,
          \<lparr>numero_email = 2, assunto = ''b'', data_recebimento = ''2024-01-01 11:00:00'',
           endereco_email_remetente = ''y'', processamento_timestamp = ''q'',
           dados_exportacao = [(''Ordem'', JStr ''  ''), (''Navio'', JStr ''MSC'')]\<rparr>)]
        {} estado_inicial of
        (ordens', s') \<Rightarrow>
          ordens' = {}
          \<and> map_option (\<lambda>d. length (emails d)) (em_arquivo s') = Some 2
          \<and> map_option (\<lambda>d. map numero_email (emails d)) (em_cache s') = Some [1, 2])"
proof -
  let ?e1 = "\<lparr>numero_email = 1, assunto = ''a'', data_recebimento = ''2024-01-01 10:00:00'',
           endereco_email_remetente = ''x'', processamento_timestamp = ''p'',
           dados_exportacao = [(''status'', JStr ''TEXTO_MUITO_CURTO'')]\<rparr>"
  let ?e2 = "\<lparr>numero_email = 2, assunto = ''b'', data_recebimento = ''2024-01-01 11:00:00'',
           endereco_email_remetente = ''y'', processamento_timestamp = ''q'',
           dados_exportacao = [(''Ordem'', JStr ''  ''), (''Navio'', JStr ''MSC'')]\<rparr>"
  let ?a1 = "\<lparr>relogio = 1000, agora = ''t1'', escrita = EscritaOk\<rparr>"
  let ?a2 = "\<lparr>relogio = 1010, agora = ''t2'', escrita = EscritaOk\<rparr>"
  have v1: "ordem_de [(''status'', JStr ''TEXTO_MUITO_CURTO'')] = Inr []"
    by (simp add: ordem_de_def obter_def strip_def)
  have v2: "ordem_de [(''Ordem'', JStr ''  ''), (''Navio'', JStr ''MSC'')] = Inr []"
    by (simp add: ordem_de_def obter_def strip_def is_space_def)
  have h: "ordem_de (dados_exportacao ?e1) = Inr [] \<and> ordem_de (dados_exportacao ?e2) = Inr []
        \<and> escrita ?a1 = EscritaOk \<and> escrita ?a2 = EscritaOk"
    using v1 v2 by simp
  obtain o' s' where r: "salvar_em_sequencia [(?a1, ?e1), (?a2, ?e2)] {} estado_inicial = (o', s')"
    by (metis prod.exhaust)
  from salvar_ordem_vazia [where ?e1.0 = ?e1 and ?e2.0 = ?e2 and ?amb1.0 = ?a1 and ?amb2.0 = ?a2] h r
  have "o' = {} \<and> map_option emails (em_arquivo s') = Some [?e1, ?e2]
     \<and> map_option emails (em_cache s') = Some [?e1, ?e2]"
    by simp
  then have "o' = {}
          \<and> map_option (\<lambda>d. length (emails d)) (em_arquivo s') = Some 2
          \<and> map_option (\<lambda>d. map numero_email (emails d)) (em_cache s') = Some [1, 2]"
    by auto
  with v1 v2 r show ?thesis by simp
qed


section \<open>One document per order\<close>

lemma encontrar_desde_achado:
  "encontrar_desde n es k = Inr (Some (i, ex)) \<Longrightarrow>
     n \<le> i \<and> i - n < length es \<and> es ! (i - n) = ex \<and> ordem_de (dados_exportacao ex) = Inr k"
proof (induction es arbitrary: n)
  case Nil
  then show ?case by simp
next
  case (Cons e es)
  show ?case
  proof (cases "ordem_de (dados_exportacao e)")
    case (Inl x)
    with Cons.prems show ?thesis by simp
  next
    case (Inr k')
    show ?thesis
    proof (cases "k' = k")
      case True
      with Cons.prems Inr show ?thesis by simp
    next
      case False
      with Cons.prems Inr have "encontrar_desde (Suc n) es k = Inr (Some (i, ex))" by simp
      from Cons.IH [OF this]
      have ih: "Suc n \<le> i" "i - Suc n < length es" "es ! (i - Suc n) = ex"
        "ordem_de (dados_exportacao ex) = Inr k"
        by simp_all
      from ih(1) have "i - n = Suc (i - Suc n)" by simp
      with ih show ?thesis by simp
    qed
  qed
qed

lemma encontrar_achado:
  "encontrar_email_por_ordem d k = Inr (Some (i, ex)) \<Longrightarrow>
     i < length (emails d) \<and> emails d ! i = ex \<and> ordem_de (dados_exportacao ex) = Inr k"
  using encontrar_desde_achado [of 0 "emails d" k i ex]
  by (simp add: encontrar_email_por_ordem_def)

lemma filter_update_mesma_chave:
  assumes "i < length xs" "f (xs ! i) = f y"
  shows "length (filter (\<lambda>e. f e = c) (xs[i := y])) = length (filter (\<lambda>e. f e = c) xs)"
proof -
  have m: "map f (xs[i := y]) = map f xs"
    using assms by (simp add: map_update list_update_same_conv)
  have l: "length (filter (\<lambda>e. f e = c) zs) = length (filter (\<lambda>v. v = c) (map f zs))" for zs
    by (induction zs) auto
  show ?thesis unfolding l m ..
qed

lemma chaves_ok_mono: "chaves_ok os d \<Longrightarrow> os \<subseteq> os' \<Longrightarrow> chaves_ok os' d"
  by (fastforce simp: chaves_ok_def)

lemma chaves_ok_empty: "chaves_ok os (empty_data amb)"
  by (simp add: chaves_ok_def empty_data_def com_ordem_def)

lemma chaves_ok_substitui:
  assumes ok: "chaves_ok os d" and i: "i < length (emails d)"
    and k: "ordem_de (dados_exportacao (emails d ! i)) = Inr k"
    and k': "ordem_de (dados_exportacao e) = Inr k" "k \<in> os"
    and d': "emails d' = (emails d)[i := e]"
  shows "chaves_ok os d'"
proof -
  have "length (com_ordem c d') = length (com_ordem c d)" for c
    unfolding com_ordem_def d'
    using filter_update_mesma_chave [OF i, of "\<lambda>e. ordem_de (dados_exportacao e)" e "Inr c"] k k'
    by simp
  moreover have "\<exists>k. ordem_de (dados_exportacao x) = Inr k \<and> (k \<noteq> [] \<longrightarrow> k \<in> os)"
    if "x \<in> set (emails d')" for x
  proof -
    from that have "x = e \<or> x \<in> set (emails d)"
      unfolding d' using set_update_subset_insert [of "emails d" i e] by auto
    then show ?thesis using ok k' by (auto simp: chaves_ok_def)
  qed
  ultimately show ?thesis using ok by (simp add: chaves_ok_def)
qed

lemma chaves_ok_acrescenta:
  assumes ok: "chaves_ok os d" and k: "ordem_de (dados_exportacao e) = Inr k"
    and novo: "\<not> (k \<noteq> [] \<and> k \<in> os)"
    and d': "emails d' = emails d @ [e]"
  shows "chaves_ok (if k \<noteq> [] then insert k os else os) d'"
proof -
  have nenhum: "com_ordem k d = []" if "k \<noteq> []"
  proof -
    from that novo have "k \<notin> os" by simp
    with ok that show ?thesis
      by (auto simp: chaves_ok_def com_ordem_def filter_empty_conv)
  qed
  have "length (com_ordem c d') \<le> 1" if c: "c \<noteq> []" for c
  proof (cases "c = k")
    case True
    with nenhum c show ?thesis by (simp add: com_ordem_def d' k)
  next
    case False
    then have "com_ordem c d' = com_ordem c d" by (simp add: com_ordem_def d' k)
    with ok c show ?thesis by (simp add: chaves_ok_def)
  qed
  moreover have "\<forall>x\<in>set (emails d'). \<exists>c. ordem_de (dados_exportacao x) = Inr c
      \<and> (c \<noteq> [] \<longrightarrow> c \<in> (if k \<noteq> [] then insert k os else os))"
    using ok k by (auto simp: chaves_ok_def d')
  ultimately show ?thesis by (simp add: chaves_ok_def)
qed

lemma carregar_ok:
  assumes "estado_ok os s" "carregar_json_existente_rapido amb s = (a, s1)"
  shows "estado_ok os s1 \<and> chaves_ok os (objetos s1 a) \<and> json_cache s1 = Some a"
  using assms chaves_ok_empty [of os amb]
  by (auto simp: carregar_json_existente_rapido_def novo_objeto_def Let_def estado_ok_def
      em_cache_def em_arquivo_def split: option.splits arquivo_json.splits if_splits)

lemma gravar_ok:
  assumes "json_cache s = Some a" "chaves_ok os' (objetos s a)"
    and "\<forall>d. em_arquivo s = Some d \<longrightarrow> chaves_ok os' d"
    and "gravar amb a os' s = ((ok, os''), s')"
  shows "estado_ok os'' s' \<and> os'' = os'"
  using assms
  by (auto simp: gravar_def estado_ok_def em_cache_def em_arquivo_def
      split: resultado_escrita.splits)

lemma salvar_ok:
  assumes inv: "estado_ok os s"
    and r: "salvar_json_incremental_rapido amb e os s = ((ok, os'), s')"
  shows "estado_ok os' s' \<and> os \<subseteq> os'"
proof (cases "ordem_de (dados_exportacao e)")
  case (Inl x)
  with r inv show ?thesis by (simp add: salvar_json_incremental_rapido_def)
next
  case (Inr k)
  obtain a s1 where c: "carregar_json_existente_rapido amb s = (a, s1)"
    by (cases "carregar_json_existente_rapido amb s")
  from carregar_ok [OF inv c]
  have s1: "estado_ok os s1" and d: "chaves_ok os (objetos s1 a)" and jc: "json_cache s1 = Some a"
    by simp_all
  let ?d = "objetos s1 a"
  show ?thesis
  proof (cases "k \<noteq> [] \<and> k \<in> os")
    case dup: True
    show ?thesis
    proof (cases "encontrar_email_por_ordem ?d k")
      case (Inl x)
      with r Inr c dup s1 show ?thesis
        by (simp add: salvar_json_incremental_rapido_def)
    next
      case achou: (Inr res)
      show ?thesis
      proof (cases res)
        case None
        with r Inr c dup s1 achou show ?thesis
          by (simp add: salvar_json_incremental_rapido_def)
      next
        case (Some p)
        obtain i ex where p: "p = (i, ex)" by (cases p)
        from achou Some p have f: "encontrar_email_por_ordem ?d k = Inr (Some (i, ex))" by simp
        note fa = encontrar_achado [OF f]
        show ?thesis
        proof (cases "comparar_datas_email (data_recebimento e) (data_recebimento ex)")
          case False
          with r Inr c dup s1 f show ?thesis
            by (simp add: salvar_json_incremental_rapido_def)
        next
          case True
          let ?d' = "?d\<lparr>emails := (emails ?d)[i := e], ultima_atualizacao := agora amb\<rparr>"
          let ?s2 = "s1\<lparr>objetos := (objetos s1)(a := ?d')\<rparr>"
          from r Inr c dup f True have g: "gravar amb a os ?s2 = ((ok, os'), s')"
            by (simp add: salvar_json_incremental_rapido_def Let_def)
          have "chaves_ok os ?d'"
            by (rule chaves_ok_substitui [OF d _ _ Inr]) (use fa dup in simp_all)
          then have o2: "chaves_ok os (objetos ?s2 a)" by simp
          have a2: "\<forall>x. em_arquivo ?s2 = Some x \<longrightarrow> chaves_ok os x"
            using s1 by (simp add: estado_ok_def em_arquivo_def)
          have j2: "json_cache ?s2 = Some a" using jc by simp
          from gravar_ok [OF j2 o2 a2 g] show ?thesis by blast
        qed
      qed
    qed
  next
    case novo: False
    let ?os = "if k \<noteq> [] then insert k os else os"
    let ?d' = "?d\<lparr>emails := emails ?d @ [e],
              ordens_unicas := (if k \<noteq> [] then insert k os else ordens_unicas ?d),
              total_emails_processados := int (length (emails ?d @ [e])),
              emails_com_dados := int (length (filter com_dados (emails ?d @ [e]))),
              ultima_atualizacao := agora amb\<rparr>"
    let ?s2 = "s1\<lparr>objetos := (objetos s1)(a := ?d')\<rparr>"
    from r salvar_acrescenta [OF Inr novo c] have g: "gravar amb a ?os ?s2 = ((ok, os'), s')"
      by simp
    have "chaves_ok ?os ?d'"
      by (rule chaves_ok_acrescenta [OF d Inr novo]) simp
    then have o2: "chaves_ok ?os (objetos ?s2 a)" by simp
    have a2: "\<forall>x. em_arquivo ?s2 = Some x \<longrightarrow> chaves_ok ?os x"
    proof (intro allI impI)
      fix x assume "em_arquivo ?s2 = Some x"
      then have "em_arquivo s1 = Some x" by (simp add: em_arquivo_def)
      with s1 have "chaves_ok os x" by (simp add: estado_ok_def)
      then show "chaves_ok ?os x" by (rule chaves_ok_mono) auto
    qed
    have j2: "json_cache ?s2 = Some a" using jc by simp
    from gravar_ok [OF j2 o2 a2 g] show ?thesis by auto
  qed
qed

lemma salvar_em_sequencia_ok:
  "estado_ok os s \<Longrightarrow> salvar_em_sequencia xs os s = (os', s') \<Longrightarrow> estado_ok os' s'"
proof (induction xs arbitrary: os s)
  case Nil
  then show ?case by simp
next
  case (Cons x xs)
  obtain amb e where x: "x = (amb, e)" by (cases x)
  obtain ok o1 s1 where r: "salvar_json_incremental_rapido amb e os s = ((ok, o1), s1)"
    by (metis prod.exhaust)
  from salvar_ok [OF Cons.prems(1) r] have "estado_ok o1 s1" by simp
  moreover from Cons.prems(2) x r have "salvar_em_sequencia xs o1 s1 = (os', s')" by simp
  ultimately show ?case by (rule Cons.IH)
qed

lemma estado_inicial_ok: "estado_ok {} estado_inicial"
  by (simp add: estado_ok_def estado_inicial_def em_cache_def em_arquivo_def)


lemma salvar_conflito:
  assumes k: "ordem_de (dados_exportacao e) = Inr k" and dup: "k \<noteq> []" "k \<in> ordens"
    and r: "salvar_json_incremental_rapido amb e ordens s0 = ((ok, os'), s')"
  shows "os' = ordens
     \<and> (\<exists>d'. em_cache s' = Some d'
          \<and> (emails d' = emails (carregado amb s0) \<and> \<not> ok
              \<or> (\<exists>i<length (emails (carregado amb s0)).
                    ordem_de (dados_exportacao (emails (carregado amb s0) ! i)) = Inr k
                    \<and> comparar_datas_email (data_recebimento e)
                         (data_recebimento (emails (carregado amb s0) ! i))
                    \<and> emails d' = (emails (carregado amb s0))[i := e])))"
proof -
  obtain a s1 where c: "carregar_json_existente_rapido amb s0 = (a, s1)"
    by (cases "carregar_json_existente_rapido amb s0")
  from carregar_props [OF c] have jc: "json_cache s1 = Some a" by simp
  have o: "objetos s1 a = carregado amb s0" using c by (simp add: carregado_def)
  let ?d = "carregado amb s0"
  have rej: ?thesis if "((ok, os'), s') = ((False, ordens), s1)"
    using that jc o by (simp add: em_cache_def)
  show ?thesis
  proof (cases "encontrar_email_por_ordem ?d k")
    case (Inl x)
    with r k c dup o rej show ?thesis
      by (simp add: salvar_json_incremental_rapido_def)
  next
    case achou: (Inr res)
    show ?thesis
    proof (cases res)
      case None
      with r k c dup o rej achou show ?thesis
        by (simp add: salvar_json_incremental_rapido_def)
    next
      case (Some p)
      obtain i ex where p: "p = (i, ex)" by (cases p)
      from achou Some p have f: "encontrar_email_por_ordem ?d k = Inr (Some (i, ex))" by simp
      note fa = encontrar_achado [OF f]
      show ?thesis
      proof (cases "comparar_datas_email (data_recebimento e) (data_recebimento ex)")
        case False
        with r k c dup o rej f show ?thesis
          by (simp add: salvar_json_incremental_rapido_def)
      next
        case True
        let ?d' = "?d\<lparr>emails := (emails ?d)[i := e], ultima_atualizacao := agora amb\<rparr>"
        let ?s2 = "s1\<lparr>objetos := (objetos s1)(a := ?d')\<rparr>"
        from r k c dup f True o have g: "gravar amb a ordens ?s2 = ((ok, os'), s')"
          by (simp add: salvar_json_incremental_rapido_def Let_def)
        have j2: "json_cache ?s2 = Some a" using jc by simp
        from gravar_cache [OF j2 g] have "os' = ordens" "em_cache s' = Some ?d'"
          by (simp_all add: em_cache_def)
        with fa True show ?thesis by auto
      qed
    qed
  qed
qed

text \<open>
  C1. After any sequence of saves that starts from the empty store with the empty key set,
  each save receiving the key set the previous one returned, the store in the cache and
  the store in the file hold, for every non-empty order \<open>k\<close>, at most one document whose
  trimmed order is \<open>k\<close>. A candidate in conflict (its non-empty order is in the key set) is
  never appended: the save leaves the key set as it was, and the documents of the store
  are either the ones it loaded (the candidate is rejected) or those with the candidate
  written over the stored document of that order, at its index.
\<close>

theorem uma_por_ordem:
  "(salvar_em_sequencia xs {} estado_inicial = (os, s) \<and> k \<noteq> []
      \<and> (em_cache s = Some d \<or> em_arquivo s = Some d) \<longrightarrow> length (com_ordem k d) \<le> 1)
   \<and> (ordem_de (dados_exportacao e) = Inr k \<and> k \<noteq> [] \<and> k \<in> ordens \<longrightarrow>
        (case salvar_json_incremental_rapido amb e ordens s0 of
           ((sucesso, ordens'), s') \<Rightarrow>
             ordens' = ordens
             \<and> (\<exists>d'. em_cache s' = Some d'
                  \<and> (emails d' = emails (carregado amb s0) \<and> \<not> sucesso
                      \<or> (\<exists>i<length (emails (carregado amb s0)).
                            ordem_de (dados_exportacao (emails (carregado amb s0) ! i)) = Inr k
                            \<and> comparar_datas_email (data_recebimento e)
                                 (data_recebimento (emails (carregado amb s0) ! i))
                            \<and> emails d' = (emails (carregado amb s0))[i := e])))))"
proof (rule conjI)
  show "salvar_em_sequencia xs {} estado_inicial = (os, s) \<and> k \<noteq> []
      \<and> (em_cache s = Some d \<or> em_arquivo s = Some d) \<longrightarrow> length (com_ordem k d) \<le> 1"
  proof
    assume a: "salvar_em_sequencia xs {} estado_inicial = (os, s) \<and> k \<noteq> []
      \<and> (em_cache s = Some d \<or> em_arquivo s = Some d)"
    then have "estado_ok os s"
      using salvar_em_sequencia_ok [OF estado_inicial_ok] by blast
    with a have "chaves_ok os d" by (auto simp: estado_ok_def)
    with a show "length (com_ordem k d) \<le> 1" by (simp add: chaves_ok_def)
  qed
next
  show "ordem_de (dados_exportacao e) = Inr k \<and> k \<noteq> [] \<and> k \<in> ordens \<longrightarrow>
        (case salvar_json_incremental_rapido amb e ordens s0 of
           ((sucesso, ordens'), s') \<Rightarrow>
             ordens' = ordens
             \<and> (\<exists>d'. em_cache s' = Some d'
                  \<and> (emails d' = emails (carregado amb s0) \<and> \<not> sucesso
                      \<or> (\<exists>i<length (emails (carregado amb s0)).
                            ordem_de (dados_exportacao (emails (carregado amb s0) ! i)) = Inr k
                            \<and> comparar_datas_email (data_recebimento e)
                                 (data_recebimento (emails (carregado amb s0) ! i))
                            \<and> emails d' = (emails (carregado amb s0))[i := e]))))"
  proof
    assume a: "ordem_de (dados_exportacao e) = Inr k \<and> k \<noteq> [] \<and> k \<in> ordens"
    obtain ok os' s' where r: "salvar_json_incremental_rapido amb e ordens s0 = ((ok, os'), s')"
      by (metis prod.exhaust)
    from a have k: "ordem_de (dados_exportacao e) = Inr k" and d: "k \<noteq> []" "k \<in> ordens"
      by simp_all
    from salvar_conflito [OF k d r] show "case salvar_json_incremental_rapido amb e ordens s0 of
           ((sucesso, ordens'), s') \<Rightarrow>
             ordens' = ordens
             \<and> (\<exists>d'. em_cache s' = Some d'
                  \<and> (emails d' = emails (carregado amb s0) \<and> \<not> sucesso
                      \<or> (\<exists>i<length (emails (carregado amb s0)).
                            ordem_de (dados_exportacao (emails (carregado amb s0) ! i)) = Inr k
                            \<and> comparar_datas_email (data_recebimento e)
                                 (data_recebimento (emails (carregado amb s0) ! i))
                            \<and> emails d' = (emails (carregado amb s0))[i := e])))"
      by (simp add: r)
  qed
qed


theorem uma_por_ordem_witness:
  "em_arquivo (snd (salvar_em_sequencia [(\<lparr>relogio = 1000, agora = ''now'', escrita = EscritaOk\<rparr>, \<lparr>numero_email = 1, assunto = ''s'', data_recebimento = ''2024-01-01 10:00:00'',
        endereco_email_remetente = ''a'', processamento_timestamp = ''p'',
        dados_exportacao = [(''Ordem'', JStr '' ORD1 '')]\<rparr>), (\<lparr>relogio = 1000, agora = ''now'', escrita = EscritaOk\<rparr>, \<lparr>numero_email = 2, assunto = ''s'', data_recebimento = ''2024-01-02 09:00:00'',
        endereco_email_remetente = ''a'', processamento_timestamp = ''p'',
        dados_exportacao = [(''Ordem'', JStr ''ORD1'')]\<rparr>)] {} estado_inicial)) = Some \<lparr>meta_processamento_timestamp = ''now'', total_emails_processados = 1,
        emails_com_dados = 1, ultima_atualizacao = ''now'', ordens_unicas = {''ORD1''},
        emails = [\<lparr>numero_email = 2, assunto = ''s'', data_recebimento = ''2024-01-02 09:00:00'',
        endereco_email_remetente = ''a'', processamento_timestamp = ''p'',
        dados_exportacao = [(''Ordem'', JStr ''ORD1'')]\<rparr>]\<rparr>
   \<and> length (com_ordem ''ORD1'' \<lparr>meta_processamento_timestamp = ''now'', total_emails_processados = 1,
        emails_com_dados = 1, ultima_atualizacao = ''now'', ordens_unicas = {''ORD1''},
        emails = [\<lparr>numero_email = 2, assunto = ''s'', data_recebimento = ''2024-01-02 09:00:00'',
        endereco_email_remetente = ''a'', processamento_timestamp = ''p'',
        dados_exportacao = [(''Ordem'', JStr ''ORD1'')]\<rparr>]\<rparr>) \<le> 1
   \<and> ordem_de (dados_exportacao \<lparr>numero_email = 2, assunto = ''s'', data_recebimento = ''2024-01-02 09:00:00'',
        endereco_email_remetente = ''a'', processamento_timestamp = ''p'',
        dados_exportacao = [(''Ordem'', JStr ''ORD1'')]\<rparr>) = Inr ''ORD1''
   \<and> (case salvar_json_incremental_rapido \<lparr>relogio = 1000, agora = ''now'', escrita = EscritaOk\<rparr> \<lparr>numero_email = 2, assunto = ''s'', data_recebimento = ''2024-01-02 09:00:00'',
        endereco_email_remetente = ''a'', processamento_timestamp = ''p'',
        dados_exportacao = [(''Ordem'', JStr ''ORD1'')]\<rparr> {''ORD1''}
             (snd (salvar_em_sequencia [(\<lparr>relogio = 1000, agora = ''now'', escrita = EscritaOk\<rparr>, \<lparr>numero_email = 1, assunto = ''s'', data_recebimento = ''2024-01-01 10:00:00'',
        endereco_email_remetente = ''a'', processamento_timestamp = ''p'',
        dados_exportacao = [(''Ordem'', JStr '' ORD1 '')]\<rparr>)] {} estado_inicial)) of
        ((sucesso, ordens'), s') \<Rightarrow> ordens' = {''ORD1''} \<and> map_option emails (em_cache s') = Some [\<lparr>numero_email = 2, assunto = ''s'', data_recebimento = ''2024-01-02 09:00:00'',
        endereco_email_remetente = ''a'', processamento_timestamp = ''p'',
        dados_exportacao = [(''Ordem'', JStr ''ORD1'')]\<rparr>])"
proof -
  let ?e1 = "\<lparr>numero_email = 1, assunto = ''s'', data_recebimento = ''2024-01-01 10:00:00'',
        endereco_email_remetente = ''a'', processamento_timestamp = ''p'',
        dados_exportacao = [(''Ordem'', JStr '' ORD1 '')]\<rparr>"
  let ?e2 = "\<lparr>numero_email = 2, assunto = ''s'', data_recebimento = ''2024-01-02 09:00:00'',
        endereco_email_remetente = ''a'', processamento_timestamp = ''p'',
        dados_exportacao = [(''Ordem'', JStr ''ORD1'')]\<rparr>"
  let ?am = "\<lparr>relogio = 1000, agora = ''now'', escrita = EscritaOk\<rparr>"
  let ?d = "\<lparr>meta_processamento_timestamp = ''now'', total_emails_processados = 1,
        emails_com_dados = 1, ultima_atualizacao = ''now'', ordens_unicas = {''ORD1''},
        emails = [\<lparr>numero_email = 2, assunto = ''s'', data_recebimento = ''2024-01-02 09:00:00'',
        endereco_email_remetente = ''a'', processamento_timestamp = ''p'',
        dados_exportacao = [(''Ordem'', JStr ''ORD1'')]\<rparr>]\<rparr>"
  let ?xs = "[(?am, ?e1), (?am, ?e2)]"
  let ?s0 = "snd (salvar_em_sequencia [(?am, ?e1)] {} estado_inicial)"
  have a: "em_arquivo (snd (salvar_em_sequencia ?xs {} estado_inicial)) = Some ?d"
    by code_simp
  have r: "salvar_em_sequencia ?xs {} estado_inicial
     = (fst (salvar_em_sequencia ?xs {} estado_inicial), snd (salvar_em_sequencia ?xs {} estado_inicial))"
    by simp
  have n: "''ORD1'' \<noteq> []" by simp
  from uma_por_ordem [where xs = ?xs and k = "''ORD1''" and d = ?d
      and os = "fst (salvar_em_sequencia ?xs {} estado_inicial)"
      and s = "snd (salvar_em_sequencia ?xs {} estado_inicial)"] r n a
  have 1: "length (com_ordem ''ORD1'' ?d) \<le> 1" by blast
  have k: "ordem_de (dados_exportacao ?e2) = Inr ''ORD1''" by code_simp
  have c: "emails (carregado ?am ?s0) = [?e1]" by code_simp
  have cmp: "\<not> ([?e1] = emails (carregado ?am ?s0) \<and> [?e2] = [?e1])" by simp
  obtain ok os' s' where
    sv: "salvar_json_incremental_rapido ?am ?e2 {''ORD1''} ?s0 = ((ok, os'), s')"
    by (metis prod.exhaust)
  have "case salvar_json_incremental_rapido ?am ?e2 {''ORD1''} ?s0 of
           ((sucesso, ordens'), s') \<Rightarrow>
             ordens' = {''ORD1''}
             \<and> (\<exists>d'. em_cache s' = Some d'
                  \<and> (emails d' = emails (carregado ?am ?s0) \<and> \<not> sucesso
                      \<or> (\<exists>i<length (emails (carregado ?am ?s0)).
                            ordem_de (dados_exportacao (emails (carregado ?am ?s0) ! i)) = Inr ''ORD1''
                            \<and> comparar_datas_email (data_recebimento ?e2)
                                 (data_recebimento (emails (carregado ?am ?s0) ! i))
                            \<and> emails d' = (emails (carregado ?am ?s0))[i := ?e2])))"
    by (rule uma_por_ordem [where e = ?e2 and k = "''ORD1''" and ordens = "{''ORD1''}" and amb = ?am
      and ?s0.0 = ?s0, THEN conjunct2, THEN mp]) (use k in simp)
  then have g: "os' = {''ORD1''}
             \<and> (\<exists>d'. em_cache s' = Some d'
                  \<and> (emails d' = [?e1] \<and> \<not> ok
                      \<or> (\<exists>i<length [?e1]. emails d' = [?e1][i := ?e2])))"
    unfolding sv c by auto
  have "fst (fst (salvar_json_incremental_rapido ?am ?e2 {''ORD1''} ?s0))"
    by code_simp
  then have ok: "ok" unfolding sv fst_conv .
  from g ok have "os' = {''ORD1''} \<and> map_option emails (em_cache s') = Some [?e2]"
    by auto
  then have 2: "case salvar_json_incremental_rapido ?am ?e2 {''ORD1''} ?s0 of
        ((sucesso, ordens'), s') \<Rightarrow> ordens' = {''ORD1''} \<and> map_option emails (em_cache s') = Some [?e2]"
    unfolding sv by simp
  from a 1 k 2 show ?thesis by blast
qed


section \<open>Two documents of one order\<close>

lemma encontrar_desde_fim:
  assumes "\<forall>e\<in>set l. \<exists>c. ordem_de (dados_exportacao e) = Inr c \<and> c \<noteq> k"
    and "ordem_de (dados_exportacao x) = Inr k"
  shows "encontrar_desde n (l @ [x]) k = Inr (Some (n + length l, x))"
  using assms by (induction l arbitrary: n) auto

lemma carregado_sincronizado:
  "em_cache s = Some d \<Longrightarrow> arquivo s = Completo d \<Longrightarrow> carregado amb s = d"
  by (auto simp: carregado_def carregar_json_existente_rapido_def em_cache_def novo_objeto_def)

lemma chaves_ok_carregado: "estado_ok os s \<Longrightarrow> chaves_ok os (carregado amb s)"
  using carregar_ok [of os s amb] by (cases "carregar_json_existente_rapido amb s") (simp add: carregado_def)

lemma salvar_novo_gravado:
  assumes k: "ordem_de (dados_exportacao e) = Inr k" and novo: "\<not> (k \<noteq> [] \<and> k \<in> os)"
    and w: "escrita amb = EscritaOk"
    and r: "salvar_json_incremental_rapido amb e os s = ((ok, os'), s')"
  shows "ok \<and> os' = (if k \<noteq> [] then insert k os else os)
     \<and> (\<exists>d. em_cache s' = Some d \<and> arquivo s' = Completo d
           \<and> emails d = emails (carregado amb s) @ [e]
           \<and> total_emails_processados d = int (length (emails d))
           \<and> emails_com_dados d = int (length (filter com_dados (emails d))))"
proof -
  obtain a s1 where c: "carregar_json_existente_rapido amb s = (a, s1)"
    by (cases "carregar_json_existente_rapido amb s")
  from carregar_props [OF c] have jc: "json_cache s1 = Some a" by simp
  from carregar_carregado [OF c] have o: "objetos s1 a = carregado amb s" .
  from salvar_acrescenta [OF k novo c] r jc w show ?thesis
    by (auto simp: o gravar_def em_cache_def)
qed

lemma dois_documentos_mesma_ordem:
  assumes inv: "estado_ok os s" and k: "k \<noteq> []" "k \<notin> os"
    and kx: "ordem_de (dados_exportacao x) = Inr k" and ky: "ordem_de (dados_exportacao y) = Inr k"
    and wx: "escrita ax = EscritaOk" and wy: "escrita ay = EscritaOk"
    and r: "salvar_em_sequencia [(ax, x), (ay, y)] os s = (os', s')"
  shows "os' = insert k os
     \<and> (\<exists>d. em_cache s' = Some d \<and> em_arquivo s' = Some d
           \<and> emails d = emails (carregado ax s) @
               [if comparar_datas_email (data_recebimento y) (data_recebimento x) then y else x])"
proof -
  let ?l = "emails (carregado ax s)"
  obtain ok1 o1 s1 where r1: "salvar_json_incremental_rapido ax x os s = ((ok1, o1), s1)"
    by (metis prod.exhaust)
  obtain ok2 o2 s2 where r2: "salvar_json_incremental_rapido ay y o1 s1 = ((ok2, o2), s2)"
    by (metis prod.exhaust)
  from r r1 r2 have fim: "os' = o2" "s' = s2" by simp_all
  from k have novo: "\<not> (k \<noteq> [] \<and> k \<in> os)" by simp
  from salvar_novo_gravado [OF kx novo wx r1] k obtain d1 where
    o1: "o1 = insert k os" and d1: "em_cache s1 = Some d1" "arquivo s1 = Completo d1"
      "emails d1 = ?l @ [x]"
    by auto
  have c1: "carregado ay s1 = d1" by (rule carregado_sincronizado [OF d1(1,2)])
  have lok: "\<forall>e\<in>set ?l. \<exists>c. ordem_de (dados_exportacao e) = Inr c \<and> c \<noteq> k"
    using chaves_ok_carregado [OF inv, of ax] k by (fastforce simp: chaves_ok_def)
  have f: "encontrar_email_por_ordem d1 k = Inr (Some (length ?l, x))"
    using encontrar_desde_fim [OF lok kx, of 0] by (simp add: encontrar_email_por_ordem_def d1)
  obtain a sa where c: "carregar_json_existente_rapido ay s1 = (a, sa)"
    by (cases "carregar_json_existente_rapido ay s1")
  from carregar_props [OF c] have jc: "json_cache sa = Some a" and ar: "arquivo sa = arquivo s1"
    by simp_all
  from carregar_carregado [OF c] c1 have o: "objetos sa a = d1" by simp
  show ?thesis
  proof (cases "comparar_datas_email (data_recebimento y) (data_recebimento x)")
    case True
    let ?d' = "d1\<lparr>emails := (emails d1)[length ?l := y], ultima_atualizacao := agora ay\<rparr>"
    from r2 ky c o f True k o1
    have "gravar ay a o1 (sa\<lparr>objetos := (objetos sa)(a := ?d')\<rparr>) = ((ok2, o2), s2)"
      by (simp add: salvar_json_incremental_rapido_def Let_def)
    with wy have "o2 = o1" "em_cache s2 = Some ?d'" "arquivo s2 = Completo ?d'"
      by (auto simp: gravar_def em_cache_def)
    with True fim o1 d1 show ?thesis by (simp add: em_arquivo_def)
  next
    case False
    from r2 ky c o f False k o1 have "o2 = o1" "s2 = sa"
      by (simp_all add: salvar_json_incremental_rapido_def Let_def)
    with False fim o1 d1 jc ar o show ?thesis by (simp add: em_arquivo_def em_cache_def)
  qed
qed


text \<open>
  C3. After any history of saves from the empty store, let two documents carry the same
  non-empty order, not yet in the key set, with receipt timestamps that parse and the
  second strictly later than the first. Saving them in either order, with the writes
  succeeding, leaves the key set with the order added and the store (in the cache and in
  the file) holding the documents it had followed by the later document, which is the only
  one of that order.
\<close>

theorem mais_recente_prevalece:
  "salvar_em_sequencia xs {} estado_inicial = (os, s) \<and> k \<noteq> [] \<and> k \<notin> os
     \<and> ordem_de (dados_exportacao d1) = Inr k \<and> ordem_de (dados_exportacao d2) = Inr k
     \<and> strptime (data_recebimento d1) formato_data = Some t1
     \<and> strptime (data_recebimento d2) formato_data = Some t2 \<and> depois t2 t1
     \<and> escrita a1 = EscritaOk \<and> escrita a2 = EscritaOk
     \<and> escrita b1 = EscritaOk \<and> escrita b2 = EscritaOk
   \<longrightarrow> (case salvar_em_sequencia [(a1, d1), (a2, d2)] os s of
          (o', s') \<Rightarrow>
            o' = insert k os
            \<and> (\<exists>d. em_cache s' = Some d \<and> em_arquivo s' = Some d
                  \<and> emails d = emails (carregado a1 s) @ [d2] \<and> com_ordem k d = [d2]))
        \<and> (case salvar_em_sequencia [(b1, d2), (b2, d1)] os s of
          (o', s') \<Rightarrow>
            o' = insert k os
            \<and> (\<exists>d. em_cache s' = Some d \<and> em_arquivo s' = Some d
                  \<and> emails d = emails (carregado b1 s) @ [d2] \<and> com_ordem k d = [d2]))"
proof
  assume h: "salvar_em_sequencia xs {} estado_inicial = (os, s) \<and> k \<noteq> [] \<and> k \<notin> os
     \<and> ordem_de (dados_exportacao d1) = Inr k \<and> ordem_de (dados_exportacao d2) = Inr k
     \<and> strptime (data_recebimento d1) formato_data = Some t1
     \<and> strptime (data_recebimento d2) formato_data = Some t2 \<and> depois t2 t1
     \<and> escrita a1 = EscritaOk \<and> escrita a2 = EscritaOk
     \<and> escrita b1 = EscritaOk \<and> escrita b2 = EscritaOk"
  then have inv: "estado_ok os s"
    using salvar_em_sequencia_ok [OF estado_inicial_ok] by blast
  from h have k: "k \<noteq> []" "k \<notin> os" and k1: "ordem_de (dados_exportacao d1) = Inr k"
    and k2: "ordem_de (dados_exportacao d2) = Inr k" by simp_all
  from h have c21: "comparar_datas_email (data_recebimento d2) (data_recebimento d1)"
    by (simp add: comparar_datas_email_def)
  from h have c12: "\<not> comparar_datas_email (data_recebimento d1) (data_recebimento d2)"
    by (simp add: comparar_datas_email_def depois_asym)
  have vazio: "com_ordem k (carregado amb s) = []" for amb
    using chaves_ok_carregado [OF inv, of amb] k
    by (fastforce simp: chaves_ok_def com_ordem_def filter_empty_conv)
  have fim: "com_ordem k d = [d2]" if "emails d = emails (carregado amb s) @ [d2]" for d amb
    using vazio [of amb] that k2 by (simp add: com_ordem_def)
  have A: "case salvar_em_sequencia [(a1, d1), (a2, d2)] os s of
          (o', s') \<Rightarrow>
            o' = insert k os
            \<and> (\<exists>d. em_cache s' = Some d \<and> em_arquivo s' = Some d
                  \<and> emails d = emails (carregado a1 s) @ [d2] \<and> com_ordem k d = [d2])"
  proof -
    obtain o' s' where r: "salvar_em_sequencia [(a1, d1), (a2, d2)] os s = (o', s')"
      by (metis prod.exhaust)
    from h have w: "escrita a1 = EscritaOk" "escrita a2 = EscritaOk" by simp_all
    from dois_documentos_mesma_ordem [OF inv k k1 k2 w r] c21 fim [of _ a1]
    show ?thesis unfolding r by auto
  qed
  have B: "case salvar_em_sequencia [(b1, d2), (b2, d1)] os s of
          (o', s') \<Rightarrow>
            o' = insert k os
            \<and> (\<exists>d. em_cache s' = Some d \<and> em_arquivo s' = Some d
                  \<and> emails d = emails (carregado b1 s) @ [d2] \<and> com_ordem k d = [d2])"
  proof -
    obtain o' s' where r: "salvar_em_sequencia [(b1, d2), (b2, d1)] os s = (o', s')"
      by (metis prod.exhaust)
    from h have w: "escrita b1 = EscritaOk" "escrita b2 = EscritaOk" by simp_all
    from dois_documentos_mesma_ordem [OF inv k k2 k1 w r] c12 fim [of _ b1]
    show ?thesis unfolding r by auto
  qed
  from A B show "(case salvar_em_sequencia [(a1, d1), (a2, d2)] os s of
          (o', s') \<Rightarrow>
            o' = insert k os
            \<and> (\<exists>d. em_cache s' = Some d \<and> em_arquivo s' = Some d
                  \<and> emails d = emails (carregado a1 s) @ [d2] \<and> com_ordem k d = [d2]))
        \<and> (case salvar_em_sequencia [(b1, d2), (b2, d1)] os s of
          (o', s') \<Rightarrow>
            o' = insert k os
            \<and> (\<exists>d. em_cache s' = Some d \<and> em_arquivo s' = Some d
                  \<and> emails d = emails (carregado b1 s) @ [d2] \<and> com_ordem k d = [d2]))"
    by (rule conjI)
qed

theorem mais_recente_prevalece_witness:
  "ordem_de (dados_exportacao \<lparr>numero_email = 1, assunto = ''s'', data_recebimento = ''2024-01-01 10:00:00'',
        endereco_email_remetente = ''a'', processamento_timestamp = ''p'',
        dados_exportacao = [(''Ordem'', JStr '' ORD1 '')]\<rparr>) = Inr ''ORD1'' \<and> ordem_de (dados_exportacao \<lparr>numero_email = 2, assunto = ''s'', data_recebimento = ''2024-01-02 09:00:00'',
        endereco_email_remetente = ''a'', processamento_timestamp = ''p'',
        dados_exportacao = [(''Ordem'', JStr ''ORD1'')]\<rparr>) = Inr ''ORD1''
   \<and> strptime (data_recebimento \<lparr>numero_email = 1, assunto = ''s'', data_recebimento = ''2024-01-01 10:00:00'',
        endereco_email_remetente = ''a'', processamento_timestamp = ''p'',
        dados_exportacao = [(''Ordem'', JStr '' ORD1 '')]\<rparr>) formato_data
       = Some \<lparr>ano = 2024, mes = 1, dia = 1, hora = 10, minuto = 0, segundo = 0\<rparr>
   \<and> strptime (data_recebimento \<lparr>numero_email = 2, assunto = ''s'', data_recebimento = ''2024-01-02 09:00:00'',
        endereco_email_remetente = ''a'', processamento_timestamp = ''p'',
        dados_exportacao = [(''Ordem'', JStr ''ORD1'')]\<rparr>) formato_data
       = Some \<lparr>ano = 2024, mes = 1, dia = 2, hora = 9, minuto = 0, segundo = 0\<rparr>
   \<and> map_option emails (em_arquivo (snd (salvar_em_sequencia [(\<lparr>relogio = 1000, agora = ''now'', escrita = EscritaOk\<rparr>, \<lparr>numero_email = 1, assunto = ''s'', data_recebimento = ''2024-01-01 10:00:00'',
        endereco_email_remetente = ''a'', processamento_timestamp = ''p'',
        dados_exportacao = [(''Ordem'', JStr '' ORD1 '')]\<rparr>), (\<lparr>relogio = 1000, agora = ''now'', escrita = EscritaOk\<rparr>, \<lparr>numero_email = 2, assunto = ''s'', data_recebimento = ''2024-01-02 09:00:00'',
        endereco_email_remetente = ''a'', processamento_timestamp = ''p'',
        dados_exportacao = [(''Ordem'', JStr ''ORD1'')]\<rparr>)] {} estado_inicial)))
       = Some [\<lparr>numero_email = 2, assunto = ''s'', data_recebimento = ''2024-01-02 09:00:00'',
        endereco_email_remetente = ''a'', processamento_timestamp = ''p'',
        dados_exportacao = [(''Ordem'', JStr ''ORD1'')]\<rparr>]
   \<and> map_option emails (em_arquivo (snd (salvar_em_sequencia [(\<lparr>relogio = 1000, agora = ''now'', escrita = EscritaOk\<rparr>, \<lparr>numero_email = 2, assunto = ''s'', data_recebimento = ''2024-01-02 09:00:00'',
        endereco_email_remetente = ''a'', processamento_timestamp = ''p'',
        dados_exportacao = [(''Ordem'', JStr ''ORD1'')]\<rparr>), (\<lparr>relogio = 1000, agora = ''now'', escrita = EscritaOk\<rparr>, \<lparr>numero_email = 1, assunto = ''s'', data_recebimento = ''2024-01-01 10:00:00'',
        endereco_email_remetente = ''a'', processamento_timestamp = ''p'',
        dados_exportacao = [(''Ordem'', JStr '' ORD1 '')]\<rparr>)] {} estado_inicial)))
       = Some [\<lparr>numero_email = 2, assunto = ''s'', data_recebimento = ''2024-01-02 09:00:00'',
        endereco_email_remetente = ''a'', processamento_timestamp = ''p'',
        dados_exportacao = [(''Ordem'', JStr ''ORD1'')]\<rparr>]"
proof -
  let ?e1 = "\<lparr>numero_email = 1, assunto = ''s'', data_recebimento = ''2024-01-01 10:00:00'',
        endereco_email_remetente = ''a'', processamento_timestamp = ''p'',
        dados_exportacao = [(''Ordem'', JStr '' ORD1 '')]\<rparr>"
  let ?e2 = "\<lparr>numero_email = 2, assunto = ''s'', data_recebimento = ''2024-01-02 09:00:00'',
        endereco_email_remetente = ''a'', processamento_timestamp = ''p'',
        dados_exportacao = [(''Ordem'', JStr ''ORD1'')]\<rparr>"
  let ?am = "\<lparr>relogio = 1000, agora = ''now'', escrita = EscritaOk\<rparr>"
  let ?t1 = "\<lparr>ano = 2024, mes = 1, dia = 1, hora = 10, minuto = 0, segundo = 0\<rparr>"
  let ?t2 = "\<lparr>ano = 2024, mes = 1, dia = 2, hora = 9, minuto = 0, segundo = 0\<rparr>"
  have k1: "ordem_de (dados_exportacao ?e1) = Inr ''ORD1''" by code_simp
  have k2: "ordem_de (dados_exportacao ?e2) = Inr ''ORD1''" by code_simp
  have p1: "strptime (data_recebimento ?e1) formato_data = Some ?t1" by code_simp
  have p2: "strptime (data_recebimento ?e2) formato_data = Some ?t2" by code_simp
  have d: "depois ?t2 ?t1" by (simp add: depois_def)
  have c: "emails (carregado ?am estado_inicial) = []" by code_simp
  have h: "salvar_em_sequencia [] {} estado_inicial = ({}, estado_inicial) \<and> ''ORD1'' \<noteq> []
     \<and> ''ORD1'' \<notin> {}
     \<and> ordem_de (dados_exportacao ?e1) = Inr ''ORD1'' \<and> ordem_de (dados_exportacao ?e2) = Inr ''ORD1''
     \<and> strptime (data_recebimento ?e1) formato_data = Some ?t1
     \<and> strptime (data_recebimento ?e2) formato_data = Some ?t2 \<and> depois ?t2 ?t1
     \<and> escrita ?am = EscritaOk \<and> escrita ?am = EscritaOk
     \<and> escrita ?am = EscritaOk \<and> escrita ?am = EscritaOk"
    using k1 k2 p1 p2 d by simp
  note t = mais_recente_prevalece [where xs = "[]" and os = "{}" and s = estado_inicial
      and k = "''ORD1''" and ?d1.0 = ?e1 and ?d2.0 = ?e2 and ?t1.0 = ?t1 and ?t2.0 = ?t2
      and ?a1.0 = ?am and ?a2.0 = ?am and ?b1.0 = ?am and ?b2.0 = ?am, THEN mp, OF h]
  obtain o12 s12 where r12: "salvar_em_sequencia [(?am, ?e1), (?am, ?e2)] {} estado_inicial = (o12, s12)"
    by (metis prod.exhaust)
  obtain o21 s21 where r21: "salvar_em_sequencia [(?am, ?e2), (?am, ?e1)] {} estado_inicial = (o21, s21)"
    by (metis prod.exhaust)
  from t have "map_option emails (em_arquivo s12) = Some [?e2]"
    "map_option emails (em_arquivo s21) = Some [?e2]"
    unfolding r12 r21 c by auto
  with k1 k2 p1 p2 show ?thesis unfolding r12 r21 by simp
qed


section \<open>Store metadata\<close>

lemma salvar_total_ok:
  assumes inv: "\<forall>d. em_cache s = Some d \<or> em_arquivo s = Some d \<longrightarrow> total_ok d"
    and r: "salvar_json_incremental_rapido amb e os s = ((ok, os'), s')"
  shows "\<forall>d. em_cache s' = Some d \<or> em_arquivo s' = Some d \<longrightarrow> total_ok d"
proof (cases "ordem_de (dados_exportacao e)")
  case (Inl x)
  with r inv show ?thesis by (simp add: salvar_json_incremental_rapido_def)
next
  case (Inr k)
  obtain a s1 where c: "carregar_json_existente_rapido amb s = (a, s1)"
    by (cases "carregar_json_existente_rapido amb s")
  have s1: "\<forall>d. em_cache s1 = Some d \<or> em_arquivo s1 = Some d \<longrightarrow> total_ok d"
    using inv c
    by (auto simp: carregar_json_existente_rapido_def novo_objeto_def Let_def total_ok_def
        empty_data_def em_cache_def em_arquivo_def
        split: option.splits arquivo_json.splits if_splits)
  from carregar_props [OF c] have jc: "json_cache s1 = Some a" by simp
  with s1 have d: "total_ok (objetos s1 a)" by (simp add: em_cache_def)
  have g: "\<forall>d. em_cache s' = Some d \<or> em_arquivo s' = Some d \<longrightarrow> total_ok d"
    if "gravar amb a o2 (s1\<lparr>objetos := (objetos s1)(a := d')\<rparr>) = ((ok, os'), s')" "total_ok d'"
    for d' o2
    using that s1 jc
    by (auto simp: gravar_def em_cache_def em_arquivo_def split: resultado_escrita.splits)
  show ?thesis
  proof (cases "k \<noteq> [] \<and> k \<in> os")
    case False
    from r salvar_acrescenta [OF Inr False c] show ?thesis
      by (intro g [where d' = "(objetos s1 a)\<lparr>emails := emails (objetos s1 a) @ [e],
              ordens_unicas := (if k \<noteq> [] then insert k os else ordens_unicas (objetos s1 a)),
              total_emails_processados := int (length (emails (objetos s1 a) @ [e])),
              emails_com_dados := int (length (filter com_dados (emails (objetos s1 a) @ [e]))),
              ultima_atualizacao := agora amb\<rparr>"]) (simp_all add: total_ok_def)
  next
    case True
    show ?thesis
    proof (cases "\<exists>i ex. encontrar_email_por_ordem (objetos s1 a) k = Inr (Some (i, ex))
        \<and> comparar_datas_email (data_recebimento e) (data_recebimento ex)")
      case False
      with r Inr c True have "s' = s1"
        by (auto simp: salvar_json_incremental_rapido_def Let_def split: sum.splits option.splits if_splits)
      with s1 show ?thesis by simp
    next
      case sub: True
      then obtain i ex where f: "encontrar_email_por_ordem (objetos s1 a) k = Inr (Some (i, ex))"
        and cmp: "comparar_datas_email (data_recebimento e) (data_recebimento ex)" by blast
      from r Inr c True f cmp show ?thesis
        by (intro g [where d' = "(objetos s1 a)\<lparr>emails := (emails (objetos s1 a))[i := e],
              ultima_atualizacao := agora amb\<rparr>"])
          (use d in \<open>simp_all add: salvar_json_incremental_rapido_def Let_def total_ok_def\<close>)
    qed
  qed
qed

lemma salvar_em_sequencia_total_ok:
  "\<forall>d. em_cache s = Some d \<or> em_arquivo s = Some d \<longrightarrow> total_ok d \<Longrightarrow>
   salvar_em_sequencia xs os s = (os', s') \<Longrightarrow>
   \<forall>d. em_cache s' = Some d \<or> em_arquivo s' = Some d \<longrightarrow> total_ok d"
proof (induction xs arbitrary: os s)
  case Nil
  then show ?case by simp
next
  case (Cons x xs)
  obtain amb e where x: "x = (amb, e)" by (cases x)
  obtain ok o1 s1 where r: "salvar_json_incremental_rapido amb e os s = ((ok, o1), s1)"
    by (metis prod.exhaust)
  from salvar_total_ok [OF Cons.prems(1) r]
  have "\<forall>d. em_cache s1 = Some d \<or> em_arquivo s1 = Some d \<longrightarrow> total_ok d" .
  moreover from Cons.prems(2) x r have "salvar_em_sequencia xs o1 s1 = (os', s')" by simp
  ultimately show ?case by (rule Cons.IH)
qed


text \<open>
  C5, as the claim states it, fails: \<^verbatim>\<open>emails_com_dados\<close> counts the stored documents
  without the status \<^verbatim>\<open>SEM_DADOS_EXPORTACAO\<close> and without an \<^verbatim>\<open>erro\<close>, whether or not
  they have an order. A document whose extraction answered \<^verbatim>\<open>TEXTO_MUITO_CURTO\<close> has no
  order, so it is not a valid record, and is counted.
\<close>

theorem metadados_counterexample:
  "em_arquivo (snd (salvar_json_incremental_rapido \<lparr>relogio = 1000, agora = ''now'', escrita = EscritaOk\<rparr> \<lparr>numero_email = 1, assunto = ''s'', data_recebimento = ''2024-01-01 10:00:00'',
        endereco_email_remetente = ''a'', processamento_timestamp = ''p'',
        dados_exportacao = [(''status'', JStr ''TEXTO_MUITO_CURTO'')]\<rparr> {} estado_inicial)) = Some \<lparr>meta_processamento_timestamp = ''now'', total_emails_processados = 1,
        emails_com_dados = 1, ultima_atualizacao = ''now'', ordens_unicas = {},
        emails = [\<lparr>numero_email = 1, assunto = ''s'', data_recebimento = ''2024-01-01 10:00:00'',
        endereco_email_remetente = ''a'', processamento_timestamp = ''p'',
        dados_exportacao = [(''status'', JStr ''TEXTO_MUITO_CURTO'')]\<rparr>]\<rparr>
   \<and> emails_com_dados \<lparr>meta_processamento_timestamp = ''now'', total_emails_processados = 1,
        emails_com_dados = 1, ultima_atualizacao = ''now'', ordens_unicas = {},
        emails = [\<lparr>numero_email = 1, assunto = ''s'', data_recebimento = ''2024-01-01 10:00:00'',
        endereco_email_remetente = ''a'', processamento_timestamp = ''p'',
        dados_exportacao = [(''status'', JStr ''TEXTO_MUITO_CURTO'')]\<rparr>]\<rparr> = 1
   \<and> int (length (filter registro_valido (emails \<lparr>meta_processamento_timestamp = ''now'', total_emails_processados = 1,
        emails_com_dados = 1, ultima_atualizacao = ''now'', ordens_unicas = {},
        emails = [\<lparr>numero_email = 1, assunto = ''s'', data_recebimento = ''2024-01-01 10:00:00'',
        endereco_email_remetente = ''a'', processamento_timestamp = ''p'',
        dados_exportacao = [(''status'', JStr ''TEXTO_MUITO_CURTO'')]\<rparr>]\<rparr>))) = 0
   \<and> emails_com_dados \<lparr>meta_processamento_timestamp = ''now'', total_emails_processados = 1,
        emails_com_dados = 1, ultima_atualizacao = ''now'', ordens_unicas = {},
        emails = [\<lparr>numero_email = 1, assunto = ''s'', data_recebimento = ''2024-01-01 10:00:00'',
        endereco_email_remetente = ''a'', processamento_timestamp = ''p'',
        dados_exportacao = [(''status'', JStr ''TEXTO_MUITO_CURTO'')]\<rparr>]\<rparr> \<noteq> int (length (filter registro_valido (emails \<lparr>meta_processamento_timestamp = ''now'', total_emails_processados = 1,
        emails_com_dados = 1, ultima_atualizacao = ''now'', ordens_unicas = {},
        emails = [\<lparr>numero_email = 1, assunto = ''s'', data_recebimento = ''2024-01-01 10:00:00'',
        endereco_email_remetente = ''a'', processamento_timestamp = ''p'',
        dados_exportacao = [(''status'', JStr ''TEXTO_MUITO_CURTO'')]\<rparr>]\<rparr>)))"
  by code_simp

text \<open>
  C5, amended. After every save that appends its document, \<^verbatim>\<open>total_emails_processados\<close>
  is the length of \<^verbatim>\<open>emails\<close> and \<^verbatim>\<open>emails_com_dados\<close> is the number of stored
  documents without the status \<^verbatim>\<open>SEM_DADOS_EXPORTACAO\<close> and without an \<^verbatim>\<open>erro\<close>
  (with or without an order); and after any sequence of saves from the empty store,
  \<^verbatim>\<open>total_emails_processados\<close> is the length of \<^verbatim>\<open>emails\<close>, in the cache and in the file.
\<close>

theorem metadados_apos_salvar:
  "(ordem_de (dados_exportacao e) = Inr k \<and> \<not> (k \<noteq> [] \<and> k \<in> ordens) \<longrightarrow>
      (case salvar_json_incremental_rapido amb e ordens s0 of
         ((sucesso, ordens'), s') \<Rightarrow>
           (\<exists>d. em_cache s' = Some d
              \<and> emails d = emails (carregado amb s0) @ [e]
              \<and> total_emails_processados d = int (length (emails d))
              \<and> emails_com_dados d = int (length (filter com_dados (emails d)))
              \<and> (escrita amb = EscritaOk \<longrightarrow> sucesso \<and> em_arquivo s' = Some d))))
   \<and> (salvar_em_sequencia xs {} estado_inicial = (os, s)
        \<and> (em_cache s = Some d \<or> em_arquivo s = Some d) \<longrightarrow>
      total_emails_processados d = int (length (emails d)))"
proof (rule conjI)
  show "(ordem_de (dados_exportacao e) = Inr k \<and> \<not> (k \<noteq> [] \<and> k \<in> ordens) \<longrightarrow>
      (case salvar_json_incremental_rapido amb e ordens s0 of
         ((sucesso, ordens'), s') \<Rightarrow>
           (\<exists>d. em_cache s' = Some d
              \<and> emails d = emails (carregado amb s0) @ [e]
              \<and> total_emails_processados d = int (length (emails d))
              \<and> emails_com_dados d = int (length (filter com_dados (emails d)))
              \<and> (escrita amb = EscritaOk \<longrightarrow> sucesso \<and> em_arquivo s' = Some d))))"
  proof
    assume h: "ordem_de (dados_exportacao e) = Inr k \<and> \<not> (k \<noteq> [] \<and> k \<in> ordens)"
    obtain a s1 where c: "carregar_json_existente_rapido amb s0 = (a, s1)"
      by (cases "carregar_json_existente_rapido amb s0")
    from carregar_props [OF c] have jc: "json_cache s1 = Some a" by simp
    from carregar_carregado [OF c] have o: "objetos s1 a = carregado amb s0" .
    from h have k: "ordem_de (dados_exportacao e) = Inr k" and n: "\<not> (k \<noteq> [] \<and> k \<in> ordens)"
      by simp_all
    show "case salvar_json_incremental_rapido amb e ordens s0 of
         ((sucesso, ordens'), s') \<Rightarrow>
           (\<exists>d. em_cache s' = Some d
              \<and> emails d = emails (carregado amb s0) @ [e]
              \<and> total_emails_processados d = int (length (emails d))
              \<and> emails_com_dados d = int (length (filter com_dados (emails d)))
              \<and> (escrita amb = EscritaOk \<longrightarrow> sucesso \<and> em_arquivo s' = Some d))"
      unfolding salvar_acrescenta [OF k n c] using jc
      by (auto simp: o gravar_def em_cache_def em_arquivo_def split: resultado_escrita.splits)
  qed
next
  show "(salvar_em_sequencia xs {} estado_inicial = (os, s)
        \<and> (em_cache s = Some d \<or> em_arquivo s = Some d) \<longrightarrow>
      total_emails_processados d = int (length (emails d)))"
  proof
    assume h: "salvar_em_sequencia xs {} estado_inicial = (os, s)
        \<and> (em_cache s = Some d \<or> em_arquivo s = Some d)"
    have "\<forall>d. em_cache estado_inicial = Some d \<or> em_arquivo estado_inicial = Some d \<longrightarrow> total_ok d"
      by (simp add: estado_inicial_def em_cache_def em_arquivo_def)
    from salvar_em_sequencia_total_ok [OF this] h have "total_ok d" by blast
    then show "total_emails_processados d = int (length (emails d))" by (simp add: total_ok_def)
  qed
qed

theorem metadados_apos_salvar_witness:
  "ordem_de (dados_exportacao \<lparr>numero_email = 1, assunto = ''s'', data_recebimento = ''2024-01-01 10:00:00'',
        endereco_email_remetente = ''a'', processamento_timestamp = ''p'',
        dados_exportacao = [(''status'', JStr ''TEXTO_MUITO_CURTO'')]\<rparr>) = Inr []
   \<and> salvar_em_sequencia [(\<lparr>relogio = 1000, agora = ''now'', escrita = EscritaOk\<rparr>, \<lparr>numero_email = 1, assunto = ''s'', data_recebimento = ''2024-01-01 10:00:00'',
        endereco_email_remetente = ''a'', processamento_timestamp = ''p'',
        dados_exportacao = [(''status'', JStr ''TEXTO_MUITO_CURTO'')]\<rparr>)] {} estado_inicial
       = ({}, snd (salvar_em_sequencia [(\<lparr>relogio = 1000, agora = ''now'', escrita = EscritaOk\<rparr>, \<lparr>numero_email = 1, assunto = ''s'', data_recebimento = ''2024-01-01 10:00:00'',
        endereco_email_remetente = ''a'', processamento_timestamp = ''p'',
        dados_exportacao = [(''status'', JStr ''TEXTO_MUITO_CURTO'')]\<rparr>)] {} estado_inicial))
   \<and> em_arquivo (snd (salvar_em_sequencia [(\<lparr>relogio = 1000, agora = ''now'', escrita = EscritaOk\<rparr>, \<lparr>numero_email = 1, assunto = ''s'', data_recebimento = ''2024-01-01 10:00:00'',
        endereco_email_remetente = ''a'', processamento_timestamp = ''p'',
        dados_exportacao = [(''status'', JStr ''TEXTO_MUITO_CURTO'')]\<rparr>)] {} estado_inicial)) = Some \<lparr>meta_processamento_timestamp = ''now'', total_emails_processados = 1,
        emails_com_dados = 1, ultima_atualizacao = ''now'', ordens_unicas = {},
        emails = [\<lparr>numero_email = 1, assunto = ''s'', data_recebimento = ''2024-01-01 10:00:00'',
        endereco_email_remetente = ''a'', processamento_timestamp = ''p'',
        dados_exportacao = [(''status'', JStr ''TEXTO_MUITO_CURTO'')]\<rparr>]\<rparr>
   \<and> total_emails_processados \<lparr>meta_processamento_timestamp = ''now'', total_emails_processados = 1,
        emails_com_dados = 1, ultima_atualizacao = ''now'', ordens_unicas = {},
        emails = [\<lparr>numero_email = 1, assunto = ''s'', data_recebimento = ''2024-01-01 10:00:00'',
        endereco_email_remetente = ''a'', processamento_timestamp = ''p'',
        dados_exportacao = [(''status'', JStr ''TEXTO_MUITO_CURTO'')]\<rparr>]\<rparr> = int (length (emails \<lparr>meta_processamento_timestamp = ''now'', total_emails_processados = 1,
        emails_com_dados = 1, ultima_atualizacao = ''now'', ordens_unicas = {},
        emails = [\<lparr>numero_email = 1, assunto = ''s'', data_recebimento = ''2024-01-01 10:00:00'',
        endereco_email_remetente = ''a'', processamento_timestamp = ''p'',
        dados_exportacao = [(''status'', JStr ''TEXTO_MUITO_CURTO'')]\<rparr>]\<rparr>))
   \<and> (case salvar_json_incremental_rapido \<lparr>relogio = 1000, agora = ''now'', escrita = EscritaOk\<rparr> \<lparr>numero_email = 1, assunto = ''s'', data_recebimento = ''2024-01-01 10:00:00'',
        endereco_email_remetente = ''a'', processamento_timestamp = ''p'',
        dados_exportacao = [(''status'', JStr ''TEXTO_MUITO_CURTO'')]\<rparr> {} estado_inicial of
         ((sucesso, ordens'), s') \<Rightarrow>
           (\<exists>d. em_cache s' = Some d
              \<and> emails d = emails (carregado \<lparr>relogio = 1000, agora = ''now'', escrita = EscritaOk\<rparr> estado_inicial) @ [\<lparr>numero_email = 1, assunto = ''s'', data_recebimento = ''2024-01-01 10:00:00'',
        endereco_email_remetente = ''a'', processamento_timestamp = ''p'',
        dados_exportacao = [(''status'', JStr ''TEXTO_MUITO_CURTO'')]\<rparr>]
              \<and> total_emails_processados d = int (length (emails d))
              \<and> emails_com_dados d = int (length (filter com_dados (emails d)))
              \<and> (escrita \<lparr>relogio = 1000, agora = ''now'', escrita = EscritaOk\<rparr> = EscritaOk \<longrightarrow> sucesso \<and> em_arquivo s' = Some d)))"
proof -
  let ?e = "\<lparr>numero_email = 1, assunto = ''s'', data_recebimento = ''2024-01-01 10:00:00'',
        endereco_email_remetente = ''a'', processamento_timestamp = ''p'',
        dados_exportacao = [(''status'', JStr ''TEXTO_MUITO_CURTO'')]\<rparr>"
  let ?am = "\<lparr>relogio = 1000, agora = ''now'', escrita = EscritaOk\<rparr>"
  let ?d = "\<lparr>meta_processamento_timestamp = ''now'', total_emails_processados = 1,
        emails_com_dados = 1, ultima_atualizacao = ''now'', ordens_unicas = {},
        emails = [\<lparr>numero_email = 1, assunto = ''s'', data_recebimento = ''2024-01-01 10:00:00'',
        endereco_email_remetente = ''a'', processamento_timestamp = ''p'',
        dados_exportacao = [(''status'', JStr ''TEXTO_MUITO_CURTO'')]\<rparr>]\<rparr>"
  let ?s = "snd (salvar_em_sequencia [(?am, ?e)] {} estado_inicial)"
  have k: "ordem_de (dados_exportacao ?e) = Inr []" by code_simp
  have f: "fst (salvar_em_sequencia [(?am, ?e)] {} estado_inicial) = {}" by code_simp
  have r: "salvar_em_sequencia [(?am, ?e)] {} estado_inicial = ({}, ?s)"
    using f by (metis prod.collapse)
  have a: "em_arquivo ?s = Some ?d" by code_simp
  have 1: "total_emails_processados ?d = int (length (emails ?d))"
    by (rule metadados_apos_salvar [where xs = "[(?am, ?e)]" and os = "{}" and s = ?s and d = ?d,
          THEN conjunct2, THEN mp]) (use r a in blast)
  have 2: "case salvar_json_incremental_rapido ?am ?e {} estado_inicial of
         ((sucesso, ordens'), s') \<Rightarrow>
           (\<exists>d. em_cache s' = Some d
              \<and> emails d = emails (carregado ?am estado_inicial) @ [?e]
              \<and> total_emails_processados d = int (length (emails d))
              \<and> emails_com_dados d = int (length (filter com_dados (emails d)))
              \<and> (escrita ?am = EscritaOk \<longrightarrow> sucesso \<and> em_arquivo s' = Some d))"
    by (rule metadados_apos_salvar [where e = ?e and k = "[]" and ordens = "{}" and amb = ?am
          and ?s0.0 = estado_inicial, THEN conjunct1, THEN mp]) (use k in simp)
  from k r a 1 2 show ?thesis by blast
qed


section \<open>Persistence\<close>

lemma salvar_casos:
  assumes c: "carregar_json_existente_rapido amb s = (a, s1)"
  shows "salvar_json_incremental_rapido amb e os s = ((False, os), s)
     \<or> salvar_json_incremental_rapido amb e os s = ((False, os), s1)
     \<or> (\<exists>d' o2. salvar_json_incremental_rapido amb e os s
           = gravar amb a o2 (s1\<lparr>objetos := (objetos s1)(a := d')\<rparr>))"
  unfolding salvar_json_incremental_rapido_def c Let_def prod.case
  by (simp split: sum.split option.split prod.split) blast

text \<open>
  C4, as the claim states it, fails: there is no temporary artifact. The save opens the
  store file itself for writing, which truncates it, and then serialises into it. After a
  first save has committed a store with one document, a second save whose write fails
  after the file was opened answers \<^verbatim>\<open>False\<close> and leaves the file truncated: the
  committed store is gone from the file, while the store in memory holds both documents.
\<close>

theorem escrita_direta_counterexample:
  "em_arquivo (snd (salvar_em_sequencia [(\<lparr>relogio = 1000, agora = ''now'', escrita = EscritaOk\<rparr>, \<lparr>numero_email = 1, assunto = ''s'', data_recebimento = ''2024-01-01 10:00:00'',
        endereco_email_remetente = ''a'', processamento_timestamp = ''p'',
        dados_exportacao = [(''Ordem'', JStr ''ORD1'')]\<rparr>)] {} estado_inicial)) = Some \<lparr>meta_processamento_timestamp = ''now'', total_emails_processados = 1,
        emails_com_dados = 1, ultima_atualizacao = ''now'', ordens_unicas = {''ORD1''},
        emails = [\<lparr>numero_email = 1, assunto = ''s'', data_recebimento = ''2024-01-01 10:00:00'',
        endereco_email_remetente = ''a'', processamento_timestamp = ''p'',
        dados_exportacao = [(''Ordem'', JStr ''ORD1'')]\<rparr>]\<rparr>
   \<and> \<not> fst (fst (salvar_json_incremental_rapido \<lparr>relogio = 1010, agora = ''later'', escrita = FalhaAoGravar\<rparr> \<lparr>numero_email = 2, assunto = ''s'', data_recebimento = ''2024-01-02 09:00:00'',
        endereco_email_remetente = ''a'', processamento_timestamp = ''p'',
        dados_exportacao = [(''Ordem'', JStr ''ORD2'')]\<rparr> {''ORD1''}
                 (snd (salvar_em_sequencia [(\<lparr>relogio = 1000, agora = ''now'', escrita = EscritaOk\<rparr>, \<lparr>numero_email = 1, assunto = ''s'', data_recebimento = ''2024-01-01 10:00:00'',
        endereco_email_remetente = ''a'', processamento_timestamp = ''p'',
        dados_exportacao = [(''Ordem'', JStr ''ORD1'')]\<rparr>)] {} estado_inicial))))
   \<and> arquivo (snd (salvar_em_sequencia [(\<lparr>relogio = 1000, agora = ''now'', escrita = EscritaOk\<rparr>, \<lparr>numero_email = 1, assunto = ''s'', data_recebimento = ''2024-01-01 10:00:00'',
        endereco_email_remetente = ''a'', processamento_timestamp = ''p'',
        dados_exportacao = [(''Ordem'', JStr ''ORD1'')]\<rparr>), (\<lparr>relogio = 1010, agora = ''later'', escrita = FalhaAoGravar\<rparr>, \<lparr>numero_email = 2, assunto = ''s'', data_recebimento = ''2024-01-02 09:00:00'',
        endereco_email_remetente = ''a'', processamento_timestamp = ''p'',
        dados_exportacao = [(''Ordem'', JStr ''ORD2'')]\<rparr>)] {} estado_inicial)) = Parcial
   \<and> em_arquivo (snd (salvar_em_sequencia [(\<lparr>relogio = 1000, agora = ''now'', escrita = EscritaOk\<rparr>, \<lparr>numero_email = 1, assunto = ''s'', data_recebimento = ''2024-01-01 10:00:00'',
        endereco_email_remetente = ''a'', processamento_timestamp = ''p'',
        dados_exportacao = [(''Ordem'', JStr ''ORD1'')]\<rparr>), (\<lparr>relogio = 1010, agora = ''later'', escrita = FalhaAoGravar\<rparr>, \<lparr>numero_email = 2, assunto = ''s'', data_recebimento = ''2024-01-02 09:00:00'',
        endereco_email_remetente = ''a'', processamento_timestamp = ''p'',
        dados_exportacao = [(''Ordem'', JStr ''ORD2'')]\<rparr>)] {} estado_inicial)) \<noteq> Some \<lparr>meta_processamento_timestamp = ''now'', total_emails_processados = 1,
        emails_com_dados = 1, ultima_atualizacao = ''now'', ordens_unicas = {''ORD1''},
        emails = [\<lparr>numero_email = 1, assunto = ''s'', data_recebimento = ''2024-01-01 10:00:00'',
        endereco_email_remetente = ''a'', processamento_timestamp = ''p'',
        dados_exportacao = [(''Ordem'', JStr ''ORD1'')]\<rparr>]\<rparr>
   \<and> map_option emails (em_cache (snd (salvar_em_sequencia [(\<lparr>relogio = 1000, agora = ''now'', escrita = EscritaOk\<rparr>, \<lparr>numero_email = 1, assunto = ''s'', data_recebimento = ''2024-01-01 10:00:00'',
        endereco_email_remetente = ''a'', processamento_timestamp = ''p'',
        dados_exportacao = [(''Ordem'', JStr ''ORD1'')]\<rparr>), (\<lparr>relogio = 1010, agora = ''later'', escrita = FalhaAoGravar\<rparr>, \<lparr>numero_email = 2, assunto = ''s'', data_recebimento = ''2024-01-02 09:00:00'',
        endereco_email_remetente = ''a'', processamento_timestamp = ''p'',
        dados_exportacao = [(''Ordem'', JStr ''ORD2'')]\<rparr>)] {} estado_inicial)))
       = Some [\<lparr>numero_email = 1, assunto = ''s'', data_recebimento = ''2024-01-01 10:00:00'',
        endereco_email_remetente = ''a'', processamento_timestamp = ''p'',
        dados_exportacao = [(''Ordem'', JStr ''ORD1'')]\<rparr>, \<lparr>numero_email = 2, assunto = ''s'', data_recebimento = ''2024-01-02 09:00:00'',
        endereco_email_remetente = ''a'', processamento_timestamp = ''p'',
        dados_exportacao = [(''Ordem'', JStr ''ORD2'')]\<rparr>]"
  by code_simp

text \<open>
  C4, amended. Persistence is a direct rewrite of the store file, with no temporary
  artifact. A save answers \<^verbatim>\<open>True\<close> only when its write succeeded, and then the file
  holds the complete store that is in memory. When opening the file for writing fails, the
  save answers \<^verbatim>\<open>False\<close> and the file is as it was. When the write fails after the file
  was opened, the save answers \<^verbatim>\<open>False\<close> and the file is either untouched (the
  document had been rejected before any write) or left truncated. For a document that is
  appended (its order is empty or not in the key set), a successful write answers
  \<^verbatim>\<open>True\<close>, a write failing after the open leaves the file truncated, and the store in
  memory has the document appended whatever the write does.
\<close>

theorem escrita_direta:
  "(case salvar_json_incremental_rapido amb e ordens s of
     ((sucesso, ordens'), s') \<Rightarrow>
       (sucesso \<longrightarrow> escrita amb = EscritaOk \<and> (\<exists>d. em_cache s' = Some d \<and> arquivo s' = Completo d))
       \<and> (escrita amb = FalhaAoAbrir \<longrightarrow> \<not> sucesso \<and> arquivo s' = arquivo s)
       \<and> (escrita amb = FalhaAoGravar \<longrightarrow>
            \<not> sucesso \<and> (arquivo s' = arquivo s \<or> arquivo s' = Parcial))
       \<and> (ordem_de (dados_exportacao e) = Inr k \<and> \<not> (k \<noteq> [] \<and> k \<in> ordens) \<longrightarrow>
            (escrita amb = EscritaOk \<longrightarrow> sucesso)
            \<and> (escrita amb = FalhaAoGravar \<longrightarrow> arquivo s' = Parcial)
            \<and> map_option emails (em_cache s') = Some (emails (carregado amb s) @ [e])))"
proof -
  obtain a s1 where c: "carregar_json_existente_rapido amb s = (a, s1)"
    by (cases "carregar_json_existente_rapido amb s")
  from carregar_props [OF c] have jc: "json_cache s1 = Some a" and ar: "arquivo s1 = arquivo s"
    by simp_all
  from carregar_carregado [OF c] have o: "objetos s1 a = carregado amb s" .
  have geral: "case salvar_json_incremental_rapido amb e ordens s of
     ((sucesso, ordens'), s') \<Rightarrow>
       (sucesso \<longrightarrow> escrita amb = EscritaOk \<and> (\<exists>d. em_cache s' = Some d \<and> arquivo s' = Completo d))
       \<and> (escrita amb = FalhaAoAbrir \<longrightarrow> \<not> sucesso \<and> arquivo s' = arquivo s)
       \<and> (escrita amb = FalhaAoGravar \<longrightarrow>
            \<not> sucesso \<and> (arquivo s' = arquivo s \<or> arquivo s' = Parcial))"
    using salvar_casos [OF c, of e ordens] ar jc
    by (cases "escrita amb") (auto simp: gravar_def em_cache_def)
  have novo: "case salvar_json_incremental_rapido amb e ordens s of
     ((sucesso, ordens'), s') \<Rightarrow>
            (escrita amb = EscritaOk \<longrightarrow> sucesso)
            \<and> (escrita amb = FalhaAoGravar \<longrightarrow> arquivo s' = Parcial)
            \<and> map_option emails (em_cache s') = Some (emails (carregado amb s) @ [e])"
    if k: "ordem_de (dados_exportacao e) = Inr k" and n: "\<not> (k \<noteq> [] \<and> k \<in> ordens)"
    unfolding salvar_acrescenta [OF k n c] using jc
    by (auto simp: o gravar_def em_cache_def split: resultado_escrita.splits)
  from geral novo show ?thesis
    by (cases "salvar_json_incremental_rapido amb e ordens s") auto
qed

theorem escrita_direta_witness:
  "ordem_de (dados_exportacao \<lparr>numero_email = 2, assunto = ''s'', data_recebimento = ''2024-01-02 09:00:00'',
        endereco_email_remetente = ''a'', processamento_timestamp = ''p'',
        dados_exportacao = [(''Ordem'', JStr ''ORD2'')]\<rparr>) = Inr ''ORD2'' \<and> ''ORD2'' \<notin> {''ORD1''}
   \<and> escrita \<lparr>relogio = 1010, agora = ''later'', escrita = FalhaAoGravar\<rparr> = FalhaAoGravar
   \<and> (case salvar_json_incremental_rapido \<lparr>relogio = 1010, agora = ''later'', escrita = FalhaAoGravar\<rparr> \<lparr>numero_email = 2, assunto = ''s'', data_recebimento = ''2024-01-02 09:00:00'',
        endereco_email_remetente = ''a'', processamento_timestamp = ''p'',
        dados_exportacao = [(''Ordem'', JStr ''ORD2'')]\<rparr> {''ORD1''}
             (snd (salvar_em_sequencia [(\<lparr>relogio = 1000, agora = ''now'', escrita = EscritaOk\<rparr>, \<lparr>numero_email = 1, assunto = ''s'', data_recebimento = ''2024-01-01 10:00:00'',
        endereco_email_remetente = ''a'', processamento_timestamp = ''p'',
        dados_exportacao = [(''Ordem'', JStr ''ORD1'')]\<rparr>)] {} estado_inicial)) of
        ((sucesso, ordens'), s') \<Rightarrow> \<not> sucesso \<and> arquivo s' = Parcial)"
proof -
  let ?e2 = "\<lparr>numero_email = 2, assunto = ''s'', data_recebimento = ''2024-01-02 09:00:00'',
        endereco_email_remetente = ''a'', processamento_timestamp = ''p'',
        dados_exportacao = [(''Ordem'', JStr ''ORD2'')]\<rparr>"
  let ?af = "\<lparr>relogio = 1010, agora = ''later'', escrita = FalhaAoGravar\<rparr>"
  let ?s = "snd (salvar_em_sequencia [(\<lparr>relogio = 1000, agora = ''now'', escrita = EscritaOk\<rparr>, \<lparr>numero_email = 1, assunto = ''s'', data_recebimento = ''2024-01-01 10:00:00'',
        endereco_email_remetente = ''a'', processamento_timestamp = ''p'',
        dados_exportacao = [(''Ordem'', JStr ''ORD1'')]\<rparr>)] {} estado_inicial)"
  have k: "ordem_de (dados_exportacao ?e2) = Inr ''ORD2''" by code_simp
  have n: "\<not> (''ORD2'' \<noteq> [] \<and> ''ORD2'' \<in> {''ORD1''})" by simp
  have f: "escrita ?af = FalhaAoGravar" by simp
  obtain ok o' s' where r: "salvar_json_incremental_rapido ?af ?e2 {''ORD1''} ?s = ((ok, o'), s')"
    by (metis prod.exhaust)
  from escrita_direta [where amb = ?af and e = ?e2 and ordens = "{''ORD1''}" and s = ?s
      and k = "''ORD2''"] k n f
  have "\<not> ok \<and> arquivo s' = Parcial" unfolding r by simp
  then have "case salvar_json_incremental_rapido ?af ?e2 {''ORD1''} ?s of
        ((sucesso, ordens'), s') \<Rightarrow> \<not> sucesso \<and> arquivo s' = Parcial"
    unfolding r by simp
  with k show ?thesis by simp
qed


section \<open>Numeric coercion\<close>

lemma digito_nao_separador: "is_digit c \<Longrightarrow> c \<noteq> CHR ''.'' \<and> c \<noteq> CHR '',''"
  by (auto simp: is_digit_def)

lemma py_float_digitos:
  assumes "ds \<noteq> []" "\<forall>c\<in>set ds. is_digit c"
  shows "py_float ds = Some (of_nat (valor_decimal ds))"
proof -
  from assms(2) have "\<forall>c\<in>set ds. c \<noteq> CHR ''.''"
    using digito_nao_separador by blast
  then have t: "takeWhile (\<lambda>c. c \<noteq> CHR ''.'') ds = ds"
    and d: "dropWhile (\<lambda>c. c \<noteq> CHR ''.'') ds = []"
    by (simp_all add: takeWhile_eq_all_conv)
  show ?thesis unfolding py_float_def t d using assms(1) by simp
qed

lemma converter_para_decimal_sem_virgula:
  assumes h: "s \<noteq> [] \<and> (\<exists>c\<in>set s. is_digit c) \<and> CHR '','' \<notin> set s"
  shows "converter_para_decimal (JStr s) = Some (of_nat (valor_decimal (filter is_digit s)))"
proof -
  let ?ds = "filter is_digit s"
  from h have f: "filter (\<lambda>c. is_digit c \<or> c = CHR '','') s = ?ds"
    by (intro filter_cong) auto
  have m: "map (\<lambda>c. if c = CHR '','' then CHR ''.'' else c) ?ds = ?ds"
    using digito_nao_separador by (intro map_idI) auto
  from h have ne: "?ds \<noteq> []" by (auto simp: filter_empty_conv)
  have "py_float ?ds = Some (of_nat (valor_decimal ?ds))"
    by (rule py_float_digitos [OF ne]) simp
  with h ne show ?thesis
    unfolding converter_para_decimal_def Let_def str.simps f m by simp
qed

lemma digitos_1234_56: "filter is_digit ''1234.56'' = ''123456''"
  by code_simp

lemma valor_123456: "valor_decimal ''123456'' = 123456"
  by (simp add: valor_decimal_def digit_val_def)

text \<open>
  C10. For a non-empty string with at least one decimal digit and no comma,
  \<^verbatim>\<open>converter_para_decimal\<close> drops every character that is not a digit, the dot included,
  and answers the number written by the digits that remain; so \<^verbatim>\<open>"1234.56"\<close> gives
  123456 and not 1234.56.
\<close>

theorem converter_para_decimal_digitos:
  "(s \<noteq> [] \<and> (\<exists>c\<in>set s. is_digit c) \<and> CHR '','' \<notin> set s \<longrightarrow>
      converter_para_decimal (JStr s) = Some (of_nat (valor_decimal (filter is_digit s))))
   \<and> converter_para_decimal (JStr ''1234.56'') = Some 123456
   \<and> converter_para_decimal (JStr ''1234.56'') \<noteq> Some (123456 / 100)"
proof -
  have "''1234.56'' \<noteq> [] \<and> (\<exists>c\<in>set ''1234.56''. is_digit c) \<and> CHR '','' \<notin> set ''1234.56''"
    by (simp add: is_digit_def)
  from converter_para_decimal_sem_virgula [OF this]
  have c: "converter_para_decimal (JStr ''1234.56'') = Some 123456"
    unfolding digitos_1234_56 valor_123456 by simp
  from converter_para_decimal_sem_virgula c show ?thesis by simp
qed

theorem converter_para_decimal_digitos_witness:
  "''R$ 1.500'' \<noteq> [] \<and> (\<exists>c\<in>set ''R$ 1.500''. is_digit c) \<and> CHR '','' \<notin> set ''R$ 1.500''
   \<and> valor_decimal (filter is_digit ''R$ 1.500'') = 1500
   \<and> converter_para_decimal (JStr ''R$ 1.500'') = Some 1500"
proof -
  have h: "''R$ 1.500'' \<noteq> [] \<and> (\<exists>c\<in>set ''R$ 1.500''. is_digit c) \<and> CHR '','' \<notin> set ''R$ 1.500''"
    by (simp add: is_digit_def)
  have "filter is_digit ''R$ 1.500'' = ''1500''" by code_simp
  then have v: "valor_decimal (filter is_digit ''R$ 1.500'') = 1500"
    by (simp add: valor_decimal_def digit_val_def)
  from converter_para_decimal_digitos [where s = "''R$ 1.500''", THEN conjunct1, THEN mp, OF h]
  have "converter_para_decimal (JStr ''R$ 1.500'') = Some 1500" unfolding v by simp
  with h v show ?thesis by blast
qed


section \<open>Date coercion and the relational row\<close>

lemma tentar_formatos_primeiro:
  "list_all (\<lambda>f. strptime x f = None) pre \<Longrightarrow> strptime x formato = Some c \<Longrightarrow>
     tentar_formatos (pre @ formato # pos) x = Some (para_date c)"
  by (induction pre) auto

lemma tentar_formatos_nenhum:
  "list_all (\<lambda>f. strptime x f = None) fs \<Longrightarrow> tentar_formatos fs x = None"
  by (induction fs) auto

lemma data_10_07_2024: "converter_para_data dp (JStr ''10/07/2024'') = Some (2024, 7, 10)"
  by code_simp

lemma atualizar_ou_inserir_eta:
  "\<exists>r\<in>set (atualizar_ou_inserir libs d k t).
      ordem r = k \<and> eta r = converter_para_data (lib_dateutil_parse libs) (obter d ''ETA'' (JStr []))"
  by (induction t) (auto simp: atualizar_registro_def novo_registro_def)

lemma unica_linha:
  assumes "distinct (map ordem t)" "r \<in> set t" "r' \<in> set t" "ordem r = ordem r'"
  shows "r = r'"
  using assms by (meson distinct_map inj_onD)

text \<open>
  C9. \<^verbatim>\<open>converter_para_data\<close> tries the eight layouts of \<open>formatos_data\<close> in their order
  and answers with the first that parses; when none parses it answers what the permissive
  parser answers, which is \<^verbatim>\<open>None\<close> when that parser fails too. The string
  \<^verbatim>\<open>"10/07/2024"\<close> gives 10 July 2024, whatever the permissive parser is. When the store
  holds one document, with data, a non-empty order and the ETA \<^verbatim>\<open>"10/07/2024"\<close>, a
  synchronisation that commits leaves a row of that order, and every row of that order has
  the ETA 2024-07-10; on an empty table the synchronisation does commit.
\<close>

theorem converter_para_data_primeiro_formato:
  "(formatos_data = pre @ formato # pos \<and> s \<noteq> []
        \<and> list_all (\<lambda>f. strptime (strip s) f = None) pre \<and> strptime (strip s) formato = Some c \<longrightarrow>
      converter_para_data dp (JStr s) = Some (para_date c))
   \<and> (s \<noteq> [] \<and> list_all (\<lambda>f. strptime (strip s) f = None) formatos_data \<longrightarrow>
        converter_para_data dp (JStr s) = dp (strip s))
   \<and> converter_para_data dp (JStr ''10/07/2024'') = Some (2024, 7, 10)
   \<and> (emails (carregado amb st) = [e] \<and> com_dados e \<and> ordem_de (dados_exportacao e) = Inr k
        \<and> k \<noteq> [] \<and> map_of (dados_exportacao e) ''ETA'' = Some (JStr ''10/07/2024'') \<longrightarrow>
      (case sincronizar_json_para_banco libs amb tabela st of
         ((sucesso, tabela'), st') \<Rightarrow>
           (tabela = [] \<longrightarrow> sucesso)
           \<and> (sucesso \<longrightarrow>
                (\<exists>r\<in>set tabela'. ordem r = k)
                \<and> (\<forall>r\<in>set tabela'. ordem r = k \<longrightarrow> eta r = Some (2024, 7, 10)))))"
proof (intro conjI impI)
  assume h: "formatos_data = pre @ formato # pos \<and> s \<noteq> []
        \<and> list_all (\<lambda>f. strptime (strip s) f = None) pre \<and> strptime (strip s) formato = Some c"
  then have "tentar_formatos formatos_data (strip s) = Some (para_date c)"
    using tentar_formatos_primeiro [of "strip s" pre formato c pos] by simp
  with h show "converter_para_data dp (JStr s) = Some (para_date c)"
    by (simp add: converter_para_data_def)
next
  assume h: "s \<noteq> [] \<and> list_all (\<lambda>f. strptime (strip s) f = None) formatos_data"
  then have "tentar_formatos formatos_data (strip s) = None"
    using tentar_formatos_nenhum by blast
  with h show "converter_para_data dp (JStr s) = dp (strip s)"
    by (simp add: converter_para_data_def)
next
  show "converter_para_data dp (JStr ''10/07/2024'') = Some (2024, 7, 10)" by (rule data_10_07_2024)
next
  assume h: "emails (carregado amb st) = [e] \<and> com_dados e \<and> ordem_de (dados_exportacao e) = Inr k
        \<and> k \<noteq> [] \<and> map_of (dados_exportacao e) ''ETA'' = Some (JStr ''10/07/2024'')"
  obtain a s1 where c: "carregar_json_existente_rapido amb st = (a, s1)"
    by (cases "carregar_json_existente_rapido amb st")
  from carregar_carregado [OF c] h have o: "emails (objetos s1 a) = [e]" by simp
  let ?t = "atualizar_ou_inserir libs (dados_exportacao e) k tabela"
  from h have l: "sincronizar_emails libs [e] tabela = Inr ?t" by simp
  have r: "sincronizar_json_para_banco libs amb tabela st
      = (if integra ?t then ((True, ?t), s1) else ((False, tabela), s1))"
    unfolding sincronizar_json_para_banco_def c prod.case Let_def o l by simp
  from h have "obter (dados_exportacao e) ''ETA'' (JStr []) = JStr ''10/07/2024''"
    by (simp add: obter_def)
  with atualizar_ou_inserir_eta [of libs "dados_exportacao e" k tabela] data_10_07_2024
  obtain r0 where r0: "r0 \<in> set ?t" "ordem r0 = k" "eta r0 = Some (2024, 7, 10)" by auto
  have todas: "\<forall>r\<in>set ?t. ordem r = k \<longrightarrow> eta r = Some (2024, 7, 10)" if "integra ?t"
  proof (intro ballI impI)
    fix r assume "r \<in> set ?t" "ordem r = k"
    with that r0 have "r = r0" using unica_linha [of ?t r r0] by (simp add: integra_def)
    with r0 show "eta r = Some (2024, 7, 10)" by simp
  qed
  have vazia: "integra ?t" if "tabela = []"
    using that by (simp add: integra_def)
  show "case sincronizar_json_para_banco libs amb tabela st of
         ((sucesso, tabela'), st') \<Rightarrow>
           (tabela = [] \<longrightarrow> sucesso)
           \<and> (sucesso \<longrightarrow>
                (\<exists>r\<in>set tabela'. ordem r = k)
                \<and> (\<forall>r\<in>set tabela'. ordem r = k \<longrightarrow> eta r = Some (2024, 7, 10)))"
    unfolding r using r0 todas vazia by (cases "integra ?t") auto
qed


theorem converter_para_data_primeiro_formato_witness:
  "formatos_data = [''%Y-%m-%d''] @ ''%d/%m/%Y'' #
       [''%d-%m-%Y'', ''%m/%d/%Y'', ''%Y/%m/%d'', ''%d.%m.%Y'', ''%d %b %Y'', ''%d %B %Y'']
   \<and> strptime (strip ''10/07/2024'') ''%Y-%m-%d'' = None
   \<and> strptime (strip ''10/07/2024'') ''%d/%m/%Y''
       = Some \<lparr>ano = 2024, mes = 7, dia = 10, hora = 0, minuto = 0, segundo = 0\<rparr>
   \<and> converter_para_data (\<lambda>_. None) (JStr ''10/07/2024'') = Some (2024, 7, 10)
   \<and> list_all (\<lambda>f. strptime (strip ''amanha'') f = None) formatos_data
   \<and> converter_para_data (\<lambda>_. None) (JStr ''amanha'') = None
   \<and> emails (carregado \<lparr>relogio = 1000, agora = ''now'', escrita = EscritaOk\<rparr> (snd (salvar_em_sequencia [(\<lparr>relogio = 1000, agora = ''now'', escrita = EscritaOk\<rparr>, \<lparr>numero_email = 1, assunto = ''s'', data_recebimento = ''2024-01-02 09:00:00'',
        endereco_email_remetente = ''a'', processamento_timestamp = ''p'',
        dados_exportacao = [(''Ordem'', JStr ''ORD2''), (''ETA'', JStr ''10/07/2024'')]\<rparr>)] {} estado_inicial))) = [\<lparr>numero_email = 1, assunto = ''s'', data_recebimento = ''2024-01-02 09:00:00'',
        endereco_email_remetente = ''a'', processamento_timestamp = ''p'',
        dados_exportacao = [(''Ordem'', JStr ''ORD2''), (''ETA'', JStr ''10/07/2024'')]\<rparr>]
   \<and> (case sincronizar_json_para_banco \<lparr>lib_dateutil_parse = (\<lambda>_. None), lib_md5_hexdigest = (\<lambda>x. x)\<rparr> \<lparr>relogio = 1000, agora = ''now'', escrita = EscritaOk\<rparr> [] (snd (salvar_em_sequencia [(\<lparr>relogio = 1000, agora = ''now'', escrita = EscritaOk\<rparr>, \<lparr>numero_email = 1, assunto = ''s'', data_recebimento = ''2024-01-02 09:00:00'',
        endereco_email_remetente = ''a'', processamento_timestamp = ''p'',
        dados_exportacao = [(''Ordem'', JStr ''ORD2''), (''ETA'', JStr ''10/07/2024'')]\<rparr>)] {} estado_inicial)) of
         ((sucesso, tabela'), st') \<Rightarrow>
           ([] = ([] :: exportacao_db list) \<longrightarrow> sucesso)
           \<and> (sucesso \<longrightarrow>
                (\<exists>r\<in>set tabela'. ordem r = ''ORD2'')
                \<and> (\<forall>r\<in>set tabela'. ordem r = ''ORD2'' \<longrightarrow> eta r = Some (2024, 7, 10))))"
proof -
  let ?c = "\<lparr>ano = 2024, mes = 7, dia = 10, hora = 0, minuto = 0, segundo = 0\<rparr>"
  let ?pos = "[''%d-%m-%Y'', ''%m/%d/%Y'', ''%Y/%m/%d'', ''%d.%m.%Y'', ''%d %b %Y'', ''%d %B %Y'']"
  let ?dp = "\<lambda>_::string. None :: date option"
  have f: "formatos_data = [''%Y-%m-%d''] @ ''%d/%m/%Y'' # ?pos"
    by (simp add: formatos_data_def)
  have n: "strptime (strip ''10/07/2024'') ''%Y-%m-%d'' = None" by code_simp
  have p: "strptime (strip ''10/07/2024'') ''%d/%m/%Y'' = Some ?c" by code_simp
  have h1: "formatos_data = [''%Y-%m-%d''] @ ''%d/%m/%Y'' # ?pos \<and> ''10/07/2024'' \<noteq> []
        \<and> list_all (\<lambda>f. strptime (strip ''10/07/2024'') f = None) [''%Y-%m-%d'']
        \<and> strptime (strip ''10/07/2024'') ''%d/%m/%Y'' = Some ?c"
    using f n p by simp
  have 1: "converter_para_data ?dp (JStr ''10/07/2024'') = Some (2024, 7, 10)"
    using converter_para_data_primeiro_formato [where s = "''10/07/2024''" and pre = "[''%Y-%m-%d'']"
        and formato = "''%d/%m/%Y''" and pos = ?pos and c = ?c and dp = ?dp,
        THEN conjunct1, THEN mp, OF h1]
    by (simp add: para_date_def)
  have a: "list_all (\<lambda>f. strptime (strip ''amanha'') f = None) formatos_data" by code_simp
  have 2: "converter_para_data ?dp (JStr ''amanha'') = None"
    using converter_para_data_primeiro_formato [where s = "''amanha''" and dp = ?dp,
        THEN conjunct2, THEN conjunct1, THEN mp] a
    by simp
  have e: "emails (carregado \<lparr>relogio = 1000, agora = ''now'', escrita = EscritaOk\<rparr> (snd (salvar_em_sequencia [(\<lparr>relogio = 1000, agora = ''now'', escrita = EscritaOk\<rparr>, \<lparr>numero_email = 1, assunto = ''s'', data_recebimento = ''2024-01-02 09:00:00'',
        endereco_email_remetente = ''a'', processamento_timestamp = ''p'',
        dados_exportacao = [(''Ordem'', JStr ''ORD2''), (''ETA'', JStr ''10/07/2024'')]\<rparr>)] {} estado_inicial))) = [\<lparr>numero_email = 1, assunto = ''s'', data_recebimento = ''2024-01-02 09:00:00'',
        endereco_email_remetente = ''a'', processamento_timestamp = ''p'',
        dados_exportacao = [(''Ordem'', JStr ''ORD2''), (''ETA'', JStr ''10/07/2024'')]\<rparr>]" by code_simp
  have cd: "com_dados \<lparr>numero_email = 1, assunto = ''s'', data_recebimento = ''2024-01-02 09:00:00'',
        endereco_email_remetente = ''a'', processamento_timestamp = ''p'',
        dados_exportacao = [(''Ordem'', JStr ''ORD2''), (''ETA'', JStr ''10/07/2024'')]\<rparr>" by code_simp
  have k: "ordem_de (dados_exportacao \<lparr>numero_email = 1, assunto = ''s'', data_recebimento = ''2024-01-02 09:00:00'',
        endereco_email_remetente = ''a'', processamento_timestamp = ''p'',
        dados_exportacao = [(''Ordem'', JStr ''ORD2''), (''ETA'', JStr ''10/07/2024'')]\<rparr>) = Inr ''ORD2''" by code_simp
  have h3: "emails (carregado \<lparr>relogio = 1000, agora = ''now'', escrita = EscritaOk\<rparr> (snd (salvar_em_sequencia [(\<lparr>relogio = 1000, agora = ''now'', escrita = EscritaOk\<rparr>, \<lparr>numero_email = 1, assunto = ''s'', data_recebimento = ''2024-01-02 09:00:00'',
        endereco_email_remetente = ''a'', processamento_timestamp = ''p'',
        dados_exportacao = [(''Ordem'', JStr ''ORD2''), (''ETA'', JStr ''10/07/2024'')]\<rparr>)] {} estado_inicial))) = [\<lparr>numero_email = 1, assunto = ''s'', data_recebimento = ''2024-01-02 09:00:00'',
        endereco_email_remetente = ''a'', processamento_timestamp = ''p'',
        dados_exportacao = [(''Ordem'', JStr ''ORD2''), (''ETA'', JStr ''10/07/2024'')]\<rparr>] \<and> com_dados \<lparr>numero_email = 1, assunto = ''s'', data_recebimento = ''2024-01-02 09:00:00'',
        endereco_email_remetente = ''a'', processamento_timestamp = ''p'',
        dados_exportacao = [(''Ordem'', JStr ''ORD2''), (''ETA'', JStr ''10/07/2024'')]\<rparr>
        \<and> ordem_de (dados_exportacao \<lparr>numero_email = 1, assunto = ''s'', data_recebimento = ''2024-01-02 09:00:00'',
        endereco_email_remetente = ''a'', processamento_timestamp = ''p'',
        dados_exportacao = [(''Ordem'', JStr ''ORD2''), (''ETA'', JStr ''10/07/2024'')]\<rparr>) = Inr ''ORD2''
        \<and> ''ORD2'' \<noteq> [] \<and> map_of (dados_exportacao \<lparr>numero_email = 1, assunto = ''s'', data_recebimento = ''2024-01-02 09:00:00'',
        endereco_email_remetente = ''a'', processamento_timestamp = ''p'',
        dados_exportacao = [(''Ordem'', JStr ''ORD2''), (''ETA'', JStr ''10/07/2024'')]\<rparr>) ''ETA'' = Some (JStr ''10/07/2024'')"
    using e cd k by simp
  have 3: "(case sincronizar_json_para_banco \<lparr>lib_dateutil_parse = (\<lambda>_. None), lib_md5_hexdigest = (\<lambda>x. x)\<rparr> \<lparr>relogio = 1000, agora = ''now'', escrita = EscritaOk\<rparr> [] (snd (salvar_em_sequencia [(\<lparr>relogio = 1000, agora = ''now'', escrita = EscritaOk\<rparr>, \<lparr>numero_email = 1, assunto = ''s'', data_recebimento = ''2024-01-02 09:00:00'',
        endereco_email_remetente = ''a'', processamento_timestamp = ''p'',
        dados_exportacao = [(''Ordem'', JStr ''ORD2''), (''ETA'', JStr ''10/07/2024'')]\<rparr>)] {} estado_inicial)) of
         ((sucesso, tabela'), st') \<Rightarrow>
           ([] = ([] :: exportacao_db list) \<longrightarrow> sucesso)
           \<and> (sucesso \<longrightarrow>
                (\<exists>r\<in>set tabela'. ordem r = ''ORD2'')
                \<and> (\<forall>r\<in>set tabela'. ordem r = ''ORD2'' \<longrightarrow> eta r = Some (2024, 7, 10))))"
    by (rule converter_para_data_primeiro_formato [where amb = "\<lparr>relogio = 1000, agora = ''now'', escrita = EscritaOk\<rparr>" and st = "(snd (salvar_em_sequencia [(\<lparr>relogio = 1000, agora = ''now'', escrita = EscritaOk\<rparr>, \<lparr>numero_email = 1, assunto = ''s'', data_recebimento = ''2024-01-02 09:00:00'',
        endereco_email_remetente = ''a'', processamento_timestamp = ''p'',
        dados_exportacao = [(''Ordem'', JStr ''ORD2''), (''ETA'', JStr ''10/07/2024'')]\<rparr>)] {} estado_inicial))" and e = "\<lparr>numero_email = 1, assunto = ''s'', data_recebimento = ''2024-01-02 09:00:00'',
        endereco_email_remetente = ''a'', processamento_timestamp = ''p'',
        dados_exportacao = [(''Ordem'', JStr ''ORD2''), (''ETA'', JStr ''10/07/2024'')]\<rparr>"
        and k = "''ORD2''" and libs = "\<lparr>lib_dateutil_parse = (\<lambda>_. None), lib_md5_hexdigest = (\<lambda>x. x)\<rparr>" and tabela = "[]",
        THEN conjunct2, THEN conjunct2, THEN conjunct2, THEN mp, OF h3])
  from f n p 1 a 2 e 3 show ?thesis by blast
qed


section \<open>Sequence numbers\<close>

text \<open>
  C8, as the claim states it, fails. The number of a document is the total of the store
  object plus the documents of the current batch saved so far plus one, and a replacement
  is a saved document that does not raise the total. Three batches on an empty store, the
  first with a document of order K1, the second with a later document of K1 and a document
  of K2, the third with a document of K3: the stored documents end with the numbers 2, 3
  and 3.
\<close>

theorem numero_email_counterexample:
  "map_option (\<lambda>d. map numero_email (emails d))
     (em_arquivo (snd (snd (snd (processar_em_lotes \<lparr>lib_dateutil_parse = (\<lambda>_. None), lib_md5_hexdigest = (\<lambda>x. x)\<rparr> \<lparr>relogio = 1000, agora = ''now'', escrita = EscritaOk\<rparr> \<lparr>relogio = 1000, agora = ''now'', escrita = EscritaOk\<rparr>
        [([\<lparr>en_assunto = ''s'', en_data_str = ''2024-01-01 10:00:00'', en_remetente = ''r'',
          en_dados_exportacao = [(''Ordem'', JStr ''K1'')], en_timestamp = ''p'',
          en_amb_salvar = \<lparr>relogio = 1000, agora = ''now'', escrita = EscritaOk\<rparr>, en_amb_sincronizar = \<lparr>relogio = 1000, agora = ''now'', escrita = EscritaOk\<rparr>\<rparr>], \<lparr>relogio = 1000, agora = ''now'', escrita = EscritaOk\<rparr>),
        ([\<lparr>en_assunto = ''s'', en_data_str = ''2024-01-02 10:00:00'', en_remetente = ''r'',
          en_dados_exportacao = [(''Ordem'', JStr ''K1'')], en_timestamp = ''p'',
          en_amb_salvar = \<lparr>relogio = 1000, agora = ''now'', escrita = EscritaOk\<rparr>, en_amb_sincronizar = \<lparr>relogio = 1000, agora = ''now'', escrita = EscritaOk\<rparr>\<rparr>,
          \<lparr>en_assunto = ''s'', en_data_str = ''2024-01-03 10:00:00'', en_remetente = ''r'',
          en_dados_exportacao = [(''Ordem'', JStr ''K2'')], en_timestamp = ''p'',
          en_amb_salvar = \<lparr>relogio = 1000, agora = ''now'', escrita = EscritaOk\<rparr>, en_amb_sincronizar = \<lparr>relogio = 1000, agora = ''now'', escrita = EscritaOk\<rparr>\<rparr>], \<lparr>relogio = 1000, agora = ''now'', escrita = EscritaOk\<rparr>),
        ([\<lparr>en_assunto = ''s'', en_data_str = ''2024-01-04 10:00:00'', en_remetente = ''r'',
          en_dados_exportacao = [(''Ordem'', JStr ''K3'')], en_timestamp = ''p'',
          en_amb_salvar = \<lparr>relogio = 1000, agora = ''now'', escrita = EscritaOk\<rparr>, en_amb_sincronizar = \<lparr>relogio = 1000, agora = ''now'', escrita = EscritaOk\<rparr>\<rparr>], \<lparr>relogio = 1000, agora = ''now'', escrita = EscritaOk\<rparr>)]
        None estado_inicial)))))
   = Some [2, 3, 3]
   \<and> \<not> distinct [2, 3, 3 :: int]"
  by code_simp

lemma carregar_heap:
  "carregar_json_existente_rapido amb s = (a, s1) \<Longrightarrow>
     proximo s \<le> proximo s1 \<and> (\<forall>b<proximo s. objetos s1 b = objetos s b)"
  by (auto simp: carregar_json_existente_rapido_def novo_objeto_def Let_def
      split: option.splits arquivo_json.splits if_splits)

lemma gravar_heap: "gravar amb a os s = (r, s') \<Longrightarrow> proximo s' = proximo s \<and> objetos s' = objetos s"
  by (auto simp: gravar_def split: resultado_escrita.splits)

lemma salvar_total_mono:
  assumes de: "de < proximo s" and ok: "total_ok (objetos s de)"
    and r: "salvar_json_incremental_rapido amb e os s = ((suc, os'), s')"
  shows "de < proximo s' \<and> total_ok (objetos s' de)
     \<and> total_emails_processados (objetos s de) \<le> total_emails_processados (objetos s' de)"
proof (cases "ordem_de (dados_exportacao e)")
  case (Inl x)
  with r de ok show ?thesis by (simp add: salvar_json_incremental_rapido_def)
next
  case (Inr k)
  obtain a s1 where c: "carregar_json_existente_rapido amb s = (a, s1)"
    by (cases "carregar_json_existente_rapido amb s")
  from carregar_heap [OF c] de have p1: "de < proximo s1" and o1: "objetos s1 de = objetos s de"
    by auto
  have g: ?thesis
    if "gravar amb a o2 (s1\<lparr>objetos := (objetos s1)(a := d')\<rparr>) = ((suc, os'), s')"
      and "a = de \<longrightarrow> total_ok d' \<and> total_emails_processados (objetos s de) \<le> total_emails_processados d'"
    for d' o2
    using gravar_heap [OF that(1)] that(2) p1 o1 ok by auto
  show ?thesis
  proof (cases "k \<noteq> [] \<and> k \<in> os")
    case False
    from r salvar_acrescenta [OF Inr False c] show ?thesis
      by (intro g [where d' = "(objetos s1 a)\<lparr>emails := emails (objetos s1 a) @ [e],
              ordens_unicas := (if k \<noteq> [] then insert k os else ordens_unicas (objetos s1 a)),
              total_emails_processados := int (length (emails (objetos s1 a) @ [e])),
              emails_com_dados := int (length (filter com_dados (emails (objetos s1 a) @ [e]))),
              ultima_atualizacao := agora amb\<rparr>"])
        (use o1 ok in \<open>auto simp: total_ok_def\<close>)
  next
    case True
    show ?thesis
    proof (cases "\<exists>i ex. encontrar_email_por_ordem (objetos s1 a) k = Inr (Some (i, ex))
        \<and> comparar_datas_email (data_recebimento e) (data_recebimento ex)")
      case False
      with r Inr c True have "s' = s1"
        by (auto simp: salvar_json_incremental_rapido_def Let_def
            split: sum.splits option.splits if_splits)
      with p1 o1 ok show ?thesis by simp
    next
      case sub: True
      then obtain i ex where f: "encontrar_email_por_ordem (objetos s1 a) k = Inr (Some (i, ex))"
        and cmp: "comparar_datas_email (data_recebimento e) (data_recebimento ex)" by blast
      from r Inr c True f cmp show ?thesis
        by (intro g [where d' = "(objetos s1 a)\<lparr>emails := (emails (objetos s1 a))[i := e],
              ultima_atualizacao := agora amb\<rparr>"])
          (use o1 ok in \<open>auto simp: salvar_json_incremental_rapido_def Let_def total_ok_def\<close>)
    qed
  qed
qed

lemma sincronizar_heap:
  assumes "de < proximo s" "sincronizar_json_para_banco libs amb t s = (r, s')"
  shows "de < proximo s' \<and> objetos s' de = objetos s de"
proof -
  obtain a s1 where c: "carregar_json_existente_rapido amb s = (a, s1)"
    by (cases "carregar_json_existente_rapido amb s")
  with assms(2) have "s' = s1"
    by (auto simp: sincronizar_json_para_banco_def split: sum.splits if_splits)
  with carregar_heap [OF c] assms(1) show ?thesis by auto
qed

text \<open>The number the next built document would get.\<close>

lemma numero_montar:
  "numero_email (montar_email de l x)
     = total_emails_processados (objetos (processo l) de) + emails_processados l + 1"
  by (simp add: montar_email_def)

lemma passo_lote_mono:
  assumes de: "de < proximo (processo l)" and ok: "total_ok (objetos (processo l) de)"
    and p: "passo_lote libs de x l = Inr l'"
  shows "de < proximo (processo l') \<and> total_ok (objetos (processo l') de)
     \<and> numero_email (montar_email de l x) \<le> numero_email (montar_email de l' y)
     \<and> (fst (fst (salvar_json_incremental_rapido (en_amb_salvar x) (montar_email de l x)
                (conjunto_ordens l) (processo l))) \<longrightarrow>
          numero_email (montar_email de l x) < numero_email (montar_email de l' y))"
proof -
  obtain suc os' s1 where
    r: "salvar_json_incremental_rapido (en_amb_salvar x) (montar_email de l x)
          (conjunto_ordens l) (processo l) = ((suc, os'), s1)"
    by (metis prod.exhaust)
  note m = salvar_total_mono [OF de ok r]
  from p obtain atualiza where ca: "conta_atualizacao de l x = Inr atualiza"
    by (auto simp: passo_lote_def split: sum.splits)
  show ?thesis
  proof (cases suc)
    case False
    with p r ca have "processo l' = s1" "emails_processados l' = emails_processados l"
      by (auto simp: passo_lote_def)
    with m False r show ?thesis by (simp add: numero_montar)
  next
    case True
    show ?thesis
    proof (cases "session_db l")
      case None
      with p r ca True have "processo l' = s1" "emails_processados l' = emails_processados l + 1"
        by (auto simp: passo_lote_def)
      with m show ?thesis by (simp add: numero_montar)
    next
      case (Some t)
      obtain rr s2 where sy: "sincronizar_json_para_banco libs (en_amb_sincronizar x) t s1 = (rr, s2)"
        by (cases "sincronizar_json_para_banco libs (en_amb_sincronizar x) t s1")
      with p r ca True Some have "processo l' = s2" "emails_processados l' = emails_processados l + 1"
        by (auto simp: passo_lote_def split: prod.splits)
      moreover from m have "de < proximo s1" by simp
      note sincronizar_heap [OF this sy]
      ultimately show ?thesis using m by (simp add: numero_montar)
    qed
  qed
qed

lemma numeros_atribuidos_limite:
  "de < proximo (processo l) \<Longrightarrow> total_ok (objetos (processo l) de) \<Longrightarrow>
     \<forall>n\<in>set (numeros_atribuidos libs de xs l). numero_email (montar_email de l y) \<le> n"
proof (induction xs arbitrary: l y)
  case Nil
  then show ?case by simp
next
  case (Cons x xs)
  have mesmo: "numero_email (montar_email de l y) = numero_email (montar_email de l x)"
    by (simp add: numero_montar)
  show ?case
  proof (cases "passo_lote libs de x l")
    case (Inl err)
    then show ?thesis by (simp add: mesmo)
  next
    case (Inr l')
    note m = passo_lote_mono [OF Cons.prems Inr]
    from m have a: "de < proximo (processo l')" "total_ok (objetos (processo l') de)" by simp_all
    from m have "numero_email (montar_email de l x) \<le> numero_email (montar_email de l' y)" by simp
    with Cons.IH [OF a, of y] Inr show ?thesis by (auto simp: mesmo)
  qed
qed

lemma numeros_atribuidos_sorted:
  "de < proximo (processo l) \<Longrightarrow> total_ok (objetos (processo l) de) \<Longrightarrow>
     sorted (numeros_atribuidos libs de xs l)"
proof (induction xs arbitrary: l)
  case Nil
  then show ?case by simp
next
  case (Cons x xs)
  show ?case
  proof (cases "passo_lote libs de x l")
    case (Inl err)
    then show ?thesis by simp
  next
    case (Inr l')
    note m = passo_lote_mono [OF Cons.prems Inr]
    from m have a: "de < proximo (processo l')" "total_ok (objetos (processo l') de)" by simp_all
    have "\<forall>n\<in>set (numeros_atribuidos libs de xs l'). numero_email (montar_email de l x) \<le> n"
    proof
      fix n assume "n \<in> set (numeros_atribuidos libs de xs l')"
      with numeros_atribuidos_limite [OF a, of libs xs x]
      have "numero_email (montar_email de l' x) \<le> n" by blast
      moreover from passo_lote_mono [OF Cons.prems Inr, of x]
      have "numero_email (montar_email de l x) \<le> numero_email (montar_email de l' x)" by simp
      ultimately show "numero_email (montar_email de l x) \<le> n" by simp
    qed
    with Cons.IH [OF a] Inr show ?thesis by simp
  qed
qed


text \<open>
  C8, amended. Each document the batch processor builds receives the number
  \<^verbatim>\<open>total_emails_processados\<close> of the store object given to the batch, as that object is
  at that moment, plus the count of documents of the batch saved so far, plus one. When
  that object exists and its total is the length of its \<^verbatim>\<open>emails\<close>, the numbers given
  within one batch never decrease, and the number given after a document that the save
  accepted is strictly greater than that document's number.
\<close>

theorem numero_email_no_lote:
  "numero_email (montar_email de l x)
     = total_emails_processados (objetos (processo l) de) + emails_processados l + 1
   \<and> (de < proximo (processo l) \<and> total_ok (objetos (processo l) de) \<longrightarrow>
        sorted (numeros_atribuidos libs de xs l))
   \<and> (de < proximo (processo l) \<and> total_ok (objetos (processo l) de)
        \<and> passo_lote libs de x l = Inr l'
        \<and> fst (fst (salvar_json_incremental_rapido (en_amb_salvar x) (montar_email de l x)
                  (conjunto_ordens l) (processo l))) \<longrightarrow>
      numero_email (montar_email de l x) < numero_email (montar_email de l' y))"
proof (intro conjI impI)
  show "numero_email (montar_email de l x)
     = total_emails_processados (objetos (processo l) de) + emails_processados l + 1" by (rule numero_montar)
next
  assume "de < proximo (processo l) \<and> total_ok (objetos (processo l) de)"
  then show "sorted (numeros_atribuidos libs de xs l)"
    using numeros_atribuidos_sorted by blast
next
  assume h: "de < proximo (processo l) \<and> total_ok (objetos (processo l) de)
        \<and> passo_lote libs de x l = Inr l'
        \<and> fst (fst (salvar_json_incremental_rapido (en_amb_salvar x) (montar_email de l x)
                  (conjunto_ordens l) (processo l)))"
  then have a: "de < proximo (processo l)" "total_ok (objetos (processo l) de)"
    "passo_lote libs de x l = Inr l'" by simp_all
  from passo_lote_mono [OF a, of y] h
  show "numero_email (montar_email de l x) < numero_email (montar_email de l' y)" by blast
qed

theorem numero_email_no_lote_witness:
  "0 < proximo (processo \<lparr>emails_processados = 0, emails_duplicados = 0, emails_atualizados = 0,
        conjunto_ordens = {}, session_db = None,
        processo = snd (carregar_json_existente_rapido \<lparr>relogio = 1000, agora = ''now'', escrita = EscritaOk\<rparr> estado_inicial)\<rparr>) \<and> total_ok (objetos (processo \<lparr>emails_processados = 0, emails_duplicados = 0, emails_atualizados = 0,
        conjunto_ordens = {}, session_db = None,
        processo = snd (carregar_json_existente_rapido \<lparr>relogio = 1000, agora = ''now'', escrita = EscritaOk\<rparr> estado_inicial)\<rparr>) 0)
   \<and> numeros_atribuidos \<lparr>lib_dateutil_parse = (\<lambda>_. None), lib_md5_hexdigest = (\<lambda>x. x)\<rparr> 0 [\<lparr>en_assunto = ''s'', en_data_str = ''2024-01-01 10:00:00'', en_remetente = ''r'',
          en_dados_exportacao = [(''Ordem'', JStr ''K1'')], en_timestamp = ''p'',
          en_amb_salvar = \<lparr>relogio = 1000, agora = ''now'', escrita = EscritaOk\<rparr>, en_amb_sincronizar = \<lparr>relogio = 1000, agora = ''now'', escrita = EscritaOk\<rparr>\<rparr>, \<lparr>en_assunto = ''s'', en_data_str = ''2024-01-03 10:00:00'', en_remetente = ''r'',
          en_dados_exportacao = [(''Ordem'', JStr ''K2'')], en_timestamp = ''p'',
          en_amb_salvar = \<lparr>relogio = 1000, agora = ''now'', escrita = EscritaOk\<rparr>, en_amb_sincronizar = \<lparr>relogio = 1000, agora = ''now'', escrita = EscritaOk\<rparr>\<rparr>] \<lparr>emails_processados = 0, emails_duplicados = 0, emails_atualizados = 0,
        conjunto_ordens = {}, session_db = None,
        processo = snd (carregar_json_existente_rapido \<lparr>relogio = 1000, agora = ''now'', escrita = EscritaOk\<rparr> estado_inicial)\<rparr> = [1, 2]
   \<and> sorted (numeros_atribuidos \<lparr>lib_dateutil_parse = (\<lambda>_. None), lib_md5_hexdigest = (\<lambda>x. x)\<rparr> 0 [\<lparr>en_assunto = ''s'', en_data_str = ''2024-01-01 10:00:00'', en_remetente = ''r'',
          en_dados_exportacao = [(''Ordem'', JStr ''K1'')], en_timestamp = ''p'',
          en_amb_salvar = \<lparr>relogio = 1000, agora = ''now'', escrita = EscritaOk\<rparr>, en_amb_sincronizar = \<lparr>relogio = 1000, agora = ''now'', escrita = EscritaOk\<rparr>\<rparr>, \<lparr>en_assunto = ''s'', en_data_str = ''2024-01-03 10:00:00'', en_remetente = ''r'',
          en_dados_exportacao = [(''Ordem'', JStr ''K2'')], en_timestamp = ''p'',
          en_amb_salvar = \<lparr>relogio = 1000, agora = ''now'', escrita = EscritaOk\<rparr>, en_amb_sincronizar = \<lparr>relogio = 1000, agora = ''now'', escrita = EscritaOk\<rparr>\<rparr>] \<lparr>emails_processados = 0, emails_duplicados = 0, emails_atualizados = 0,
        conjunto_ordens = {}, session_db = None,
        processo = snd (carregar_json_existente_rapido \<lparr>relogio = 1000, agora = ''now'', escrita = EscritaOk\<rparr> estado_inicial)\<rparr>)
   \<and> fst (fst (salvar_json_incremental_rapido (en_amb_salvar \<lparr>en_assunto = ''s'', en_data_str = ''2024-01-01 10:00:00'', en_remetente = ''r'',
          en_dados_exportacao = [(''Ordem'', JStr ''K1'')], en_timestamp = ''p'',
          en_amb_salvar = \<lparr>relogio = 1000, agora = ''now'', escrita = EscritaOk\<rparr>, en_amb_sincronizar = \<lparr>relogio = 1000, agora = ''now'', escrita = EscritaOk\<rparr>\<rparr>) (montar_email 0 \<lparr>emails_processados = 0, emails_duplicados = 0, emails_atualizados = 0,
        conjunto_ordens = {}, session_db = None,
        processo = snd (carregar_json_existente_rapido \<lparr>relogio = 1000, agora = ''now'', escrita = EscritaOk\<rparr> estado_inicial)\<rparr> \<lparr>en_assunto = ''s'', en_data_str = ''2024-01-01 10:00:00'', en_remetente = ''r'',
          en_dados_exportacao = [(''Ordem'', JStr ''K1'')], en_timestamp = ''p'',
          en_amb_salvar = \<lparr>relogio = 1000, agora = ''now'', escrita = EscritaOk\<rparr>, en_amb_sincronizar = \<lparr>relogio = 1000, agora = ''now'', escrita = EscritaOk\<rparr>\<rparr>)
                  (conjunto_ordens \<lparr>emails_processados = 0, emails_duplicados = 0, emails_atualizados = 0,
        conjunto_ordens = {}, session_db = None,
        processo = snd (carregar_json_existente_rapido \<lparr>relogio = 1000, agora = ''now'', escrita = EscritaOk\<rparr> estado_inicial)\<rparr>) (processo \<lparr>emails_processados = 0, emails_duplicados = 0, emails_atualizados = 0,
        conjunto_ordens = {}, session_db = None,
        processo = snd (carregar_json_existente_rapido \<lparr>relogio = 1000, agora = ''now'', escrita = EscritaOk\<rparr> estado_inicial)\<rparr>)))
   \<and> (\<exists>l'. passo_lote \<lparr>lib_dateutil_parse = (\<lambda>_. None), lib_md5_hexdigest = (\<lambda>x. x)\<rparr> 0 \<lparr>en_assunto = ''s'', en_data_str = ''2024-01-01 10:00:00'', en_remetente = ''r'',
          en_dados_exportacao = [(''Ordem'', JStr ''K1'')], en_timestamp = ''p'',
          en_amb_salvar = \<lparr>relogio = 1000, agora = ''now'', escrita = EscritaOk\<rparr>, en_amb_sincronizar = \<lparr>relogio = 1000, agora = ''now'', escrita = EscritaOk\<rparr>\<rparr> \<lparr>emails_processados = 0, emails_duplicados = 0, emails_atualizados = 0,
        conjunto_ordens = {}, session_db = None,
        processo = snd (carregar_json_existente_rapido \<lparr>relogio = 1000, agora = ''now'', escrita = EscritaOk\<rparr> estado_inicial)\<rparr> = Inr l'
          \<and> numero_email (montar_email 0 \<lparr>emails_processados = 0, emails_duplicados = 0, emails_atualizados = 0,
        conjunto_ordens = {}, session_db = None,
        processo = snd (carregar_json_existente_rapido \<lparr>relogio = 1000, agora = ''now'', escrita = EscritaOk\<rparr> estado_inicial)\<rparr> \<lparr>en_assunto = ''s'', en_data_str = ''2024-01-01 10:00:00'', en_remetente = ''r'',
          en_dados_exportacao = [(''Ordem'', JStr ''K1'')], en_timestamp = ''p'',
          en_amb_salvar = \<lparr>relogio = 1000, agora = ''now'', escrita = EscritaOk\<rparr>, en_amb_sincronizar = \<lparr>relogio = 1000, agora = ''now'', escrita = EscritaOk\<rparr>\<rparr>) < numero_email (montar_email 0 l' \<lparr>en_assunto = ''s'', en_data_str = ''2024-01-03 10:00:00'', en_remetente = ''r'',
          en_dados_exportacao = [(''Ordem'', JStr ''K2'')], en_timestamp = ''p'',
          en_amb_salvar = \<lparr>relogio = 1000, agora = ''now'', escrita = EscritaOk\<rparr>, en_amb_sincronizar = \<lparr>relogio = 1000, agora = ''now'', escrita = EscritaOk\<rparr>\<rparr>))"
proof -
  have p: "0 < proximo (processo \<lparr>emails_processados = 0, emails_duplicados = 0, emails_atualizados = 0,
        conjunto_ordens = {}, session_db = None,
        processo = snd (carregar_json_existente_rapido \<lparr>relogio = 1000, agora = ''now'', escrita = EscritaOk\<rparr> estado_inicial)\<rparr>)" by code_simp
  have t: "total_ok (objetos (processo \<lparr>emails_processados = 0, emails_duplicados = 0, emails_atualizados = 0,
        conjunto_ordens = {}, session_db = None,
        processo = snd (carregar_json_existente_rapido \<lparr>relogio = 1000, agora = ''now'', escrita = EscritaOk\<rparr> estado_inicial)\<rparr>) 0)" by code_simp
  have n: "numeros_atribuidos \<lparr>lib_dateutil_parse = (\<lambda>_. None), lib_md5_hexdigest = (\<lambda>x. x)\<rparr> 0 [\<lparr>en_assunto = ''s'', en_data_str = ''2024-01-01 10:00:00'', en_remetente = ''r'',
          en_dados_exportacao = [(''Ordem'', JStr ''K1'')], en_timestamp = ''p'',
          en_amb_salvar = \<lparr>relogio = 1000, agora = ''now'', escrita = EscritaOk\<rparr>, en_amb_sincronizar = \<lparr>relogio = 1000, agora = ''now'', escrita = EscritaOk\<rparr>\<rparr>, \<lparr>en_assunto = ''s'', en_data_str = ''2024-01-03 10:00:00'', en_remetente = ''r'',
          en_dados_exportacao = [(''Ordem'', JStr ''K2'')], en_timestamp = ''p'',
          en_amb_salvar = \<lparr>relogio = 1000, agora = ''now'', escrita = EscritaOk\<rparr>, en_amb_sincronizar = \<lparr>relogio = 1000, agora = ''now'', escrita = EscritaOk\<rparr>\<rparr>] \<lparr>emails_processados = 0, emails_duplicados = 0, emails_atualizados = 0,
        conjunto_ordens = {}, session_db = None,
        processo = snd (carregar_json_existente_rapido \<lparr>relogio = 1000, agora = ''now'', escrita = EscritaOk\<rparr> estado_inicial)\<rparr> = [1, 2]" by code_simp
  have 1: "sorted (numeros_atribuidos \<lparr>lib_dateutil_parse = (\<lambda>_. None), lib_md5_hexdigest = (\<lambda>x. x)\<rparr> 0 [\<lparr>en_assunto = ''s'', en_data_str = ''2024-01-01 10:00:00'', en_remetente = ''r'',
          en_dados_exportacao = [(''Ordem'', JStr ''K1'')], en_timestamp = ''p'',
          en_amb_salvar = \<lparr>relogio = 1000, agora = ''now'', escrita = EscritaOk\<rparr>, en_amb_sincronizar = \<lparr>relogio = 1000, agora = ''now'', escrita = EscritaOk\<rparr>\<rparr>, \<lparr>en_assunto = ''s'', en_data_str = ''2024-01-03 10:00:00'', en_remetente = ''r'',
          en_dados_exportacao = [(''Ordem'', JStr ''K2'')], en_timestamp = ''p'',
          en_amb_salvar = \<lparr>relogio = 1000, agora = ''now'', escrita = EscritaOk\<rparr>, en_amb_sincronizar = \<lparr>relogio = 1000, agora = ''now'', escrita = EscritaOk\<rparr>\<rparr>] \<lparr>emails_processados = 0, emails_duplicados = 0, emails_atualizados = 0,
        conjunto_ordens = {}, session_db = None,
        processo = snd (carregar_json_existente_rapido \<lparr>relogio = 1000, agora = ''now'', escrita = EscritaOk\<rparr> estado_inicial)\<rparr>)"
    using numero_email_no_lote [where de = 0 and l = "\<lparr>emails_processados = 0, emails_duplicados = 0, emails_atualizados = 0,
        conjunto_ordens = {}, session_db = None,
        processo = snd (carregar_json_existente_rapido \<lparr>relogio = 1000, agora = ''now'', escrita = EscritaOk\<rparr> estado_inicial)\<rparr>" and libs = "\<lparr>lib_dateutil_parse = (\<lambda>_. None), lib_md5_hexdigest = (\<lambda>x. x)\<rparr>" and xs = "[\<lparr>en_assunto = ''s'', en_data_str = ''2024-01-01 10:00:00'', en_remetente = ''r'',
          en_dados_exportacao = [(''Ordem'', JStr ''K1'')], en_timestamp = ''p'',
          en_amb_salvar = \<lparr>relogio = 1000, agora = ''now'', escrita = EscritaOk\<rparr>, en_amb_sincronizar = \<lparr>relogio = 1000, agora = ''now'', escrita = EscritaOk\<rparr>\<rparr>, \<lparr>en_assunto = ''s'', en_data_str = ''2024-01-03 10:00:00'', en_remetente = ''r'',
          en_dados_exportacao = [(''Ordem'', JStr ''K2'')], en_timestamp = ''p'',
          en_amb_salvar = \<lparr>relogio = 1000, agora = ''now'', escrita = EscritaOk\<rparr>, en_amb_sincronizar = \<lparr>relogio = 1000, agora = ''now'', escrita = EscritaOk\<rparr>\<rparr>]",
        THEN conjunct2, THEN conjunct1] p t by blast
  have s: "fst (fst (salvar_json_incremental_rapido (en_amb_salvar \<lparr>en_assunto = ''s'', en_data_str = ''2024-01-01 10:00:00'', en_remetente = ''r'',
          en_dados_exportacao = [(''Ordem'', JStr ''K1'')], en_timestamp = ''p'',
          en_amb_salvar = \<lparr>relogio = 1000, agora = ''now'', escrita = EscritaOk\<rparr>, en_amb_sincronizar = \<lparr>relogio = 1000, agora = ''now'', escrita = EscritaOk\<rparr>\<rparr>) (montar_email 0 \<lparr>emails_processados = 0, emails_duplicados = 0, emails_atualizados = 0,
        conjunto_ordens = {}, session_db = None,
        processo = snd (carregar_json_existente_rapido \<lparr>relogio = 1000, agora = ''now'', escrita = EscritaOk\<rparr> estado_inicial)\<rparr> \<lparr>en_assunto = ''s'', en_data_str = ''2024-01-01 10:00:00'', en_remetente = ''r'',
          en_dados_exportacao = [(''Ordem'', JStr ''K1'')], en_timestamp = ''p'',
          en_amb_salvar = \<lparr>relogio = 1000, agora = ''now'', escrita = EscritaOk\<rparr>, en_amb_sincronizar = \<lparr>relogio = 1000, agora = ''now'', escrita = EscritaOk\<rparr>\<rparr>)
                  (conjunto_ordens \<lparr>emails_processados = 0, emails_duplicados = 0, emails_atualizados = 0,
        conjunto_ordens = {}, session_db = None,
        processo = snd (carregar_json_existente_rapido \<lparr>relogio = 1000, agora = ''now'', escrita = EscritaOk\<rparr> estado_inicial)\<rparr>) (processo \<lparr>emails_processados = 0, emails_duplicados = 0, emails_atualizados = 0,
        conjunto_ordens = {}, session_db = None,
        processo = snd (carregar_json_existente_rapido \<lparr>relogio = 1000, agora = ''now'', escrita = EscritaOk\<rparr> estado_inicial)\<rparr>)))" by code_simp
  have "\<not> isl (passo_lote \<lparr>lib_dateutil_parse = (\<lambda>_. None), lib_md5_hexdigest = (\<lambda>x. x)\<rparr> 0 \<lparr>en_assunto = ''s'', en_data_str = ''2024-01-01 10:00:00'', en_remetente = ''r'',
          en_dados_exportacao = [(''Ordem'', JStr ''K1'')], en_timestamp = ''p'',
          en_amb_salvar = \<lparr>relogio = 1000, agora = ''now'', escrita = EscritaOk\<rparr>, en_amb_sincronizar = \<lparr>relogio = 1000, agora = ''now'', escrita = EscritaOk\<rparr>\<rparr> \<lparr>emails_processados = 0, emails_duplicados = 0, emails_atualizados = 0,
        conjunto_ordens = {}, session_db = None,
        processo = snd (carregar_json_existente_rapido \<lparr>relogio = 1000, agora = ''now'', escrita = EscritaOk\<rparr> estado_inicial)\<rparr>)" by code_simp
  then obtain l' where q: "passo_lote \<lparr>lib_dateutil_parse = (\<lambda>_. None), lib_md5_hexdigest = (\<lambda>x. x)\<rparr> 0 \<lparr>en_assunto = ''s'', en_data_str = ''2024-01-01 10:00:00'', en_remetente = ''r'',
          en_dados_exportacao = [(''Ordem'', JStr ''K1'')], en_timestamp = ''p'',
          en_amb_salvar = \<lparr>relogio = 1000, agora = ''now'', escrita = EscritaOk\<rparr>, en_amb_sincronizar = \<lparr>relogio = 1000, agora = ''now'', escrita = EscritaOk\<rparr>\<rparr> \<lparr>emails_processados = 0, emails_duplicados = 0, emails_atualizados = 0,
        conjunto_ordens = {}, session_db = None,
        processo = snd (carregar_json_existente_rapido \<lparr>relogio = 1000, agora = ''now'', escrita = EscritaOk\<rparr> estado_inicial)\<rparr> = Inr l'"
    by (cases "passo_lote \<lparr>lib_dateutil_parse = (\<lambda>_. None), lib_md5_hexdigest = (\<lambda>x. x)\<rparr> 0 \<lparr>en_assunto = ''s'', en_data_str = ''2024-01-01 10:00:00'', en_remetente = ''r'',
          en_dados_exportacao = [(''Ordem'', JStr ''K1'')], en_timestamp = ''p'',
          en_amb_salvar = \<lparr>relogio = 1000, agora = ''now'', escrita = EscritaOk\<rparr>, en_amb_sincronizar = \<lparr>relogio = 1000, agora = ''now'', escrita = EscritaOk\<rparr>\<rparr> \<lparr>emails_processados = 0, emails_duplicados = 0, emails_atualizados = 0,
        conjunto_ordens = {}, session_db = None,
        processo = snd (carregar_json_existente_rapido \<lparr>relogio = 1000, agora = ''now'', escrita = EscritaOk\<rparr> estado_inicial)\<rparr>") auto
  have "numero_email (montar_email 0 \<lparr>emails_processados = 0, emails_duplicados = 0, emails_atualizados = 0,
        conjunto_ordens = {}, session_db = None,
        processo = snd (carregar_json_existente_rapido \<lparr>relogio = 1000, agora = ''now'', escrita = EscritaOk\<rparr> estado_inicial)\<rparr> \<lparr>en_assunto = ''s'', en_data_str = ''2024-01-01 10:00:00'', en_remetente = ''r'',
          en_dados_exportacao = [(''Ordem'', JStr ''K1'')], en_timestamp = ''p'',
          en_amb_salvar = \<lparr>relogio = 1000, agora = ''now'', escrita = EscritaOk\<rparr>, en_amb_sincronizar = \<lparr>relogio = 1000, agora = ''now'', escrita = EscritaOk\<rparr>\<rparr>) < numero_email (montar_email 0 l' \<lparr>en_assunto = ''s'', en_data_str = ''2024-01-03 10:00:00'', en_remetente = ''r'',
          en_dados_exportacao = [(''Ordem'', JStr ''K2'')], en_timestamp = ''p'',
          en_amb_salvar = \<lparr>relogio = 1000, agora = ''now'', escrita = EscritaOk\<rparr>, en_amb_sincronizar = \<lparr>relogio = 1000, agora = ''now'', escrita = EscritaOk\<rparr>\<rparr>)"
    using numero_email_no_lote [where de = 0 and l = "\<lparr>emails_processados = 0, emails_duplicados = 0, emails_atualizados = 0,
        conjunto_ordens = {}, session_db = None,
        processo = snd (carregar_json_existente_rapido \<lparr>relogio = 1000, agora = ''now'', escrita = EscritaOk\<rparr> estado_inicial)\<rparr>" and libs = "\<lparr>lib_dateutil_parse = (\<lambda>_. None), lib_md5_hexdigest = (\<lambda>x. x)\<rparr>" and x = "\<lparr>en_assunto = ''s'', en_data_str = ''2024-01-01 10:00:00'', en_remetente = ''r'',
          en_dados_exportacao = [(''Ordem'', JStr ''K1'')], en_timestamp = ''p'',
          en_amb_salvar = \<lparr>relogio = 1000, agora = ''now'', escrita = EscritaOk\<rparr>, en_amb_sincronizar = \<lparr>relogio = 1000, agora = ''now'', escrita = EscritaOk\<rparr>\<rparr>"
        and l' = l' and y = "\<lparr>en_assunto = ''s'', en_data_str = ''2024-01-03 10:00:00'', en_remetente = ''r'',
          en_dados_exportacao = [(''Ordem'', JStr ''K2'')], en_timestamp = ''p'',
          en_amb_salvar = \<lparr>relogio = 1000, agora = ''now'', escrita = EscritaOk\<rparr>, en_amb_sincronizar = \<lparr>relogio = 1000, agora = ''now'', escrita = EscritaOk\<rparr>\<rparr>", THEN conjunct2, THEN conjunct2] p t q s by blast
  with q have 2: "\<exists>l'. passo_lote \<lparr>lib_dateutil_parse = (\<lambda>_. None), lib_md5_hexdigest = (\<lambda>x. x)\<rparr> 0 \<lparr>en_assunto = ''s'', en_data_str = ''2024-01-01 10:00:00'', en_remetente = ''r'',
          en_dados_exportacao = [(''Ordem'', JStr ''K1'')], en_timestamp = ''p'',
          en_amb_salvar = \<lparr>relogio = 1000, agora = ''now'', escrita = EscritaOk\<rparr>, en_amb_sincronizar = \<lparr>relogio = 1000, agora = ''now'', escrita = EscritaOk\<rparr>\<rparr> \<lparr>emails_processados = 0, emails_duplicados = 0, emails_atualizados = 0,
        conjunto_ordens = {}, session_db = None,
        processo = snd (carregar_json_existente_rapido \<lparr>relogio = 1000, agora = ''now'', escrita = EscritaOk\<rparr> estado_inicial)\<rparr> = Inr l'
          \<and> numero_email (montar_email 0 \<lparr>emails_processados = 0, emails_duplicados = 0, emails_atualizados = 0,
        conjunto_ordens = {}, session_db = None,
        processo = snd (carregar_json_existente_rapido \<lparr>relogio = 1000, agora = ''now'', escrita = EscritaOk\<rparr> estado_inicial)\<rparr> \<lparr>en_assunto = ''s'', en_data_str = ''2024-01-01 10:00:00'', en_remetente = ''r'',
          en_dados_exportacao = [(''Ordem'', JStr ''K1'')], en_timestamp = ''p'',
          en_amb_salvar = \<lparr>relogio = 1000, agora = ''now'', escrita = EscritaOk\<rparr>, en_amb_sincronizar = \<lparr>relogio = 1000, agora = ''now'', escrita = EscritaOk\<rparr>\<rparr>) < numero_email (montar_email 0 l' \<lparr>en_assunto = ''s'', en_data_str = ''2024-01-03 10:00:00'', en_remetente = ''r'',
          en_dados_exportacao = [(''Ordem'', JStr ''K2'')], en_timestamp = ''p'',
          en_amb_salvar = \<lparr>relogio = 1000, agora = ''now'', escrita = EscritaOk\<rparr>, en_amb_sincronizar = \<lparr>relogio = 1000, agora = ''now'', escrita = EscritaOk\<rparr>\<rparr>)"
    by blast
  from p t n 1 s 2 show ?thesis by blast
qed

end
